theory Spec2Isabelle
  imports Main "HOL-Library.Word" "HOL-Library.Sublist" "HOL-Library.AList"
begin

section \<open>Go and Terraform plugin framework values\<close>

text \<open>
  A Go \<^verbatim>\<open>error\<close> is modelled by the text its \<^verbatim>\<open>Error()\<close> method returns, and a
  nil error by \<open>None\<close>. \<^verbatim>\<open>fmt.Errorf("...: %w", err)\<close> is the concatenation of the
  format's text with the wrapped error's text.
\<close>

type_synonym error = string

text \<open>
  A \<^verbatim>\<open>float64\<close> is only ever copied by the provider, so it is modelled by its 64-bit
  pattern.
\<close>

type_synonym float64 = "64 word"

text \<open>
  An attribute value of the plugin framework (\<^verbatim>\<open>types.String\<close>, \<^verbatim>\<open>types.Bool\<close>,
  \<^verbatim>\<open>types.Float64\<close>, \<^verbatim>\<open>types.List\<close>) is null, unknown or known. The zero value of the
  Go struct is the null value.
\<close>

datatype 'a tf_value = ValueNull | ValueUnknown | ValueKnown 'a

type_synonym tf_String = "string tf_value"
type_synonym tf_Bool = "bool tf_value"
type_synonym tf_List = "tf_String list tf_value"

text \<open>
  A diagnostic is its summary and its detail. The provider's own diagnostics are all
  errors (\<^verbatim>\<open>AddError\<close>), and so are the ones of the framework that the model has. Of
  a diagnostic of the framework the model keeps, as the detail, the line of the
  framework's message that names the reason.
\<close>

type_synonym diagnostics = "(string \<times> string) list"

definition IsNull :: "'a tf_value \<Rightarrow> bool" where
  "IsNull v = (v = ValueNull)"

fun ValueString :: "tf_String \<Rightarrow> string" where
  "ValueString (ValueKnown s) = s"
| "ValueString _ = []"

fun ValueBool :: "tf_Bool \<Rightarrow> bool" where
  "ValueBool (ValueKnown b) = b"
| "ValueBool _ = False"


definition StringValue :: "string \<Rightarrow> tf_String" where
  "StringValue s = ValueKnown s"


definition BoolValue :: "bool \<Rightarrow> tf_Bool" where
  "BoolValue b = ValueKnown b"

definition BoolNull :: tf_Bool where
  "BoolNull = ValueNull"


text \<open>
  What \<^verbatim>\<open>encoding/json\<close> decodes into an \<^verbatim>\<open>interface{}\<close>: nil, bool, float64, string,
  \<^verbatim>\<open>[]interface{}\<close> or \<^verbatim>\<open>map[string]interface{}\<close>.
\<close>

datatype json =
    JNull
  | JBool bool
  | JNumber float64
  | JString string
  | JArray "json list"
  | JObject "(string \<times> json) list"

text \<open>A function of the source either returns or panics.\<close>

datatype 'a run = Panics | Returns 'a

text \<open>
  \<^verbatim>\<open>strings.Contains(s, substr)\<close>: some suffix of \<open>s\<close> starts with \<open>substr\<close>.
\<close>

fun Contains :: "string \<Rightarrow> string \<Rightarrow> bool" where
  "Contains [] substr = (substr = [])"
| "Contains (c # s) substr = (prefix substr (c # s) \<or> Contains s substr)"

text \<open>The verb \<^verbatim>\<open>%d\<close> of \<^verbatim>\<open>fmt\<close>: an integer in decimal.\<close>

definition digit :: "nat \<Rightarrow> char" where
  "digit k =
     (if k = 0 then CHR ''0'' else if k = 1 then CHR ''1'' else if k = 2 then CHR ''2''
      else if k = 3 then CHR ''3'' else if k = 4 then CHR ''4'' else if k = 5 then CHR ''5''
      else if k = 6 then CHR ''6'' else if k = 7 then CHR ''7'' else if k = 8 then CHR ''8''
      else CHR ''9'')"

fun show_nat :: "nat \<Rightarrow> string" where
  "show_nat n = (if n < 10 then [digit n] else show_nat (n div 10) @ [digit (n mod 10)])"

declare show_nat.simps [simp del]

definition show_int :: "int \<Rightarrow> string" where
  "show_int i = (if i < 0 then CHR ''-'' # show_nat (nat (- i)) else show_nat (nat i))"

section \<open>Routes: the model and the request and response mappings\<close>

text \<open>\<^verbatim>\<open>RouteResourceModel\<close> of \<^verbatim>\<open>route_resource.go\<close>.\<close>

record RouteResourceModel =
  r_ID :: tf_String
  r_Name :: tf_String
  r_NamespaceID :: tf_String
  r_From :: tf_String
  r_To :: tf_List
  r_AllowSpdy :: tf_Bool
  r_AllowWebsockets :: tf_Bool
  r_EnableGoogleCloudServerlessAuthentication :: tf_Bool
  r_PassIdentityHeaders :: tf_Bool
  r_PreserveHostHeader :: tf_Bool
  r_ShowErrorDetails :: tf_Bool
  r_TLSSkipVerify :: tf_Bool
  r_TLSUpstreamAllowRenegotiation :: tf_Bool
  r_PolicyIDs :: tf_List
  r_Prefix :: tf_String
  r_PrefixRewrite :: tf_String
  r_KubernetesServiceAccountToken :: tf_String

text \<open>The zero value \<^verbatim>\<open>RouteResourceModel{}\<close>: every attribute null.\<close>

definition RouteResourceModel_zero :: RouteResourceModel where
  "RouteResourceModel_zero =
     \<lparr>r_ID = ValueNull, r_Name = ValueNull, r_NamespaceID = ValueNull, r_From = ValueNull,
      r_To = ValueNull, r_AllowSpdy = ValueNull, r_AllowWebsockets = ValueNull,
      r_EnableGoogleCloudServerlessAuthentication = ValueNull,
      r_PassIdentityHeaders = ValueNull, r_PreserveHostHeader = ValueNull,
      r_ShowErrorDetails = ValueNull, r_TLSSkipVerify = ValueNull,
      r_TLSUpstreamAllowRenegotiation = ValueNull, r_PolicyIDs = ValueNull,
      r_Prefix = ValueNull, r_PrefixRewrite = ValueNull,
      r_KubernetesServiceAccountToken = ValueNull\<rparr>"

text \<open>
  The values stored in the request map (a \<^verbatim>\<open>map[string]interface{}\<close>): a string, a bool
  or a \<^verbatim>\<open>[]string\<close>, where \<open>None\<close> is the nil slice.
\<close>

datatype go_value = GoString string | GoBool bool | GoStrings "string list option"

fun known_strings :: "tf_String list \<Rightarrow> string list option" where
  "known_strings [] = Some []"
| "known_strings (ValueKnown s # vs) =
     (case known_strings vs of None \<Rightarrow> None | Some ss \<Rightarrow> Some (s # ss))"
| "known_strings (_ # vs) = None"

text \<open>
  \<^verbatim>\<open>var to []string; diags := list.ElementsAs(ctx, &to, false)\<close>: the slice after the call
  and the diagnostics. A known list of known strings fills the slice. A null list leaves
  it nil. An unknown list, and a list with an element that is null or unknown, leave it
  nil as well and are reported as a conversion error, the first such element deciding
  which.
\<close>

definition unhandled_null :: "string \<times> string" where
  "unhandled_null =
     (''Value Conversion Error'',
      ''Received null value, however the target type cannot handle null values.'')"

definition unhandled_unknown :: "string \<times> string" where
  "unhandled_unknown =
     (''Value Conversion Error'',
      ''Received unknown value, however the target type cannot handle unknown values.'')"

fun unhandled :: "tf_String list \<Rightarrow> diagnostics" where
  "unhandled [] = []"
| "unhandled (ValueKnown s # vs) = unhandled vs"
| "unhandled (ValueNull # vs) = [unhandled_null]"
| "unhandled (ValueUnknown # vs) = [unhandled_unknown]"

fun ElementsAs :: "tf_List \<Rightarrow> string list option \<times> diagnostics" where
  "ElementsAs ValueNull = (None, [])"
| "ElementsAs ValueUnknown = (None, [unhandled_unknown])"
| "ElementsAs (ValueKnown vs) = (known_strings vs, unhandled vs)"

text \<open>
  \<^verbatim>\<open>createRouteRequest\<close>. It drops the diagnostics of both calls of \<^verbatim>\<open>ElementsAs\<close> and stores
  the slice as it is.
\<close>

definition createRouteRequest :: "RouteResourceModel \<Rightarrow> (string \<rightharpoonup> go_value)" where
  "createRouteRequest model =
     (let req = [''name'' \<mapsto> GoString (ValueString (r_Name model)),
                 ''namespaceId'' \<mapsto> GoString (ValueString (r_NamespaceID model)),
                 ''from'' \<mapsto> GoString (ValueString (r_From model)),
                 ''allowSpdy'' \<mapsto> GoBool (ValueBool (r_AllowSpdy model)),
                 ''enableGoogleCloudServerlessAuthentication'' \<mapsto>
                    GoBool (ValueBool (r_EnableGoogleCloudServerlessAuthentication model)),
                 ''showErrorDetails'' \<mapsto> GoBool (ValueBool (r_ShowErrorDetails model)),
                 ''tlsSkipVerify'' \<mapsto> GoBool (ValueBool (r_TLSSkipVerify model)),
                 ''tlsUpstreamAllowRenegotiation'' \<mapsto>
                    GoBool (ValueBool (r_TLSUpstreamAllowRenegotiation model)),
                 ''kubernetesServiceAccountToken'' \<mapsto>
                    GoString (ValueString (r_KubernetesServiceAccountToken model))];
          req = (if \<not> IsNull (r_To model)
                 then req(''to'' \<mapsto> GoStrings (fst (ElementsAs (r_To model)))) else req);
          req = (if \<not> IsNull (r_AllowWebsockets model)
                 then req(''allowWebsockets'' \<mapsto> GoBool (ValueBool (r_AllowWebsockets model)))
                 else req);
          req = (if \<not> IsNull (r_PassIdentityHeaders model)
                 then req(''passIdentityHeaders'' \<mapsto>
                            GoBool (ValueBool (r_PassIdentityHeaders model)))
                 else req);
          req = (if \<not> IsNull (r_PreserveHostHeader model)
                 then req(''preserveHostHeader'' \<mapsto>
                            GoBool (ValueBool (r_PreserveHostHeader model)))
                 else req);
          req = (if \<not> IsNull (r_PolicyIDs model)
                 then req(''policyIds'' \<mapsto> GoStrings (fst (ElementsAs (r_PolicyIDs model))))
                 else req);
          req = (if \<not> IsNull (r_Prefix model)
                 then req(''prefix'' \<mapsto> GoString (ValueString (r_Prefix model))) else req);
          req = (if \<not> IsNull (r_PrefixRewrite model)
                 then req(''prefixRewrite'' \<mapsto> GoString (ValueString (r_PrefixRewrite model)))
                 else req);
          req = (if \<not> IsNull (r_KubernetesServiceAccountToken model)
                 then req(''kubernetesServiceAccountToken'' \<mapsto>
                            GoString (ValueString (r_KubernetesServiceAccountToken model)))
                 else req)
      in req)"

definition updateRouteRequest :: "RouteResourceModel \<Rightarrow> (string \<rightharpoonup> go_value)" where
  "updateRouteRequest model = createRouteRequest model"

text \<open>The checked type assertions \<^verbatim>\<open>v, ok := x.(T)\<close> on a map entry (nil when absent).\<close>

fun as_string :: "json option \<Rightarrow> string option" where
  "as_string (Some (JString s)) = Some s"
| "as_string _ = None"

fun as_slice :: "json option \<Rightarrow> json list option" where
  "as_slice (Some (JArray vs)) = Some vs"
| "as_slice _ = None"

fun json_strings :: "json list \<Rightarrow> tf_String list option" where
  "json_strings [] = Some []"
| "json_strings (JString s # vs) =
     (case json_strings vs of None \<Rightarrow> None | Some ss \<Rightarrow> Some (ValueKnown s # ss))"
| "json_strings (_ # vs) = None"

text \<open>
  \<^verbatim>\<open>toList, _ := types.ListValueFrom(ctx, types.StringType, to)\<close> on a \<^verbatim>\<open>[]interface{}\<close>:
  the framework gives the known list when every element is a string, and the unknown list
  (with diagnostics, dropped by the source) otherwise.
\<close>

definition ListValueFrom :: "json list \<Rightarrow> tf_List" where
  "ListValueFrom vs = (case json_strings vs of None \<Rightarrow> ValueUnknown | Some ss \<Rightarrow> ValueKnown ss)"

text \<open>The closure \<^verbatim>\<open>toBool\<close> of \<^verbatim>\<open>mapRouteResponseToModel\<close>.\<close>

fun toBool :: "json option \<Rightarrow> tf_Bool" where
  "toBool None = BoolNull"
| "toBool (Some JNull) = BoolNull"
| "toBool (Some (JBool b)) = BoolValue b"
| "toBool (Some _) = BoolNull"

text \<open>
  The four unchecked assertions \<^verbatim>\<open>apiResponse["id"].(string)\<close>, ... panic on a value that
  is not a string; the composite literal evaluates them in order.
\<close>

definition mapRouteResponseToModel :: "(string \<rightharpoonup> json) \<Rightarrow> RouteResourceModel run" where
  "mapRouteResponseToModel apiResponse =
     (case as_string (apiResponse ''id'') of None \<Rightarrow> Panics | Some i \<Rightarrow>
     (case as_string (apiResponse ''name'') of None \<Rightarrow> Panics | Some n \<Rightarrow>
     (case as_string (apiResponse ''namespaceId'') of None \<Rightarrow> Panics | Some ns \<Rightarrow>
     (case as_string (apiResponse ''from'') of None \<Rightarrow> Panics | Some f \<Rightarrow>
      (let model = RouteResourceModel_zero
             \<lparr>r_ID := StringValue i, r_Name := StringValue n,
              r_NamespaceID := StringValue ns, r_From := StringValue f\<rparr>;
           model = (case as_slice (apiResponse ''to'') of
                      Some to \<Rightarrow> model\<lparr>r_To := ListValueFrom to\<rparr>
                    | None \<Rightarrow> model);
           model = model
             \<lparr>r_AllowSpdy := toBool (apiResponse ''allowSpdy''),
              r_AllowWebsockets := toBool (apiResponse ''allowWebsockets''),
              r_EnableGoogleCloudServerlessAuthentication :=
                toBool (apiResponse ''enableGoogleCloudServerlessAuthentication''),
              r_PassIdentityHeaders := toBool (apiResponse ''passIdentityHeaders''),
              r_PreserveHostHeader := toBool (apiResponse ''preserveHostHeader''),
              r_ShowErrorDetails := toBool (apiResponse ''showErrorDetails''),
              r_TLSSkipVerify := toBool (apiResponse ''tlsSkipVerify''),
              r_TLSUpstreamAllowRenegotiation :=
                toBool (apiResponse ''tlsUpstreamAllowRenegotiation'')\<rparr>;
           model = (case as_slice (apiResponse ''policyIds'') of
                      Some policyIDs \<Rightarrow> model\<lparr>r_PolicyIDs := ListValueFrom policyIDs\<rparr>
                    | None \<Rightarrow> model);
           model = (case as_string (apiResponse ''prefix'') of
                      Some pfx \<Rightarrow> model\<lparr>r_Prefix := StringValue pfx\<rparr>
                    | None \<Rightarrow> model);
           model = (case as_string (apiResponse ''prefixRewrite'') of
                      Some rewrite \<Rightarrow> model\<lparr>r_PrefixRewrite := StringValue rewrite\<rparr>
                    | None \<Rightarrow> model);
           model = (case as_string (apiResponse ''kubernetesServiceAccountToken'') of
                      Some t \<Rightarrow> model\<lparr>r_KubernetesServiceAccountToken := StringValue t\<rparr>
                    | None \<Rightarrow> model)
       in Returns model)))))"

section \<open>The HTTP client and the standard library\<close>

text \<open>
  A request as handed to \<^verbatim>\<open>client.Do\<close> and the response it gives back. The body of a
  response is a stream; it is modelled by what reading it to its end yields: the bytes
  read and the error that ended the reading, if it was not the end of the stream.
\<close>

record http_request =
  Method :: string
  URL :: string
  Header :: "(string \<times> string) list"
  RequestBody :: "string option"

record http_response =
  StatusCode :: int
  Body :: "string \<times> error option"

text \<open>
  The library functions and the remote service are parameters of the model. \<open>'p\<close> is the
  type of the value a helper marshals, \<open>'a\<close> the type it decodes the body into.
  \<^item> \<open>NewRequest_error method url\<close>: the error of \<^verbatim>\<open>http.NewRequestWithContext\<close>, if any;
  \<^item> \<open>json_Marshal\<close>: \<^verbatim>\<open>json.Marshal\<close>;
  \<^item> \<open>json_Unmarshal\<close>: \<^verbatim>\<open>json.Unmarshal\<close> of bytes into the helper's target;
  \<^item> \<open>json_Decode\<close>: \<^verbatim>\<open>json.NewDecoder(body).Decode\<close> of a body, a stream, into the helper's
    target;
  \<^item> \<open>client_Do sent req\<close>: what \<^verbatim>\<open>client.Do(req)\<close> returns after the calls \<open>sent\<close>, an error
    or a response.
  The state threaded through every helper is the list of the requests handed to
  \<^verbatim>\<open>client.Do\<close> so far, one entry for each call. The provider builds its client with the
  default redirect policy (\<^verbatim>\<open>&http.Client{Timeout: time.Second * 10}\<close>), so within one call
  the client itself may exchange several requests and responses with the service before
  it returns the last response: that is inside \<open>client_Do\<close>, and the log counts calls of
  \<^verbatim>\<open>client.Do\<close>, not exchanges on the wire.
\<close>

record ('p, 'a) runtime =
  NewRequest_error :: "string \<Rightarrow> string \<Rightarrow> error option"
  json_Marshal :: "'p \<Rightarrow> error + string"
  json_Unmarshal :: "string \<Rightarrow> error + 'a"
  json_Decode :: "string \<times> error option \<Rightarrow> error + 'a"
  client_Do :: "http_request list \<Rightarrow> http_request \<Rightarrow> error + http_response"

text \<open>The fields \<^verbatim>\<open>token\<close> and \<^verbatim>\<open>organizationID\<close> shared by the three resource structs.\<close>

record Resource =
  token :: string
  organizationID :: string

definition apiBaseURL :: string where
  "apiBaseURL = ''https://console.pomerium.app/api/v0''"

definition organizationsEndpoint :: string where
  "organizationsEndpoint = apiBaseURL @ ''/organizations''"

definition StatusOK :: int where "StatusOK = 200"
definition StatusCreated :: int where "StatusCreated = 201"
definition StatusNoContent :: int where "StatusNoContent = 204"
definition StatusNotFound :: int where "StatusNotFound = 404"

definition NewRequestWithContext ::
  "('p, 'a) runtime \<Rightarrow> string \<Rightarrow> string \<Rightarrow> string option \<Rightarrow> error + http_request" where
  "NewRequestWithContext rt method url body =
     (case NewRequest_error rt method url of
        Some err \<Rightarrow> Inl err
      | None \<Rightarrow> Inr \<lparr>Method = method, URL = url, Header = [], RequestBody = body\<rparr>)"

definition Header_Set :: "string \<Rightarrow> string \<Rightarrow> http_request \<Rightarrow> http_request" where
  "Header_Set k v req = req\<lparr>Header := AList.update k v (Header req)\<rparr>"

text \<open>One call of \<^verbatim>\<open>client.Do(req)\<close>.\<close>

definition Do ::
  "('p, 'a) runtime \<Rightarrow> http_request \<Rightarrow> http_request list \<Rightarrow>
     (error + http_response) \<times> http_request list" where
  "Do rt req sent = (client_Do rt sent req, sent @ [req])"

text \<open>
  \<^verbatim>\<open>io.ReadAll(resp.Body)\<close> returns the bytes read, also when it returns an error with them.
\<close>

definition ReadAll :: "http_response \<Rightarrow> string \<times> error option" where
  "ReadAll resp = Body resp"

text \<open>\<^verbatim>\<open>json.NewDecoder(resp.Body).Decode(&v)\<close>.\<close>

definition Decode :: "('p, 'a) runtime \<Rightarrow> http_response \<Rightarrow> error + 'a" where
  "Decode rt resp = json_Decode rt (Body resp)"

text \<open>
  The calls of \<^verbatim>\<open>client.Do\<close> made by one call of a helper: the log grows by at most one
  entry.
\<close>

definition at_most_one_call :: "http_request list \<Rightarrow> http_request list \<Rightarrow> bool" where
  "at_most_one_call sent sent' =
     (take (length sent) sent' = sent \<and> length sent' \<le> length sent + 1)"

section \<open>Routes: the CRUD helpers\<close>

text \<open>A route helper marshals the request map and decodes the body into a map.\<close>

type_synonym route_runtime = "(string \<rightharpoonup> go_value, string \<rightharpoonup> json) runtime"

text \<open>
  A Go function returning \<^verbatim>\<open>(T, error)\<close> returns a pair; the helpers below also return
  the log of requests.
\<close>

definition createRoute ::
  "(string \<rightharpoonup> go_value, string \<rightharpoonup> json) runtime \<Rightarrow> Resource \<Rightarrow> RouteResourceModel \<Rightarrow>
     http_request list \<Rightarrow> (RouteResourceModel \<times> error option) run \<times> http_request list" where
  "createRoute rt r plan sent =
     (let url = apiBaseURL @ ''/organizations/'' @ organizationID r @ ''/routes'';
          routeReq = createRouteRequest plan
      in (case json_Marshal rt routeReq of
            Inl err \<Rightarrow>
              (Returns (RouteResourceModel_zero, Some (''error marshaling route: '' @ err)), sent)
          | Inr body \<Rightarrow>
         (case NewRequestWithContext rt ''POST'' url (Some body) of
            Inl err \<Rightarrow>
              (Returns (RouteResourceModel_zero, Some (''error creating request: '' @ err)), sent)
          | Inr req \<Rightarrow>
         (let req = Header_Set ''Authorization'' (''Bearer '' @ token r) req;
              req = Header_Set ''Content-Type'' ''application/json'' req
          in (case Do rt req sent of
                (Inl err, sent') \<Rightarrow>
                  (Returns (RouteResourceModel_zero, Some (''error making request: '' @ err)),
                   sent')
              | (Inr resp, sent') \<Rightarrow>
             (case ReadAll resp of
                (responseBody, Some err) \<Rightarrow>
                  (Returns (RouteResourceModel_zero,
                            Some (''error reading response body: '' @ err)), sent')
              | (responseBody, None) \<Rightarrow>
             (if StatusCode resp \<noteq> StatusCreated
              then (Returns (RouteResourceModel_zero,
                             Some (''unexpected status code: '' @ show_int (StatusCode resp) @
                                   ''. Response body: '' @ responseBody)), sent')
              else (case json_Unmarshal rt responseBody of
                      Inl err \<Rightarrow>
                        (Returns (RouteResourceModel_zero,
                                  Some (''error unmarshaling response: '' @ err)), sent')
                    | Inr apiResponse \<Rightarrow>
                       (case mapRouteResponseToModel apiResponse of
                          Panics \<Rightarrow> (Panics, sent')
                        | Returns model \<Rightarrow> (Returns (model, None), sent'))))))))))"

text \<open>
  \<^verbatim>\<open>readRoute\<close> returns the decoded map, or nil with the error.
\<close>

definition readRoute ::
  "('p, string \<rightharpoonup> json) runtime \<Rightarrow> Resource \<Rightarrow> string \<Rightarrow> http_request list \<Rightarrow>
     ((string \<rightharpoonup> json) option \<times> error option) \<times> http_request list" where
  "readRoute rt r ident sent =
     (let url = apiBaseURL @ ''/organizations/'' @ organizationID r @ ''/routes/'' @ ident
      in (case NewRequestWithContext rt ''GET'' url None of
            Inl err \<Rightarrow> ((None, Some (''error creating request: '' @ err)), sent)
          | Inr req \<Rightarrow>
         (let req = Header_Set ''Authorization'' (''Bearer '' @ token r) req
          in (case Do rt req sent of
                (Inl err, sent') \<Rightarrow> ((None, Some (''error making request: '' @ err)), sent')
              | (Inr resp, sent') \<Rightarrow>
             (if StatusCode resp \<noteq> StatusOK
              then ((None, Some (''unexpected status code: '' @ show_int (StatusCode resp))),
                    sent')
              else (case Decode rt resp of
                      Inl err \<Rightarrow> ((None, Some (''error decoding response: '' @ err)), sent')
                    | Inr route \<Rightarrow> ((Some route, None), sent')))))))"

definition updateRoute ::
  "(string \<rightharpoonup> go_value, string \<rightharpoonup> json) runtime \<Rightarrow> Resource \<Rightarrow> RouteResourceModel \<Rightarrow>
     http_request list \<Rightarrow> (RouteResourceModel \<times> error option) run \<times> http_request list" where
  "updateRoute rt r plan sent =
     (let url = apiBaseURL @ ''/organizations/'' @ organizationID r @ ''/routes/'' @
                ValueString (r_ID plan);
          routeReq = updateRouteRequest plan
      in (case json_Marshal rt routeReq of
            Inl err \<Rightarrow>
              (Returns (RouteResourceModel_zero, Some (''error marshaling route: '' @ err)), sent)
          | Inr body \<Rightarrow>
         (case NewRequestWithContext rt ''PUT'' url (Some body) of
            Inl err \<Rightarrow>
              (Returns (RouteResourceModel_zero, Some (''error creating request: '' @ err)), sent)
          | Inr req \<Rightarrow>
         (let req = Header_Set ''Authorization'' (''Bearer '' @ token r) req;
              req = Header_Set ''Content-Type'' ''application/json'' req
          in (case Do rt req sent of
                (Inl err, sent') \<Rightarrow>
                  (Returns (RouteResourceModel_zero, Some (''error making request: '' @ err)),
                   sent')
              | (Inr resp, sent') \<Rightarrow>
             (case ReadAll resp of
                (responseBody, Some err) \<Rightarrow>
                  (Returns (RouteResourceModel_zero,
                            Some (''error reading response body: '' @ err)), sent')
              | (responseBody, None) \<Rightarrow>
             (if StatusCode resp \<noteq> StatusOK
              then (Returns (RouteResourceModel_zero,
                             Some (''unexpected status code: '' @ show_int (StatusCode resp) @
                                   ''. Response body: '' @ responseBody)), sent')
              else (case json_Unmarshal rt responseBody of
                      Inl err \<Rightarrow>
                        (Returns (RouteResourceModel_zero,
                                  Some (''error unmarshaling response: '' @ err)), sent')
                    | Inr apiResponse \<Rightarrow>
                       (case mapRouteResponseToModel apiResponse of
                          Panics \<Rightarrow> (Panics, sent')
                        | Returns model \<Rightarrow> (Returns (model, None), sent'))))))))))"

definition deleteRoute ::
  "('p, 'a) runtime \<Rightarrow> Resource \<Rightarrow> string \<Rightarrow> http_request list \<Rightarrow>
     error option \<times> http_request list" where
  "deleteRoute rt r ident sent =
     (let url = apiBaseURL @ ''/organizations/'' @ organizationID r @ ''/routes/'' @ ident
      in (case NewRequestWithContext rt ''DELETE'' url None of
            Inl err \<Rightarrow> (Some (''error creating request: '' @ err), sent)
          | Inr req \<Rightarrow>
         (let req = Header_Set ''Authorization'' (''Bearer '' @ token r) req
          in (case Do rt req sent of
                (Inl err, sent') \<Rightarrow> (Some (''error making request: '' @ err), sent')
              | (Inr resp, sent') \<Rightarrow>
             (if StatusCode resp \<noteq> StatusNoContent
              then (Some (''unexpected status code: '' @ show_int (StatusCode resp)), sent')
              else (None, sent'))))))"

section \<open>Policies\<close>

text \<open>\<^verbatim>\<open>PolicyResourceModel\<close> of \<^verbatim>\<open>policy_resource.go\<close> and the API's \<^verbatim>\<open>Policy\<close>.\<close>

record PolicyResourceModel =
  pm_ID :: tf_String
  pm_Name :: tf_String
  pm_Description :: tf_String
  pm_Enforced :: tf_Bool
  pm_Explanation :: tf_String
  pm_NamespaceID :: tf_String
  pm_PPL :: tf_String
  pm_Remediation :: tf_String

record Policy =
  pol_ID :: string
  pol_Name :: string
  pol_Description :: string
  pol_Enforced :: bool
  pol_Explanation :: string
  pol_NamespaceID :: string
  pol_PPL :: string
  pol_Remediation :: string
  pol_Routes :: "(string \<times> string) list"

record CreatePolicyRequest =
  cpr_Name :: string
  cpr_Description :: string
  cpr_Enforced :: bool
  cpr_Explanation :: string
  cpr_NamespaceID :: string
  cpr_PPL :: json
  cpr_Remediation :: string

record UpdatePolicyRequest =
  upr_NamespaceID :: string
  upr_Name :: string
  upr_Enforced :: bool
  upr_PPL :: json
  upr_Description :: string
  upr_Explanation :: string
  upr_Remediation :: string

definition stringOrEmpty :: "string \<Rightarrow> string" where
  "stringOrEmpty s = (if s = ''null'' then [] else s)"

definition updatePolicyResourceModel :: "PolicyResourceModel \<Rightarrow> Policy \<Rightarrow> PolicyResourceModel" where
  "updatePolicyResourceModel model policy =
     model\<lparr>pm_ID := StringValue (pol_ID policy),
           pm_Name := StringValue (stringOrEmpty (pol_Name policy)),
           pm_Description := StringValue (stringOrEmpty (pol_Description policy)),
           pm_Enforced := BoolValue (pol_Enforced policy),
           pm_Explanation := StringValue (stringOrEmpty (pol_Explanation policy)),
           pm_NamespaceID := StringValue (pol_NamespaceID policy),
           pm_PPL := StringValue (pol_PPL policy),
           pm_Remediation := StringValue (stringOrEmpty (pol_Remediation policy))\<rparr>"

definition createPolicy ::
  "(CreatePolicyRequest, Policy) runtime \<Rightarrow> Resource \<Rightarrow> CreatePolicyRequest \<Rightarrow>
     http_request list \<Rightarrow> (Policy option \<times> error option) \<times> http_request list" where
  "createPolicy rt r policy sent =
     (let url = apiBaseURL @ ''/organizations/'' @ organizationID r @ ''/policies''
      in (case json_Marshal rt policy of
            Inl err \<Rightarrow> ((None, Some (''error marshaling policy: '' @ err)), sent)
          | Inr body \<Rightarrow>
         (case NewRequestWithContext rt ''POST'' url (Some body) of
            Inl err \<Rightarrow> ((None, Some (''error creating request: '' @ err)), sent)
          | Inr req \<Rightarrow>
         (let req = Header_Set ''Authorization'' (''Bearer '' @ token r) req;
              req = Header_Set ''Content-Type'' ''application/json'' req
          in (case Do rt req sent of
                (Inl err, sent') \<Rightarrow> ((None, Some (''error making request: '' @ err)), sent')
              | (Inr resp, sent') \<Rightarrow>
             (case ReadAll resp of
                (responseBody, Some err) \<Rightarrow>
                  ((None, Some (''error reading response body: '' @ err)), sent')
              | (responseBody, None) \<Rightarrow>
             (if StatusCode resp \<noteq> StatusCreated
              then ((None, Some (''unexpected status code: '' @ show_int (StatusCode resp) @
                                 ''. Response body: '' @ responseBody)), sent')
              else (case json_Unmarshal rt responseBody of
                      Inl err \<Rightarrow>
                        ((None, Some (''error unmarshaling response: '' @ err)), sent')
                    | Inr createdPolicy \<Rightarrow> ((Some createdPolicy, None), sent')))))))))"

definition getPolicy ::
  "('p, Policy) runtime \<Rightarrow> Resource \<Rightarrow> string \<Rightarrow> http_request list \<Rightarrow>
     (Policy option \<times> error option) \<times> http_request list" where
  "getPolicy rt r policyID sent =
     (let url = apiBaseURL @ ''/organizations/'' @ organizationID r @ ''/policies/'' @ policyID
      in (case NewRequestWithContext rt ''GET'' url None of
            Inl err \<Rightarrow> ((None, Some (''error creating request: '' @ err)), sent)
          | Inr req \<Rightarrow>
         (let req = Header_Set ''Authorization'' (''Bearer '' @ token r) req;
              req = Header_Set ''Content-Type'' ''application/json'' req
          in (case Do rt req sent of
                (Inl err, sent') \<Rightarrow> ((None, Some (''error making request: '' @ err)), sent')
              | (Inr resp, sent') \<Rightarrow>
             (if StatusCode resp \<noteq> StatusOK
              then ((None, Some (''unexpected status code: '' @ show_int (StatusCode resp))),
                    sent')
              else (case Decode rt resp of
                      Inl err \<Rightarrow> ((None, Some (''error decoding response: '' @ err)), sent')
                    | Inr policy \<Rightarrow> ((Some policy, None), sent')))))))"

definition updatePolicy ::
  "(UpdatePolicyRequest, Policy) runtime \<Rightarrow> Resource \<Rightarrow> string \<Rightarrow> UpdatePolicyRequest \<Rightarrow>
     http_request list \<Rightarrow> (Policy option \<times> error option) \<times> http_request list" where
  "updatePolicy rt r policyID policy sent =
     (let url = apiBaseURL @ ''/organizations/'' @ organizationID r @ ''/policies/'' @ policyID
      in (case json_Marshal rt policy of
            Inl err \<Rightarrow> ((None, Some (''error marshaling policy: '' @ err)), sent)
          | Inr body \<Rightarrow>
         (case NewRequestWithContext rt ''PUT'' url (Some body) of
            Inl err \<Rightarrow> ((None, Some (''error creating request: '' @ err)), sent)
          | Inr req \<Rightarrow>
         (let req = Header_Set ''Authorization'' (''Bearer '' @ token r) req;
              req = Header_Set ''Content-Type'' ''application/json'' req
          in (case Do rt req sent of
                (Inl err, sent') \<Rightarrow> ((None, Some (''error making request: '' @ err)), sent')
              | (Inr resp, sent') \<Rightarrow>
             (case ReadAll resp of
                (responseBody, Some err) \<Rightarrow>
                  ((None, Some (''error reading response body: '' @ err)), sent')
              | (responseBody, None) \<Rightarrow>
             (if StatusCode resp = StatusNotFound
              then ((None, Some (''policy with ID '' @ policyID @
                       '' not found. It may have been deleted outside of Terraform'')), sent')
              else if StatusCode resp \<noteq> StatusOK
              then ((None, Some (''unexpected status code: '' @ show_int (StatusCode resp) @
                                 ''. Response body: '' @ responseBody)), sent')
              else (case json_Unmarshal rt responseBody of
                      Inl err \<Rightarrow>
                        ((None, Some (''error unmarshaling response: '' @ err)), sent')
                    | Inr updatedPolicy \<Rightarrow> ((Some updatedPolicy, None), sent')))))))))"

text \<open>\<^verbatim>\<open>deletePolicy\<close> returns the library's errors as they are, without a prefix.\<close>

definition deletePolicy ::
  "('p, 'a) runtime \<Rightarrow> Resource \<Rightarrow> string \<Rightarrow> http_request list \<Rightarrow>
     error option \<times> http_request list" where
  "deletePolicy rt r policyID sent =
     (let url = apiBaseURL @ ''/organizations/'' @ organizationID r @ ''/policies/'' @ policyID
      in (case NewRequestWithContext rt ''DELETE'' url None of
            Inl err \<Rightarrow> (Some err, sent)
          | Inr req \<Rightarrow>
         (let req = Header_Set ''Authorization'' (''Bearer '' @ token r) req
          in (case Do rt req sent of
                (Inl err, sent') \<Rightarrow> (Some err, sent')
              | (Inr resp, sent') \<Rightarrow>
             (if StatusCode resp \<noteq> StatusNoContent
              then (Some (''unexpected status code: '' @ show_int (StatusCode resp)), sent')
              else (None, sent'))))))"

text \<open>
  What a resource method leaves in its response: the state (\<open>None\<close> once
  \<^verbatim>\<open>RemoveResource\<close> was called) and the error diagnostics, each a summary and a detail.
  The framework initialises the state of a Read or Update response with the prior state.
\<close>

record 'm Response =
  State :: "'m option"
  Diagnostics :: "(string \<times> string) list"

text \<open>
  \<^verbatim>\<open>PolicyResource.Read\<close>, on the prior state. The tags of \<^verbatim>\<open>PolicyResourceModel\<close> are the
  attributes of the policy schema, with the types of the fields, so \<^verbatim>\<open>req.State.Get\<close> gives
  the struct of every state and \<^verbatim>\<open>resp.State.Set\<close> stores every struct: the model takes
  the state as that struct. A nil policy with a nil error would be dereferenced.
\<close>

definition PolicyResource_Read ::
  "('p, Policy) runtime \<Rightarrow> Resource \<Rightarrow> PolicyResourceModel \<Rightarrow> http_request list \<Rightarrow>
     PolicyResourceModel Response run \<times> http_request list" where
  "PolicyResource_Read rt r state sent =
     (case getPolicy rt r (ValueString (pm_ID state)) sent of
        ((policy, Some err), sent') \<Rightarrow>
          (if Contains err ''policy not found''
           then (Returns \<lparr>State = None, Diagnostics = []\<rparr>, sent')
           else (Returns \<lparr>State = Some state,
                          Diagnostics = [(''Error reading policy'', err)]\<rparr>, sent'))
      | ((None, None), sent') \<Rightarrow> (Panics, sent')
      | ((Some policy, None), sent') \<Rightarrow>
          (let state = updatePolicyResourceModel state policy;
               state = state\<lparr>pm_ID := StringValue (pol_ID policy)\<rparr>
           in (Returns \<lparr>State = Some state, Diagnostics = []\<rparr>, sent')))"

section \<open>Cluster settings\<close>


record CreateClusterSettingsRequest =
  ccr_ID :: string
  ccr_Address :: string
  ccr_AuthenticateServiceUrl :: string
  ccr_AutoApplyChangesets :: bool
  ccr_CookieExpire :: string
  ccr_CookieHttpOnly :: bool
  ccr_CookieName :: string
  ccr_DefaultUpstreamTimeout :: string
  ccr_DNSLookupFamily :: string
  ccr_IdentityProvider :: string
  ccr_IdentityProviderClientId :: string
  ccr_IdentityProviderClientSecret :: string
  ccr_IdentityProviderUrl :: string
  ccr_LogLevel :: string
  ccr_PassIdentityHeaders :: bool
  ccr_ProxyLogLevel :: string
  ccr_SkipXffAppend :: bool
  ccr_TimeoutIdle :: string
  ccr_TimeoutRead :: string
  ccr_TimeoutWrite :: string
  ccr_TracingSampleRate :: float64
  ccr_CodecType :: string

record UpdateClusterSettingsRequest =
  ucr_Address :: string
  ucr_AuthenticateServiceUrl :: string
  ucr_AutoApplyChangesets :: bool
  ucr_CookieExpire :: string
  ucr_CookieHttpOnly :: bool
  ucr_CookieName :: string
  ucr_DefaultUpstreamTimeout :: string
  ucr_DNSLookupFamily :: string
  ucr_IdentityProvider :: string
  ucr_IdentityProviderClientId :: string
  ucr_IdentityProviderClientSecret :: "string option"
  ucr_IdentityProviderUrl :: string
  ucr_LogLevel :: string
  ucr_PassIdentityHeaders :: bool
  ucr_ProxyLogLevel :: string
  ucr_SkipXffAppend :: bool
  ucr_TimeoutIdle :: string
  ucr_TimeoutRead :: string
  ucr_TimeoutWrite :: string
  ucr_TracingSampleRate :: float64
  ucr_CodecType :: string

record ClusterSettings =
  cs_ID :: string
  cs_Address :: string
  cs_AuthenticateServiceUrl :: string
  cs_AutoApplyChangesets :: bool
  cs_CookieExpire :: string
  cs_CookieHttpOnly :: bool
  cs_CookieName :: string
  cs_DefaultUpstreamTimeout :: string
  cs_DNSLookupFamily :: string
  cs_IdentityProvider :: string
  cs_IdentityProviderClientId :: string
  cs_IdentityProviderClientSecret :: "string option"
  cs_IdentityProviderUrl :: string
  cs_LogLevel :: string
  cs_PassIdentityHeaders :: bool
  cs_ProxyLogLevel :: string
  cs_SkipXffAppend :: bool
  cs_TimeoutIdle :: string
  cs_TimeoutRead :: string
  cs_TimeoutWrite :: string
  cs_TracingSampleRate :: float64

text \<open>
  The URL \<^verbatim>\<open>fmt.Sprintf("%s/organizations/%s/clusters/%s/settings", apiBaseURL,
  r.organizationID, id)\<close> that each of the four helpers builds.
\<close>

definition settings_url :: "Resource \<Rightarrow> string \<Rightarrow> string" where
  "settings_url r ident =
     apiBaseURL @ ''/organizations/'' @ organizationID r @ ''/clusters/'' @ ident @ ''/settings''"

definition createClusterSettings ::
  "(CreateClusterSettingsRequest, ClusterSettings) runtime \<Rightarrow> Resource \<Rightarrow>
     CreateClusterSettingsRequest \<Rightarrow> http_request list \<Rightarrow>
     (ClusterSettings option \<times> error option) \<times> http_request list" where
  "createClusterSettings rt r settings sent =
     (let url = settings_url r (ccr_ID settings)
      in (case json_Marshal rt settings of
            Inl err \<Rightarrow> ((None, Some (''error marshaling settings: '' @ err)), sent)
          | Inr body \<Rightarrow>
         (case NewRequestWithContext rt ''POST'' url (Some body) of
            Inl err \<Rightarrow> ((None, Some (''error creating request: '' @ err)), sent)
          | Inr req \<Rightarrow>
         (let req = Header_Set ''Authorization'' (''Bearer '' @ token r) req;
              req = Header_Set ''Content-Type'' ''application/json'' req
          in (case Do rt req sent of
                (Inl err, sent') \<Rightarrow> ((None, Some (''error making request: '' @ err)), sent')
              | (Inr resp, sent') \<Rightarrow>
             (if StatusCode resp \<noteq> StatusCreated
              then ((None, Some (''unexpected status code: '' @ show_int (StatusCode resp) @
                                 ''. Response body: '' @ fst (ReadAll resp))), sent')
              else (case Decode rt resp of
                      Inl err \<Rightarrow> ((None, Some (''error decoding response: '' @ err)), sent')
                    | Inr createdSettings \<Rightarrow> ((Some createdSettings, None), sent'))))))))"

definition getClusterSettings ::
  "('p, ClusterSettings) runtime \<Rightarrow> Resource \<Rightarrow> string \<Rightarrow> http_request list \<Rightarrow>
     (ClusterSettings option \<times> error option) \<times> http_request list" where
  "getClusterSettings rt r ident sent =
     (let url = settings_url r ident
      in (case NewRequestWithContext rt ''GET'' url None of
            Inl err \<Rightarrow> ((None, Some (''error creating request: '' @ err)), sent)
          | Inr req \<Rightarrow>
         (let req = Header_Set ''Authorization'' (''Bearer '' @ token r) req;
              req = Header_Set ''Content-Type'' ''application/json'' req
          in (case Do rt req sent of
                (Inl err, sent') \<Rightarrow> ((None, Some (''error making request: '' @ err)), sent')
              | (Inr resp, sent') \<Rightarrow>
             (if StatusCode resp \<noteq> StatusOK
              then ((None, Some (''unexpected status code: '' @ show_int (StatusCode resp) @
                                 ''. Response body: '' @ fst (ReadAll resp))), sent')
              else (case Decode rt resp of
                      Inl err \<Rightarrow> ((None, Some (''error decoding response: '' @ err)), sent')
                    | Inr settings \<Rightarrow>
                        ((Some (settings\<lparr>cs_ID := ident\<rparr>), None), sent')))))))"

definition updateClusterSettings ::
  "(UpdateClusterSettingsRequest, ClusterSettings) runtime \<Rightarrow> Resource \<Rightarrow> string \<Rightarrow>
     UpdateClusterSettingsRequest \<Rightarrow> http_request list \<Rightarrow>
     (ClusterSettings option \<times> error option) \<times> http_request list" where
  "updateClusterSettings rt r ident settings sent =
     (let url = settings_url r ident
      in (case json_Marshal rt settings of
            Inl err \<Rightarrow> ((None, Some (''error marshaling settings: '' @ err)), sent)
          | Inr body \<Rightarrow>
         (case NewRequestWithContext rt ''PUT'' url (Some body) of
            Inl err \<Rightarrow> ((None, Some (''error creating request: '' @ err)), sent)
          | Inr req \<Rightarrow>
         (let req = Header_Set ''Authorization'' (''Bearer '' @ token r) req;
              req = Header_Set ''Content-Type'' ''application/json'' req
          in (case Do rt req sent of
                (Inl err, sent') \<Rightarrow> ((None, Some (''error making request: '' @ err)), sent')
              | (Inr resp, sent') \<Rightarrow>
             (if StatusCode resp \<noteq> StatusOK
              then ((None, Some (''unexpected status code: '' @ show_int (StatusCode resp) @
                                 ''. Response body: '' @ fst (ReadAll resp))), sent')
              else (case Decode rt resp of
                      Inl err \<Rightarrow> ((None, Some (''error decoding response: '' @ err)), sent')
                    | Inr updatedSettings \<Rightarrow> ((Some updatedSettings, None), sent'))))))))"

definition deleteClusterSettings ::
  "('p, 'a) runtime \<Rightarrow> Resource \<Rightarrow> string \<Rightarrow> http_request list \<Rightarrow>
     error option \<times> http_request list" where
  "deleteClusterSettings rt r ident sent =
     (let url = settings_url r ident
      in (case NewRequestWithContext rt ''DELETE'' url None of
            Inl err \<Rightarrow> (Some (''error creating request: '' @ err), sent)
          | Inr req \<Rightarrow>
         (let req = Header_Set ''Authorization'' (''Bearer '' @ token r) req
          in (case Do rt req sent of
                (Inl err, sent') \<Rightarrow> (Some (''error making request: '' @ err), sent')
              | (Inr resp, sent') \<Rightarrow>
             (if StatusCode resp \<noteq> StatusNoContent
              then (Some (''unexpected status code: '' @ show_int (StatusCode resp) @
                          ''. Response body: '' @ fst (ReadAll resp)), sent')
              else (None, sent'))))))"



subsection \<open>The schema, the model struct and the framework's conversions\<close>








text \<open>\<^verbatim>\<open>strings.Join\<close>, and the framework's way of listing names in a message.\<close>

fun Join :: "string list \<Rightarrow> string \<Rightarrow> string" where
  "Join [] sep = []"
| "Join [a] sep = a"
| "Join (a # b # bs) sep = a @ sep @ Join (b # bs) sep"













subsection \<open>The resource methods\<close>








section \<open>The provider: resolving the organization\<close>

record Organization =
  org_ID :: string

definition Header_Add :: "string \<Rightarrow> string \<Rightarrow> http_request \<Rightarrow> http_request" where
  "Header_Add k v req = req\<lparr>Header := Header req @ [(k, v)]\<rparr>"

text \<open>\<^verbatim>\<open>getOrganizationID\<close> of the provider; \<open>p_token\<close> is the provider's bearer token.\<close>

definition getOrganizationID ::
  "('p, Organization list) runtime \<Rightarrow> string \<Rightarrow> http_request list \<Rightarrow>
     (string \<times> error option) \<times> http_request list" where
  "getOrganizationID rt p_token sent =
     (case NewRequestWithContext rt ''GET'' organizationsEndpoint None of
        Inl err \<Rightarrow> (([], Some err), sent)
      | Inr req \<Rightarrow>
     (let req = Header_Add ''Authorization'' (''Bearer '' @ p_token) req;
          req = Header_Add ''Content-Type'' ''application/json'' req
      in (case Do rt req sent of
            (Inl err, sent') \<Rightarrow> (([], Some err), sent')
          | (Inr resp, sent') \<Rightarrow>
         (if StatusCode resp \<noteq> StatusOK
          then (([], Some (''unexpected status code: '' @ show_int (StatusCode resp))), sent')
          else (case Decode rt resp of
                  Inl err \<Rightarrow> (([], Some err), sent')
                | Inr organizations \<Rightarrow>
                   (if length organizations \<noteq> 1
                    then (([], Some ''unexpected number of organizations returned''), sent')
                    else ((org_ID (organizations ! 0), None), sent')))))))"

text \<open>
  The request \<^verbatim>\<open>getOrganizationID\<close> builds: a GET of the organizations endpoint with the
  two headers it adds.
\<close>

definition organizations_request :: "string \<Rightarrow> http_request" where
  "organizations_request p_token =
     \<lparr>Method = ''GET'', URL = organizationsEndpoint,
      Header = [(''Authorization'', ''Bearer '' @ p_token),
                (''Content-Type'', ''application/json'')],
      RequestBody = None\<rparr>"

section \<open>Routes: reading the state back\<close>



section \<open>What a helper hands back on failure\<close>

text \<open>
  The three shapes of a failed call: \<^verbatim>\<open>return RouteResourceModel{}, err\<close>,
  \<^verbatim>\<open>return nil, err\<close> and \<^verbatim>\<open>return err\<close>.
\<close>

definition zero_model_and_error :: "(RouteResourceModel \<times> error option) run \<Rightarrow> bool" where
  "zero_model_and_error res =
     (case res of Panics \<Rightarrow> False
      | Returns (model, err) \<Rightarrow> model = RouteResourceModel_zero \<and> err \<noteq> None)"

definition nil_and_error :: "'a option \<times> error option \<Rightarrow> bool" where
  "nil_and_error res = (fst res = None \<and> snd res \<noteq> None)"

text \<open>The error of a result, nil when the call panicked.\<close>

definition run_error :: "('m \<times> error option) run \<Rightarrow> error option" where
  "run_error res = (case res of Panics \<Rightarrow> None | Returns (model, err) \<Rightarrow> err)"

section \<open>The requests of the helpers\<close>

text \<open>
  The URLs that the route and policy helpers format, and the two kinds of request that
  the helpers build: one with the bearer token and the JSON content type, one with the
  bearer token only.
\<close>

definition routes_url :: "Resource \<Rightarrow> string" where
  "routes_url r = apiBaseURL @ ''/organizations/'' @ organizationID r @ ''/routes''"

definition route_url :: "Resource \<Rightarrow> string \<Rightarrow> string" where
  "route_url r ident = apiBaseURL @ ''/organizations/'' @ organizationID r @ ''/routes/'' @ ident"

definition policies_url :: "Resource \<Rightarrow> string" where
  "policies_url r = apiBaseURL @ ''/organizations/'' @ organizationID r @ ''/policies''"

definition policy_url :: "Resource \<Rightarrow> string \<Rightarrow> string" where
  "policy_url r ident =
     apiBaseURL @ ''/organizations/'' @ organizationID r @ ''/policies/'' @ ident"

definition json_request :: "string \<Rightarrow> string \<Rightarrow> Resource \<Rightarrow> string option \<Rightarrow> http_request" where
  "json_request method url r body =
     \<lparr>Method = method, URL = url,
      Header = [(''Authorization'', ''Bearer '' @ token r),
                (''Content-Type'', ''application/json'')],
      RequestBody = body\<rparr>"

definition bearer_request :: "string \<Rightarrow> string \<Rightarrow> Resource \<Rightarrow> http_request" where
  "bearer_request method url r =
     \<lparr>Method = method, URL = url,
      Header = [(''Authorization'', ''Bearer '' @ token r)],
      RequestBody = None\<rparr>"


section \<open>Concrete inputs\<close>

text \<open>
  A runtime in which request creation and marshalling succeed, the client gives the
  same answer to every call, and a decoder reports the error of a failed read.
\<close>

definition runtime_answering ::
  "(error + http_response) \<Rightarrow> (string \<Rightarrow> error + 'a) \<Rightarrow> ('p, 'a) runtime" where
  "runtime_answering answer decode =
     \<lparr>NewRequest_error = (\<lambda>method url. None),
      json_Marshal = (\<lambda>v. Inr ''{}''),
      json_Unmarshal = decode,
      json_Decode = (\<lambda>body. case snd body of Some err \<Rightarrow> Inl err | None \<Rightarrow> decode (fst body)),
      client_Do = (\<lambda>sent req. answer)\<rparr>"

definition example_resource :: Resource where
  "example_resource = \<lparr>token = ''t0'', organizationID = ''org''\<rparr>"

definition example_route :: RouteResourceModel where
  "example_route =
     RouteResourceModel_zero
       \<lparr>r_ID := ValueKnown ''r1'',
        r_Name := ValueKnown ''verify'', r_NamespaceID := ValueKnown ''ns1'',
        r_From := ValueKnown ''https://verify.example.com'',
        r_To := ValueKnown [ValueKnown ''https://verify.pomerium.com''],
        r_PassIdentityHeaders := ValueKnown True,
        r_Prefix := ValueKnown ''/app''\<rparr>"

definition example_route_response :: "string \<rightharpoonup> json" where
  "example_route_response =
     [''id'' \<mapsto> JString ''r1'', ''name'' \<mapsto> JString ''verify'',
      ''namespaceId'' \<mapsto> JString ''ns1'', ''from'' \<mapsto> JString ''https://verify.example.com'',
      ''to'' \<mapsto> JString ''https://verify.pomerium.com'', ''allowSpdy'' \<mapsto> JString ''yes'',
      ''showErrorDetails'' \<mapsto> JBool True]"

text \<open>
  The keys that a request map of a route can have, sorted, and \<^verbatim>\<open>json.Marshal\<close> of such a
  map when its strings need no escaping: the keys in sorted order, a nil slice as
  \<^verbatim>\<open>null\<close>.
\<close>

definition route_keys :: "string list" where
  "route_keys =
     [''allowSpdy'', ''allowWebsockets'', ''enableGoogleCloudServerlessAuthentication'',
      ''from'', ''kubernetesServiceAccountToken'', ''name'', ''namespaceId'',
      ''passIdentityHeaders'', ''policyIds'', ''prefix'', ''prefixRewrite'',
      ''preserveHostHeader'', ''showErrorDetails'', ''tlsSkipVerify'',
      ''tlsUpstreamAllowRenegotiation'', ''to'']"

definition quoted :: "string \<Rightarrow> string" where
  "quoted s = CHR 0x22 # s @ [CHR 0x22]"

fun marshal_value :: "go_value \<Rightarrow> string" where
  "marshal_value (GoString s) = quoted s"
| "marshal_value (GoBool b) = (if b then ''true'' else ''false'')"
| "marshal_value (GoStrings None) = ''null''"
| "marshal_value (GoStrings (Some ss)) = ''['' @ Join (map quoted ss) '','' @ '']''"

definition marshal_route :: "(string \<rightharpoonup> go_value) \<Rightarrow> error + string" where
  "marshal_route m =
     Inr (''{'' @
          Join (concat (map (\<lambda>k. case m k of None \<Rightarrow> []
                                 | Some v \<Rightarrow> [quoted k @ '':'' @ marshal_value v]) route_keys))
               '','' @
          ''}'')"

text \<open>The bytes that \<^verbatim>\<open>json.Marshal\<close> gives for the request map of \<open>example_route\<close>.\<close>

definition example_route_json :: string where
  "example_route_json =
     ''{\"allowSpdy\":false,\"enableGoogleCloudServerlessAuthentication\":false,'' @
     ''\"from\":\"https://verify.example.com\",\"kubernetesServiceAccountToken\":\"\",'' @
     ''\"name\":\"verify\",\"namespaceId\":\"ns1\",\"passIdentityHeaders\":true,'' @
     ''\"prefix\":\"/app\",\"showErrorDetails\":false,\"tlsSkipVerify\":false,'' @
     ''\"tlsUpstreamAllowRenegotiation\":false,\"to\":[\"https://verify.pomerium.com\"]}''"

definition no_decode :: "string \<Rightarrow> error + 'a" where
  "no_decode bytes = Inl ''invalid character in JSON''"

definition transport_down :: route_runtime where
  "transport_down = runtime_answering (Inl ''dial tcp: i/o timeout'') no_decode"

definition request_rejected :: route_runtime where
  "request_rejected =
     (runtime_answering (Inl ''unreachable'') no_decode)
       \<lparr>NewRequest_error := (\<lambda>method url. Some ''net/url: invalid control character in URL'')\<rparr>"

definition marshal_failing :: route_runtime where
  "marshal_failing =
     (runtime_answering (Inl ''unreachable'') no_decode)
       \<lparr>json_Marshal := (\<lambda>v. Inl ''json: unsupported value'')\<rparr>"

definition not_found_response :: http_response where
  "not_found_response = \<lparr>StatusCode = 404, Body = (''{\"error\": \"not found\"}'', None)\<rparr>"

definition answering_not_found :: route_runtime where
  "answering_not_found = runtime_answering (Inr not_found_response) no_decode"

definition no_content_response :: http_response where
  "no_content_response = \<lparr>StatusCode = 204, Body = ([], None)\<rparr>"

definition answering_no_content :: route_runtime where
  "answering_no_content = runtime_answering (Inr no_content_response) no_decode"

definition created_garbled_response :: http_response where
  "created_garbled_response = \<lparr>StatusCode = 201, Body = (''<html>'', None)\<rparr>"

definition answering_created_garbled :: route_runtime where
  "answering_created_garbled = runtime_answering (Inr created_garbled_response) no_decode"

text \<open>A service that stores the route and answers with it.\<close>

definition created_response :: http_response where
  "created_response = \<lparr>StatusCode = 201, Body = (''{...}'', None)\<rparr>"

definition stored_route :: "string \<rightharpoonup> json" where
  "stored_route =
     [''id'' \<mapsto> JString ''r1'', ''name'' \<mapsto> JString ''verify'',
      ''namespaceId'' \<mapsto> JString ''ns1'', ''from'' \<mapsto> JString ''https://verify.example.com'',
      ''to'' \<mapsto> JArray [JString ''https://verify.pomerium.com''],
      ''policyIds'' \<mapsto> JArray []]"

definition answering_created :: route_runtime where
  "answering_created =
     (runtime_answering (Inr created_response) (\<lambda>bytes. Inr stored_route))
       \<lparr>json_Marshal := marshal_route\<rparr>"

definition ok_response :: http_response where
  "ok_response = \<lparr>StatusCode = 200, Body = (''{...}'', None)\<rparr>"

definition answering_updated :: route_runtime where
  "answering_updated =
     (runtime_answering (Inr ok_response) (\<lambda>bytes. Inr stored_route))
       \<lparr>json_Marshal := marshal_route\<rparr>"

text \<open>A route whose list of targets has a null element.\<close>

definition route_with_null_target :: RouteResourceModel where
  "route_with_null_target = example_route\<lparr>r_To := ValueKnown [ValueNull]\<rparr>"

definition example_policy :: Policy where
  "example_policy =
     \<lparr>pol_ID = ''p1'', pol_Name = ''null'', pol_Description = ''allow all'',
      pol_Enforced = True, pol_Explanation = ''null'', pol_NamespaceID = ''ns1'',
      pol_PPL = ''[]'', pol_Remediation = ''null and void'', pol_Routes = []\<rparr>"

definition example_policy_state :: PolicyResourceModel where
  "example_policy_state =
     \<lparr>pm_ID = ValueKnown ''p1'', pm_Name = ValueKnown ''n'', pm_Description = ValueKnown ''d'',
      pm_Enforced = ValueKnown False, pm_Explanation = ValueKnown ''e'',
      pm_NamespaceID = ValueKnown ''ns1'', pm_PPL = ValueKnown ''[]'',
      pm_Remediation = ValueKnown ''r''\<rparr>"

definition organizations_response :: http_response where
  "organizations_response = \<lparr>StatusCode = 200, Body = (''[...]'', None)\<rparr>"

definition one_organization :: "(unit, Organization list) runtime" where
  "one_organization =
     runtime_answering (Inr organizations_response) (\<lambda>bytes. Inr [\<lparr>org_ID = ''org1''\<rparr>])"

definition two_organizations :: "(unit, Organization list) runtime" where
  "two_organizations =
     runtime_answering (Inr organizations_response)
       (\<lambda>bytes. Inr [\<lparr>org_ID = ''org1''\<rparr>, \<lparr>org_ID = ''org2''\<rparr>])"

definition no_organization :: "(unit, Organization list) runtime" where
  "no_organization = runtime_answering (Inr organizations_response) (\<lambda>bytes. Inr [])"

definition policy_not_found :: "(unit, Policy) runtime" where
  "policy_not_found = runtime_answering (Inr not_found_response) no_decode"

definition proxy_refusing :: "(unit, Policy) runtime" where
  "proxy_refusing =
     runtime_answering
       (Inl ''Get \"https://console.pomerium.app/api/v0/organizations/org/policies/p1\": policy not found'')
       no_decode"








section \<open>Routes: the request map\<close>

lemma cond_upd_apply:
  "(if c then m(k \<mapsto> v) else m) k' = (if c \<and> k = k' then Some v else m k')"
  by simp

lemma createRouteRequest_token:
  "createRouteRequest model ''kubernetesServiceAccountToken'' =
     Some (GoString (ValueString (r_KubernetesServiceAccountToken model)))"
  by (simp add: createRouteRequest_def Let_def cond_upd_apply)

lemma createRouteRequest_prefix:
  "createRouteRequest model ''prefix'' =
     (if IsNull (r_Prefix model) then None else Some (GoString (ValueString (r_Prefix model))))"
  by (simp add: createRouteRequest_def Let_def cond_upd_apply)

lemma createRouteRequest_prefixRewrite:
  "createRouteRequest model ''prefixRewrite'' =
     (if IsNull (r_PrefixRewrite model) then None
      else Some (GoString (ValueString (r_PrefixRewrite model))))"
  by (simp add: createRouteRequest_def Let_def cond_upd_apply)

lemma createRouteRequest_to:
  "createRouteRequest model ''to'' =
     (if IsNull (r_To model) then None else Some (GoStrings (fst (ElementsAs (r_To model)))))"
  by (simp add: createRouteRequest_def Let_def cond_upd_apply)

lemma createRouteRequest_policyIds:
  "createRouteRequest model ''policyIds'' =
     (if IsNull (r_PolicyIDs model) then None
      else Some (GoStrings (fst (ElementsAs (r_PolicyIDs model)))))"
  by (simp add: createRouteRequest_def Let_def cond_upd_apply)

lemma createRouteRequest_allowWebsockets:
  "createRouteRequest model ''allowWebsockets'' =
     (if IsNull (r_AllowWebsockets model) then None
      else Some (GoBool (ValueBool (r_AllowWebsockets model))))"
  by (simp add: createRouteRequest_def Let_def cond_upd_apply)

lemma createRouteRequest_passIdentityHeaders:
  "createRouteRequest model ''passIdentityHeaders'' =
     (if IsNull (r_PassIdentityHeaders model) then None
      else Some (GoBool (ValueBool (r_PassIdentityHeaders model))))"
  by (simp add: createRouteRequest_def Let_def cond_upd_apply)

lemma createRouteRequest_preserveHostHeader:
  "createRouteRequest model ''preserveHostHeader'' =
     (if IsNull (r_PreserveHostHeader model) then None
      else Some (GoBool (ValueBool (r_PreserveHostHeader model))))"
  by (simp add: createRouteRequest_def Let_def cond_upd_apply)

lemma createRouteRequest_literal:
  "createRouteRequest model ''name'' = Some (GoString (ValueString (r_Name model)))"
  "createRouteRequest model ''namespaceId'' = Some (GoString (ValueString (r_NamespaceID model)))"
  "createRouteRequest model ''from'' = Some (GoString (ValueString (r_From model)))"
  "createRouteRequest model ''allowSpdy'' = Some (GoBool (ValueBool (r_AllowSpdy model)))"
  "createRouteRequest model ''enableGoogleCloudServerlessAuthentication'' =
     Some (GoBool (ValueBool (r_EnableGoogleCloudServerlessAuthentication model)))"
  "createRouteRequest model ''showErrorDetails'' =
     Some (GoBool (ValueBool (r_ShowErrorDetails model)))"
  "createRouteRequest model ''tlsSkipVerify'' = Some (GoBool (ValueBool (r_TLSSkipVerify model)))"
  "createRouteRequest model ''tlsUpstreamAllowRenegotiation'' =
     Some (GoBool (ValueBool (r_TLSUpstreamAllowRenegotiation model)))"
  by (simp_all add: createRouteRequest_def Let_def cond_upd_apply)

lemmas createRouteRequest_lookup =
  createRouteRequest_literal createRouteRequest_token createRouteRequest_prefix createRouteRequest_prefixRewrite
  createRouteRequest_to createRouteRequest_policyIds createRouteRequest_allowWebsockets
  createRouteRequest_passIdentityHeaders createRouteRequest_preserveHostHeader

text \<open>
  C9. The request map of \<^verbatim>\<open>createRouteRequest\<close> always has the key
  \<^verbatim>\<open>kubernetesServiceAccountToken\<close>, with the empty string when the model's field is null.
  The keys \<^verbatim>\<open>prefix\<close>, \<^verbatim>\<open>prefixRewrite\<close>, \<^verbatim>\<open>to\<close>, \<^verbatim>\<open>policyIds\<close>, \<^verbatim>\<open>allowWebsockets\<close>,
  \<^verbatim>\<open>passIdentityHeaders\<close> and \<^verbatim>\<open>preserveHostHeader\<close>, the ones the source adds under a null
  check, are absent from the map exactly when the model's field is null.
\<close>

theorem createRouteRequest_optional_keys:
  "createRouteRequest model ''kubernetesServiceAccountToken'' =
     Some (GoString (ValueString (r_KubernetesServiceAccountToken model))) \<and>
   createRouteRequest (model\<lparr>r_KubernetesServiceAccountToken := ValueNull\<rparr>)
     ''kubernetesServiceAccountToken'' = Some (GoString []) \<and>
   (createRouteRequest model ''prefix'' = None) = IsNull (r_Prefix model) \<and>
   (createRouteRequest model ''prefixRewrite'' = None) = IsNull (r_PrefixRewrite model) \<and>
   (createRouteRequest model ''to'' = None) = IsNull (r_To model) \<and>
   (createRouteRequest model ''policyIds'' = None) = IsNull (r_PolicyIDs model) \<and>
   (createRouteRequest model ''allowWebsockets'' = None) = IsNull (r_AllowWebsockets model) \<and>
   (createRouteRequest model ''passIdentityHeaders'' = None) =
     IsNull (r_PassIdentityHeaders model) \<and>
   (createRouteRequest model ''preserveHostHeader'' = None) =
     IsNull (r_PreserveHostHeader model)"
  by (simp add: createRouteRequest_lookup)

theorem createRouteRequest_optional_keys_witness:
  "createRouteRequest example_route ''kubernetesServiceAccountToken'' = Some (GoString []) \<and>
   createRouteRequest example_route ''prefix'' \<noteq> None \<and>
   createRouteRequest example_route ''prefixRewrite'' = None \<and>
   createRouteRequest example_route ''to'' \<noteq> None \<and>
   createRouteRequest example_route ''policyIds'' = None \<and>
   createRouteRequest example_route ''allowWebsockets'' = None \<and>
   createRouteRequest example_route ''passIdentityHeaders'' \<noteq> None \<and>
   createRouteRequest example_route ''preserveHostHeader'' = None"
  using createRouteRequest_optional_keys [of example_route]
  by (simp add: example_route_def RouteResourceModel_zero_def IsNull_def)

section \<open>Policies: the response mapping\<close>

text \<open>
  C6. \<^verbatim>\<open>updatePolicyResourceModel\<close> stores the empty string for the name, the description,
  the explanation and the remediation when the API's value is the four characters
  \<^verbatim>\<open>null\<close>, and the API's value otherwise: \<^verbatim>\<open>stringOrEmpty\<close> is the identity on every other
  string.
\<close>

theorem updatePolicyResourceModel_stringOrEmpty:
  "pm_Name (updatePolicyResourceModel model policy) =
     StringValue (if pol_Name policy = ''null'' then [] else pol_Name policy) \<and>
   pm_Description (updatePolicyResourceModel model policy) =
     StringValue (if pol_Description policy = ''null'' then [] else pol_Description policy) \<and>
   pm_Explanation (updatePolicyResourceModel model policy) =
     StringValue (if pol_Explanation policy = ''null'' then [] else pol_Explanation policy) \<and>
   pm_Remediation (updatePolicyResourceModel model policy) =
     StringValue (if pol_Remediation policy = ''null'' then [] else pol_Remediation policy) \<and>
   stringOrEmpty ''null'' = [] \<and>
   (\<forall>s. s \<noteq> ''null'' \<longrightarrow> stringOrEmpty s = s)"
  by (simp add: updatePolicyResourceModel_def stringOrEmpty_def)

theorem updatePolicyResourceModel_stringOrEmpty_witness:
  "pm_Name (updatePolicyResourceModel example_policy_state example_policy) = ValueKnown [] \<and>
   pm_Description (updatePolicyResourceModel example_policy_state example_policy) =
     ValueKnown ''allow all'' \<and>
   pm_Explanation (updatePolicyResourceModel example_policy_state example_policy) =
     ValueKnown [] \<and>
   pm_Remediation (updatePolicyResourceModel example_policy_state example_policy) =
     ValueKnown ''null and void'' \<and>
   ''null and void'' \<noteq> ''null'' \<and> stringOrEmpty ''null and void'' = ''null and void''"
  using updatePolicyResourceModel_stringOrEmpty [of example_policy_state example_policy]
  by (simp add: example_policy_def StringValue_def)

section \<open>Routes: the response mapping\<close>

lemma as_string_Some: "(as_string v = Some s) = (v = Some (JString s))"
  by (cases v rule: as_string.cases) auto

lemma as_string_None: "(as_string v = None) = (\<forall>s. v \<noteq> Some (JString s))"
  by (cases v rule: as_string.cases) auto

lemma as_slice_None: "(as_slice v = None) = (\<forall>vs. v \<noteq> Some (JArray vs))"
  by (cases v rule: as_slice.cases) auto

lemma toBool_not_bool: "\<forall>b. v \<noteq> Some (JBool b) \<Longrightarrow> toBool v = ValueNull"
  by (cases v rule: toBool.cases) (auto simp: BoolNull_def)

lemma case_option_same: "(case x of None \<Rightarrow> c | Some v \<Rightarrow> c) = c"
  by (cases x) auto

lemma mapRouteResponseToModel_Panics_iff:
  "(mapRouteResponseToModel a = Panics) =
   (as_string (a ''id'') = None \<or> as_string (a ''name'') = None \<or>
    as_string (a ''namespaceId'') = None \<or> as_string (a ''from'') = None)"
  unfolding mapRouteResponseToModel_def
  by (cases "as_string (a ''id'')"; cases "as_string (a ''name'')";
      cases "as_string (a ''namespaceId'')"; cases "as_string (a ''from'')")
     (simp_all add: Let_def)

lemma mapRouteResponseToModel_Returns_iff:
  "(\<exists>model. mapRouteResponseToModel a = Returns model) =
   (\<exists>i n ns f. a ''id'' = Some (JString i) \<and> a ''name'' = Some (JString n) \<and>
      a ''namespaceId'' = Some (JString ns) \<and> a ''from'' = Some (JString f))"
proof -
  have "(\<exists>model. mapRouteResponseToModel a = Returns model) =
        (mapRouteResponseToModel a \<noteq> Panics)"
    by (cases "mapRouteResponseToModel a") simp_all
  also have "\<dots> = (\<exists>i n ns f. as_string (a ''id'') = Some i \<and> as_string (a ''name'') = Some n \<and>
      as_string (a ''namespaceId'') = Some ns \<and> as_string (a ''from'') = Some f)"
    by (simp add: mapRouteResponseToModel_Panics_iff)
  finally show ?thesis by (simp add: as_string_Some)
qed

lemma mapRouteResponseToModel_strings:
  assumes "mapRouteResponseToModel a = Returns m"
  obtains i n ns f where "as_string (a ''id'') = Some i" and "as_string (a ''name'') = Some n"
    and "as_string (a ''namespaceId'') = Some ns" and "as_string (a ''from'') = Some f"
proof -
  from assms have "mapRouteResponseToModel a \<noteq> Panics" by simp
  then show ?thesis using that by (auto simp: mapRouteResponseToModel_Panics_iff)
qed


lemma mapRouteResponseToModel_lists:
  assumes "mapRouteResponseToModel a = Returns m"
  shows "r_To m =
           (case as_slice (a ''to'') of None \<Rightarrow> ValueNull | Some vs \<Rightarrow> ListValueFrom vs)"
    and "r_PolicyIDs m =
           (case as_slice (a ''policyIds'') of None \<Rightarrow> ValueNull | Some vs \<Rightarrow> ListValueFrom vs)"
proof -
  obtain i n ns f where s: "as_string (a ''id'') = Some i" "as_string (a ''name'') = Some n"
    "as_string (a ''namespaceId'') = Some ns" "as_string (a ''from'') = Some f"
    using assms by (rule mapRouteResponseToModel_strings)
  show "r_To m =
           (case as_slice (a ''to'') of None \<Rightarrow> ValueNull | Some vs \<Rightarrow> ListValueFrom vs)"
    using assms unfolding mapRouteResponseToModel_def Let_def
    by (clarsimp simp: s option.case_distrib[of r_To] case_option_same
        RouteResourceModel_zero_def cong: option.case_cong)
  show "r_PolicyIDs m =
           (case as_slice (a ''policyIds'') of None \<Rightarrow> ValueNull | Some vs \<Rightarrow> ListValueFrom vs)"
    using assms unfolding mapRouteResponseToModel_def Let_def
    by (clarsimp simp: s option.case_distrib[of r_PolicyIDs] case_option_same
        RouteResourceModel_zero_def cong: option.case_cong)
qed

lemma mapRouteResponseToModel_bools:
  assumes "mapRouteResponseToModel a = Returns m"
  shows "r_AllowSpdy m = toBool (a ''allowSpdy'')"
    and "r_AllowWebsockets m = toBool (a ''allowWebsockets'')"
    and "r_EnableGoogleCloudServerlessAuthentication m =
           toBool (a ''enableGoogleCloudServerlessAuthentication'')"
    and "r_PassIdentityHeaders m = toBool (a ''passIdentityHeaders'')"
    and "r_PreserveHostHeader m = toBool (a ''preserveHostHeader'')"
    and "r_ShowErrorDetails m = toBool (a ''showErrorDetails'')"
    and "r_TLSSkipVerify m = toBool (a ''tlsSkipVerify'')"
    and "r_TLSUpstreamAllowRenegotiation m = toBool (a ''tlsUpstreamAllowRenegotiation'')"
proof -
  obtain i n ns f where s: "as_string (a ''id'') = Some i" "as_string (a ''name'') = Some n"
    "as_string (a ''namespaceId'') = Some ns" "as_string (a ''from'') = Some f"
    using assms by (rule mapRouteResponseToModel_strings)
  show "r_AllowSpdy m = toBool (a ''allowSpdy'')"
    using assms unfolding mapRouteResponseToModel_def Let_def
    by (clarsimp simp: s option.case_distrib[of r_AllowSpdy] case_option_same
        cong: option.case_cong)
  show "r_AllowWebsockets m = toBool (a ''allowWebsockets'')"
    using assms unfolding mapRouteResponseToModel_def Let_def
    by (clarsimp simp: s option.case_distrib[of r_AllowWebsockets] case_option_same
        cong: option.case_cong)
  show "r_EnableGoogleCloudServerlessAuthentication m =
           toBool (a ''enableGoogleCloudServerlessAuthentication'')"
    using assms unfolding mapRouteResponseToModel_def Let_def
    by (clarsimp simp: s
        option.case_distrib[of r_EnableGoogleCloudServerlessAuthentication] case_option_same
        cong: option.case_cong)
  show "r_PassIdentityHeaders m = toBool (a ''passIdentityHeaders'')"
    using assms unfolding mapRouteResponseToModel_def Let_def
    by (clarsimp simp: s option.case_distrib[of r_PassIdentityHeaders] case_option_same
        cong: option.case_cong)
  show "r_PreserveHostHeader m = toBool (a ''preserveHostHeader'')"
    using assms unfolding mapRouteResponseToModel_def Let_def
    by (clarsimp simp: s option.case_distrib[of r_PreserveHostHeader] case_option_same
        cong: option.case_cong)
  show "r_ShowErrorDetails m = toBool (a ''showErrorDetails'')"
    using assms unfolding mapRouteResponseToModel_def Let_def
    by (clarsimp simp: s option.case_distrib[of r_ShowErrorDetails] case_option_same
        cong: option.case_cong)
  show "r_TLSSkipVerify m = toBool (a ''tlsSkipVerify'')"
    using assms unfolding mapRouteResponseToModel_def Let_def
    by (clarsimp simp: s option.case_distrib[of r_TLSSkipVerify] case_option_same
        cong: option.case_cong)
  show "r_TLSUpstreamAllowRenegotiation m = toBool (a ''tlsUpstreamAllowRenegotiation'')"
    using assms unfolding mapRouteResponseToModel_def Let_def
    by (clarsimp simp: s option.case_distrib[of r_TLSUpstreamAllowRenegotiation]
        case_option_same cong: option.case_cong)
qed

text \<open>
  C10. \<^verbatim>\<open>mapRouteResponseToModel\<close> returns exactly when the response map has string values
  for the keys \<^verbatim>\<open>id\<close>, \<^verbatim>\<open>name\<close>, \<^verbatim>\<open>namespaceId\<close> and \<^verbatim>\<open>from\<close>, and panics otherwise. When it
  returns, every boolean attribute is what \<^verbatim>\<open>toBool\<close> makes of the map entry, which is null
  for a missing entry and for one that is not a bool, and the two lists are null when the
  entry is missing or not an array.
\<close>

theorem mapRouteResponseToModel_total_iff:
  "((\<exists>model. mapRouteResponseToModel a = Returns model) =
      (\<exists>i n ns f. a ''id'' = Some (JString i) \<and> a ''name'' = Some (JString n) \<and>
         a ''namespaceId'' = Some (JString ns) \<and> a ''from'' = Some (JString f))) \<and>
   ((mapRouteResponseToModel a = Panics) =
      (\<not> (\<exists>i n ns f. a ''id'' = Some (JString i) \<and> a ''name'' = Some (JString n) \<and>
         a ''namespaceId'' = Some (JString ns) \<and> a ''from'' = Some (JString f)))) \<and>
   (\<forall>m. mapRouteResponseToModel a = Returns m \<longrightarrow>
      r_AllowSpdy m = toBool (a ''allowSpdy'') \<and>
      r_AllowWebsockets m = toBool (a ''allowWebsockets'') \<and>
      r_EnableGoogleCloudServerlessAuthentication m =
        toBool (a ''enableGoogleCloudServerlessAuthentication'') \<and>
      r_PassIdentityHeaders m = toBool (a ''passIdentityHeaders'') \<and>
      r_PreserveHostHeader m = toBool (a ''preserveHostHeader'') \<and>
      r_ShowErrorDetails m = toBool (a ''showErrorDetails'') \<and>
      r_TLSSkipVerify m = toBool (a ''tlsSkipVerify'') \<and>
      r_TLSUpstreamAllowRenegotiation m = toBool (a ''tlsUpstreamAllowRenegotiation'') \<and>
      r_To m = (case as_slice (a ''to'') of None \<Rightarrow> ValueNull | Some vs \<Rightarrow> ListValueFrom vs) \<and>
      r_PolicyIDs m =
        (case as_slice (a ''policyIds'') of None \<Rightarrow> ValueNull | Some vs \<Rightarrow> ListValueFrom vs)) \<and>
   (\<forall>v. (\<forall>b. v \<noteq> Some (JBool b)) \<longrightarrow> toBool v = ValueNull) \<and>
   (\<forall>v. (as_slice v = None) = (\<forall>vs. v \<noteq> Some (JArray vs)))"
proof (intro conjI allI impI)
  show "(\<exists>model. mapRouteResponseToModel a = Returns model) =
      (\<exists>i n ns f. a ''id'' = Some (JString i) \<and> a ''name'' = Some (JString n) \<and>
         a ''namespaceId'' = Some (JString ns) \<and> a ''from'' = Some (JString f))"
    by (rule mapRouteResponseToModel_Returns_iff)
  then show "(mapRouteResponseToModel a = Panics) =
      (\<not> (\<exists>i n ns f. a ''id'' = Some (JString i) \<and> a ''name'' = Some (JString n) \<and>
         a ''namespaceId'' = Some (JString ns) \<and> a ''from'' = Some (JString f)))"
    by (cases "mapRouteResponseToModel a") auto
qed (simp_all add: mapRouteResponseToModel_bools mapRouteResponseToModel_lists
      toBool_not_bool as_slice_None)

theorem mapRouteResponseToModel_total_iff_witness:
  "mapRouteResponseToModel example_route_response \<noteq> Panics \<and>
   mapRouteResponseToModel (example_route_response(''from'' := None)) = Panics \<and>
   mapRouteResponseToModel (example_route_response(''name'' \<mapsto> JNull)) = Panics \<and>
   (case mapRouteResponseToModel example_route_response of
      Panics \<Rightarrow> False
    | Returns m \<Rightarrow> r_AllowSpdy m = ValueNull \<and> r_AllowWebsockets m = ValueNull \<and>
        r_ShowErrorDetails m = ValueKnown True \<and> r_To m = ValueNull \<and>
        r_PolicyIDs m = ValueNull)"
proof -
  have strings: "\<exists>i n ns f. example_route_response ''id'' = Some (JString i) \<and>
      example_route_response ''name'' = Some (JString n) \<and>
      example_route_response ''namespaceId'' = Some (JString ns) \<and>
      example_route_response ''from'' = Some (JString f)"
    by (simp add: example_route_response_def)
  then obtain m where m: "mapRouteResponseToModel example_route_response = Returns m"
    using mapRouteResponseToModel_total_iff [of example_route_response] by blast
  have fields: "r_AllowSpdy m = ValueNull \<and> r_AllowWebsockets m = ValueNull \<and>
        r_ShowErrorDetails m = ValueKnown True \<and> r_To m = ValueNull \<and>
        r_PolicyIDs m = ValueNull"
    using mapRouteResponseToModel_total_iff [of example_route_response] m
    by (simp add: example_route_response_def BoolNull_def BoolValue_def)
  have "mapRouteResponseToModel (example_route_response(''from'' := None)) = Panics"
    using mapRouteResponseToModel_total_iff [of "example_route_response(''from'' := None)"]
    by (simp add: example_route_response_def)
  moreover have "mapRouteResponseToModel (example_route_response(''name'' \<mapsto> JNull)) = Panics"
    using mapRouteResponseToModel_total_iff [of "example_route_response(''name'' \<mapsto> JNull)"]
    by (simp add: example_route_response_def)
  ultimately show ?thesis using m fields by simp
qed

section \<open>The CRUD helpers: requests issued and errors returned\<close>

lemmas helper_defs =
  Let_def Do_def NewRequestWithContext_def ReadAll_def Decode_def settings_url_def
  zero_model_and_error_def nil_and_error_def

lemmas request_defs =
  routes_url_def route_url_def policies_url_def policy_url_def json_request_def
  bearer_request_def Header_Set_def

lemma createRoute_calls:
  "at_most_one_call sent (snd (createRoute rt r plan sent))"
  by (simp add: createRoute_def helper_defs at_most_one_call_def case_prod_beta
      split: sum.splits option.splits run.splits)

lemma createRoute_marshal_error:
  "json_Marshal rt (createRouteRequest plan) = Inl e \<Longrightarrow>
   createRoute rt r plan sent =
     (Returns (RouteResourceModel_zero, Some (''error marshaling route: '' @ e)), sent)"
  by (simp add: createRoute_def helper_defs request_defs case_prod_beta)

lemma createRoute_request_error:
  "json_Marshal rt (createRouteRequest plan) = Inr body \<Longrightarrow>
   NewRequest_error rt ''POST'' (routes_url r) = Some e \<Longrightarrow>
   createRoute rt r plan sent =
     (Returns (RouteResourceModel_zero, Some (''error creating request: '' @ e)), sent)"
  by (simp add: createRoute_def helper_defs request_defs case_prod_beta)

lemma createRoute_transport_error:
  "json_Marshal rt (createRouteRequest plan) = Inr body \<Longrightarrow>
   NewRequest_error rt ''POST'' (routes_url r) = None \<Longrightarrow>
   client_Do rt sent (json_request ''POST'' (routes_url r) r (Some body)) = Inl e \<Longrightarrow>
   createRoute rt r plan sent =
     (Returns (RouteResourceModel_zero, Some (''error making request: '' @ e)),
      sent @ [json_request ''POST'' (routes_url r) r (Some body)])"
  by (simp add: createRoute_def helper_defs request_defs case_prod_beta)

lemma createRoute_sends:
  "json_Marshal rt (createRouteRequest plan) = Inr body \<Longrightarrow>
   NewRequest_error rt ''POST'' (routes_url r) = None \<Longrightarrow>
   snd (createRoute rt r plan sent) =
     sent @ [json_request ''POST'' (routes_url r) r (Some body)]"
  by (simp add: createRoute_def helper_defs request_defs case_prod_beta
      split: sum.splits option.splits run.splits)

lemma createRoute_no_error_iff:
  "json_Marshal rt (createRouteRequest plan) = Inr body \<Longrightarrow>
   NewRequest_error rt ''POST'' (routes_url r) = None \<Longrightarrow>
   client_Do rt sent (json_request ''POST'' (routes_url r) r (Some body)) = Inr resp \<Longrightarrow>
   (run_error (fst (createRoute rt r plan sent)) = None) =
     (StatusCode resp = StatusCreated \<and> snd (ReadAll resp) = None \<and>
       \<not> isl (json_Unmarshal rt (fst (ReadAll resp))))"
  by (simp add: createRoute_def helper_defs request_defs case_prod_beta run_error_def
      StatusOK_def StatusNotFound_def split: sum.splits option.splits run.splits)

lemma createRoute_error_iff:
  "json_Marshal rt (createRouteRequest plan) = Inr body \<Longrightarrow>
   NewRequest_error rt ''POST'' (routes_url r) = None \<Longrightarrow>
   client_Do rt sent (json_request ''POST'' (routes_url r) r (Some body)) = Inr resp \<Longrightarrow>
   (run_error (fst (createRoute rt r plan sent)) \<noteq> None) =
     (StatusCode resp \<noteq> StatusCreated \<or> snd (ReadAll resp) \<noteq> None \<or>
       isl (json_Unmarshal rt (fst (ReadAll resp))))"
  by (auto simp: createRoute_no_error_iff)

lemma createRoute_success:
  "json_Marshal rt (createRouteRequest plan) = Inr body \<Longrightarrow>
   NewRequest_error rt ''POST'' (routes_url r) = None \<Longrightarrow>
   client_Do rt sent (json_request ''POST'' (routes_url r) r (Some body)) = Inr resp \<Longrightarrow>
   StatusCode resp = StatusCreated \<Longrightarrow>
   snd (ReadAll resp) = None \<Longrightarrow>
   json_Unmarshal rt (fst (ReadAll resp)) = Inr apiResponse \<Longrightarrow>
   fst (createRoute rt r plan sent) =
     (case mapRouteResponseToModel apiResponse of Panics \<Rightarrow> Panics
      | Returns model \<Rightarrow> Returns (model, None))"
  by (simp add: createRoute_def helper_defs request_defs case_prod_beta
      StatusOK_def StatusNotFound_def split: sum.splits option.splits run.splits)

lemma createRoute_error_no_data:
  "run_error (fst (createRoute rt r plan sent)) \<noteq> None \<Longrightarrow>
   zero_model_and_error (fst (createRoute rt r plan sent))"
proof -
  have "run_error (fst (createRoute rt r plan sent)) \<noteq> None \<longrightarrow>
      zero_model_and_error (fst (createRoute rt r plan sent))"
    by (simp add: createRoute_def helper_defs run_error_def case_prod_beta
        split: sum.splits option.splits run.splits)
  then show "run_error (fst (createRoute rt r plan sent)) \<noteq> None \<Longrightarrow>
   zero_model_and_error (fst (createRoute rt r plan sent))"
    by (rule mp)
qed

lemma createRoute_answered_error:
  assumes "json_Marshal rt (createRouteRequest plan) = Inr body"
    and "NewRequest_error rt ''POST'' (routes_url r) = None"
    and "client_Do rt sent (json_request ''POST'' (routes_url r) r (Some body)) = Inr resp"
    and "StatusCode resp \<noteq> StatusCreated \<or> snd (ReadAll resp) \<noteq> None \<or>
       isl (json_Unmarshal rt (fst (ReadAll resp)))"
  shows "zero_model_and_error (fst (createRoute rt r plan sent))"
proof -
  from assms(1-3) have "(run_error (fst (createRoute rt r plan sent)) \<noteq> None) =
     (StatusCode resp \<noteq> StatusCreated \<or> snd (ReadAll resp) \<noteq> None \<or>
       isl (json_Unmarshal rt (fst (ReadAll resp))))"
    by (rule createRoute_error_iff)
  with assms(4) have "run_error (fst (createRoute rt r plan sent)) \<noteq> None" by blast
  then show ?thesis by (rule createRoute_error_no_data)
qed

lemma readRoute_calls:
  "at_most_one_call sent (snd (readRoute rt r ident sent))"
  by (simp add: readRoute_def helper_defs at_most_one_call_def case_prod_beta
      split: sum.splits option.splits run.splits)

lemma readRoute_request_error:
  "NewRequest_error rt ''GET'' (route_url r ident) = Some e \<Longrightarrow>
   readRoute rt r ident sent =
     ((None, Some (''error creating request: '' @ e)), sent)"
  by (simp add: readRoute_def helper_defs request_defs case_prod_beta)

lemma readRoute_transport_error:
  "NewRequest_error rt ''GET'' (route_url r ident) = None \<Longrightarrow>
   client_Do rt sent (bearer_request ''GET'' (route_url r ident) r) = Inl e \<Longrightarrow>
   readRoute rt r ident sent =
     ((None, Some (''error making request: '' @ e)),
      sent @ [bearer_request ''GET'' (route_url r ident) r])"
  by (simp add: readRoute_def helper_defs request_defs case_prod_beta)

lemma readRoute_sends:
  "NewRequest_error rt ''GET'' (route_url r ident) = None \<Longrightarrow>
   snd (readRoute rt r ident sent) =
     sent @ [bearer_request ''GET'' (route_url r ident) r]"
  by (simp add: readRoute_def helper_defs request_defs case_prod_beta
      split: sum.splits option.splits run.splits)

lemma readRoute_no_error_iff:
  "NewRequest_error rt ''GET'' (route_url r ident) = None \<Longrightarrow>
   client_Do rt sent (bearer_request ''GET'' (route_url r ident) r) = Inr resp \<Longrightarrow>
   (snd (fst (readRoute rt r ident sent)) = None) =
     (StatusCode resp = StatusOK \<and> \<not> isl (Decode rt resp))"
  by (simp add: readRoute_def helper_defs request_defs case_prod_beta run_error_def
      StatusOK_def StatusNotFound_def split: sum.splits option.splits run.splits)

lemma readRoute_error_iff:
  "NewRequest_error rt ''GET'' (route_url r ident) = None \<Longrightarrow>
   client_Do rt sent (bearer_request ''GET'' (route_url r ident) r) = Inr resp \<Longrightarrow>
   (snd (fst (readRoute rt r ident sent)) \<noteq> None) =
     (StatusCode resp \<noteq> StatusOK \<or> isl (Decode rt resp))"
  by (auto simp: readRoute_no_error_iff)

lemma readRoute_success:
  "NewRequest_error rt ''GET'' (route_url r ident) = None \<Longrightarrow>
   client_Do rt sent (bearer_request ''GET'' (route_url r ident) r) = Inr resp \<Longrightarrow>
   StatusCode resp = StatusOK \<Longrightarrow>
   Decode rt resp = Inr route \<Longrightarrow>
   fst (readRoute rt r ident sent) =
     (Some route, None)"
  by (simp add: readRoute_def helper_defs request_defs case_prod_beta
      StatusOK_def StatusNotFound_def split: sum.splits option.splits run.splits)

lemma readRoute_error_no_data:
  "snd (fst (readRoute rt r ident sent)) \<noteq> None \<Longrightarrow>
   nil_and_error (fst (readRoute rt r ident sent))"
proof -
  have "snd (fst (readRoute rt r ident sent)) \<noteq> None \<longrightarrow>
      nil_and_error (fst (readRoute rt r ident sent))"
    by (simp add: readRoute_def helper_defs run_error_def case_prod_beta
        split: sum.splits option.splits run.splits)
  then show "snd (fst (readRoute rt r ident sent)) \<noteq> None \<Longrightarrow>
   nil_and_error (fst (readRoute rt r ident sent))"
    by (rule mp)
qed

lemma readRoute_answered_error:
  assumes "NewRequest_error rt ''GET'' (route_url r ident) = None"
    and "client_Do rt sent (bearer_request ''GET'' (route_url r ident) r) = Inr resp"
    and "StatusCode resp \<noteq> StatusOK \<or> isl (Decode rt resp)"
  shows "nil_and_error (fst (readRoute rt r ident sent))"
proof -
  from assms(1-2) have "(snd (fst (readRoute rt r ident sent)) \<noteq> None) =
     (StatusCode resp \<noteq> StatusOK \<or> isl (Decode rt resp))"
    by (rule readRoute_error_iff)
  with assms(3) have "snd (fst (readRoute rt r ident sent)) \<noteq> None" by blast
  then show ?thesis by (rule readRoute_error_no_data)
qed

lemma updateRoute_calls:
  "at_most_one_call sent (snd (updateRoute rt r plan sent))"
  by (simp add: updateRoute_def helper_defs at_most_one_call_def case_prod_beta
      split: sum.splits option.splits run.splits)

lemma updateRoute_marshal_error:
  "json_Marshal rt (updateRouteRequest plan) = Inl e \<Longrightarrow>
   updateRoute rt r plan sent =
     (Returns (RouteResourceModel_zero, Some (''error marshaling route: '' @ e)), sent)"
  by (simp add: updateRoute_def helper_defs request_defs case_prod_beta)

lemma updateRoute_request_error:
  "json_Marshal rt (updateRouteRequest plan) = Inr body \<Longrightarrow>
   NewRequest_error rt ''PUT'' (route_url r (ValueString (r_ID plan))) = Some e \<Longrightarrow>
   updateRoute rt r plan sent =
     (Returns (RouteResourceModel_zero, Some (''error creating request: '' @ e)), sent)"
  by (simp add: updateRoute_def helper_defs request_defs case_prod_beta)

lemma updateRoute_transport_error:
  "json_Marshal rt (updateRouteRequest plan) = Inr body \<Longrightarrow>
   NewRequest_error rt ''PUT'' (route_url r (ValueString (r_ID plan))) = None \<Longrightarrow>
   client_Do rt sent (json_request ''PUT'' (route_url r (ValueString (r_ID plan))) r (Some body)) = Inl e \<Longrightarrow>
   updateRoute rt r plan sent =
     (Returns (RouteResourceModel_zero, Some (''error making request: '' @ e)),
      sent @ [json_request ''PUT'' (route_url r (ValueString (r_ID plan))) r (Some body)])"
  by (simp add: updateRoute_def helper_defs request_defs case_prod_beta)

lemma updateRoute_sends:
  "json_Marshal rt (updateRouteRequest plan) = Inr body \<Longrightarrow>
   NewRequest_error rt ''PUT'' (route_url r (ValueString (r_ID plan))) = None \<Longrightarrow>
   snd (updateRoute rt r plan sent) =
     sent @ [json_request ''PUT'' (route_url r (ValueString (r_ID plan))) r (Some body)]"
  by (simp add: updateRoute_def helper_defs request_defs case_prod_beta
      split: sum.splits option.splits run.splits)

lemma updateRoute_no_error_iff:
  "json_Marshal rt (updateRouteRequest plan) = Inr body \<Longrightarrow>
   NewRequest_error rt ''PUT'' (route_url r (ValueString (r_ID plan))) = None \<Longrightarrow>
   client_Do rt sent (json_request ''PUT'' (route_url r (ValueString (r_ID plan))) r (Some body)) = Inr resp \<Longrightarrow>
   (run_error (fst (updateRoute rt r plan sent)) = None) =
     (StatusCode resp = StatusOK \<and> snd (ReadAll resp) = None \<and>
       \<not> isl (json_Unmarshal rt (fst (ReadAll resp))))"
  by (simp add: updateRoute_def helper_defs request_defs case_prod_beta run_error_def
      StatusOK_def StatusNotFound_def split: sum.splits option.splits run.splits)

lemma updateRoute_error_iff:
  "json_Marshal rt (updateRouteRequest plan) = Inr body \<Longrightarrow>
   NewRequest_error rt ''PUT'' (route_url r (ValueString (r_ID plan))) = None \<Longrightarrow>
   client_Do rt sent (json_request ''PUT'' (route_url r (ValueString (r_ID plan))) r (Some body)) = Inr resp \<Longrightarrow>
   (run_error (fst (updateRoute rt r plan sent)) \<noteq> None) =
     (StatusCode resp \<noteq> StatusOK \<or> snd (ReadAll resp) \<noteq> None \<or>
       isl (json_Unmarshal rt (fst (ReadAll resp))))"
  by (auto simp: updateRoute_no_error_iff)

lemma updateRoute_success:
  "json_Marshal rt (updateRouteRequest plan) = Inr body \<Longrightarrow>
   NewRequest_error rt ''PUT'' (route_url r (ValueString (r_ID plan))) = None \<Longrightarrow>
   client_Do rt sent (json_request ''PUT'' (route_url r (ValueString (r_ID plan))) r (Some body)) = Inr resp \<Longrightarrow>
   StatusCode resp = StatusOK \<Longrightarrow>
   snd (ReadAll resp) = None \<Longrightarrow>
   json_Unmarshal rt (fst (ReadAll resp)) = Inr apiResponse \<Longrightarrow>
   fst (updateRoute rt r plan sent) =
     (case mapRouteResponseToModel apiResponse of Panics \<Rightarrow> Panics
      | Returns model \<Rightarrow> Returns (model, None))"
  by (simp add: updateRoute_def helper_defs request_defs case_prod_beta
      StatusOK_def StatusNotFound_def split: sum.splits option.splits run.splits)

lemma updateRoute_error_no_data:
  "run_error (fst (updateRoute rt r plan sent)) \<noteq> None \<Longrightarrow>
   zero_model_and_error (fst (updateRoute rt r plan sent))"
proof -
  have "run_error (fst (updateRoute rt r plan sent)) \<noteq> None \<longrightarrow>
      zero_model_and_error (fst (updateRoute rt r plan sent))"
    by (simp add: updateRoute_def helper_defs run_error_def case_prod_beta
        split: sum.splits option.splits run.splits)
  then show "run_error (fst (updateRoute rt r plan sent)) \<noteq> None \<Longrightarrow>
   zero_model_and_error (fst (updateRoute rt r plan sent))"
    by (rule mp)
qed

lemma updateRoute_answered_error:
  assumes "json_Marshal rt (updateRouteRequest plan) = Inr body"
    and "NewRequest_error rt ''PUT'' (route_url r (ValueString (r_ID plan))) = None"
    and "client_Do rt sent (json_request ''PUT'' (route_url r (ValueString (r_ID plan))) r (Some body)) = Inr resp"
    and "StatusCode resp \<noteq> StatusOK \<or> snd (ReadAll resp) \<noteq> None \<or>
       isl (json_Unmarshal rt (fst (ReadAll resp)))"
  shows "zero_model_and_error (fst (updateRoute rt r plan sent))"
proof -
  from assms(1-3) have "(run_error (fst (updateRoute rt r plan sent)) \<noteq> None) =
     (StatusCode resp \<noteq> StatusOK \<or> snd (ReadAll resp) \<noteq> None \<or>
       isl (json_Unmarshal rt (fst (ReadAll resp))))"
    by (rule updateRoute_error_iff)
  with assms(4) have "run_error (fst (updateRoute rt r plan sent)) \<noteq> None" by blast
  then show ?thesis by (rule updateRoute_error_no_data)
qed

lemma deleteRoute_calls:
  "at_most_one_call sent (snd (deleteRoute rt r ident sent))"
  by (simp add: deleteRoute_def helper_defs at_most_one_call_def case_prod_beta
      split: sum.splits option.splits run.splits)

lemma deleteRoute_request_error:
  "NewRequest_error rt ''DELETE'' (route_url r ident) = Some e \<Longrightarrow>
   deleteRoute rt r ident sent =
     (Some (''error creating request: '' @ e), sent)"
  by (simp add: deleteRoute_def helper_defs request_defs case_prod_beta)

lemma deleteRoute_transport_error:
  "NewRequest_error rt ''DELETE'' (route_url r ident) = None \<Longrightarrow>
   client_Do rt sent (bearer_request ''DELETE'' (route_url r ident) r) = Inl e \<Longrightarrow>
   deleteRoute rt r ident sent =
     (Some (''error making request: '' @ e),
      sent @ [bearer_request ''DELETE'' (route_url r ident) r])"
  by (simp add: deleteRoute_def helper_defs request_defs case_prod_beta)

lemma deleteRoute_sends:
  "NewRequest_error rt ''DELETE'' (route_url r ident) = None \<Longrightarrow>
   snd (deleteRoute rt r ident sent) =
     sent @ [bearer_request ''DELETE'' (route_url r ident) r]"
  by (simp add: deleteRoute_def helper_defs request_defs case_prod_beta
      split: sum.splits option.splits run.splits)

lemma deleteRoute_no_error_iff:
  "NewRequest_error rt ''DELETE'' (route_url r ident) = None \<Longrightarrow>
   client_Do rt sent (bearer_request ''DELETE'' (route_url r ident) r) = Inr resp \<Longrightarrow>
   (fst (deleteRoute rt r ident sent) = None) =
     (StatusCode resp = StatusNoContent)"
  by (simp add: deleteRoute_def helper_defs request_defs case_prod_beta run_error_def
      StatusOK_def StatusNotFound_def split: sum.splits option.splits run.splits)

lemma deleteRoute_error_iff:
  "NewRequest_error rt ''DELETE'' (route_url r ident) = None \<Longrightarrow>
   client_Do rt sent (bearer_request ''DELETE'' (route_url r ident) r) = Inr resp \<Longrightarrow>
   (fst (deleteRoute rt r ident sent) \<noteq> None) =
     (StatusCode resp \<noteq> StatusNoContent)"
  by (auto simp: deleteRoute_no_error_iff)

lemma deleteRoute_answered_error:
  assumes "NewRequest_error rt ''DELETE'' (route_url r ident) = None"
    and "client_Do rt sent (bearer_request ''DELETE'' (route_url r ident) r) = Inr resp"
    and "StatusCode resp \<noteq> StatusNoContent"
  shows "fst (deleteRoute rt r ident sent) \<noteq> None"
proof -
  from assms(1-2) have "(fst (deleteRoute rt r ident sent) \<noteq> None) =
     (StatusCode resp \<noteq> StatusNoContent)"
    by (rule deleteRoute_error_iff)
  with assms(3) have "fst (deleteRoute rt r ident sent) \<noteq> None" by blast
  then show ?thesis .
qed

lemma createPolicy_calls:
  "at_most_one_call sent (snd (createPolicy rtpc r cpolicy sent))"
  by (simp add: createPolicy_def helper_defs at_most_one_call_def case_prod_beta
      split: sum.splits option.splits run.splits)

lemma createPolicy_marshal_error:
  "json_Marshal rtpc cpolicy = Inl e \<Longrightarrow>
   createPolicy rtpc r cpolicy sent =
     ((None, Some (''error marshaling policy: '' @ e)), sent)"
  by (simp add: createPolicy_def helper_defs request_defs case_prod_beta)

lemma createPolicy_request_error:
  "json_Marshal rtpc cpolicy = Inr body \<Longrightarrow>
   NewRequest_error rtpc ''POST'' (policies_url r) = Some e \<Longrightarrow>
   createPolicy rtpc r cpolicy sent =
     ((None, Some (''error creating request: '' @ e)), sent)"
  by (simp add: createPolicy_def helper_defs request_defs case_prod_beta)

lemma createPolicy_transport_error:
  "json_Marshal rtpc cpolicy = Inr body \<Longrightarrow>
   NewRequest_error rtpc ''POST'' (policies_url r) = None \<Longrightarrow>
   client_Do rtpc sent (json_request ''POST'' (policies_url r) r (Some body)) = Inl e \<Longrightarrow>
   createPolicy rtpc r cpolicy sent =
     ((None, Some (''error making request: '' @ e)),
      sent @ [json_request ''POST'' (policies_url r) r (Some body)])"
  by (simp add: createPolicy_def helper_defs request_defs case_prod_beta)

lemma createPolicy_sends:
  "json_Marshal rtpc cpolicy = Inr body \<Longrightarrow>
   NewRequest_error rtpc ''POST'' (policies_url r) = None \<Longrightarrow>
   snd (createPolicy rtpc r cpolicy sent) =
     sent @ [json_request ''POST'' (policies_url r) r (Some body)]"
  by (simp add: createPolicy_def helper_defs request_defs case_prod_beta
      split: sum.splits option.splits run.splits)

lemma createPolicy_no_error_iff:
  "json_Marshal rtpc cpolicy = Inr body \<Longrightarrow>
   NewRequest_error rtpc ''POST'' (policies_url r) = None \<Longrightarrow>
   client_Do rtpc sent (json_request ''POST'' (policies_url r) r (Some body)) = Inr resp \<Longrightarrow>
   (snd (fst (createPolicy rtpc r cpolicy sent)) = None) =
     (StatusCode resp = StatusCreated \<and> snd (ReadAll resp) = None \<and>
       \<not> isl (json_Unmarshal rtpc (fst (ReadAll resp))))"
  by (simp add: createPolicy_def helper_defs request_defs case_prod_beta run_error_def
      StatusOK_def StatusNotFound_def split: sum.splits option.splits run.splits)

lemma createPolicy_error_iff:
  "json_Marshal rtpc cpolicy = Inr body \<Longrightarrow>
   NewRequest_error rtpc ''POST'' (policies_url r) = None \<Longrightarrow>
   client_Do rtpc sent (json_request ''POST'' (policies_url r) r (Some body)) = Inr resp \<Longrightarrow>
   (snd (fst (createPolicy rtpc r cpolicy sent)) \<noteq> None) =
     (StatusCode resp \<noteq> StatusCreated \<or> snd (ReadAll resp) \<noteq> None \<or>
       isl (json_Unmarshal rtpc (fst (ReadAll resp))))"
  by (auto simp: createPolicy_no_error_iff)

lemma createPolicy_success:
  "json_Marshal rtpc cpolicy = Inr body \<Longrightarrow>
   NewRequest_error rtpc ''POST'' (policies_url r) = None \<Longrightarrow>
   client_Do rtpc sent (json_request ''POST'' (policies_url r) r (Some body)) = Inr resp \<Longrightarrow>
   StatusCode resp = StatusCreated \<Longrightarrow>
   snd (ReadAll resp) = None \<Longrightarrow>
   json_Unmarshal rtpc (fst (ReadAll resp)) = Inr policy \<Longrightarrow>
   fst (createPolicy rtpc r cpolicy sent) =
     (Some policy, None)"
  by (simp add: createPolicy_def helper_defs request_defs case_prod_beta
      StatusOK_def StatusNotFound_def split: sum.splits option.splits run.splits)

lemma createPolicy_error_no_data:
  "snd (fst (createPolicy rtpc r cpolicy sent)) \<noteq> None \<Longrightarrow>
   nil_and_error (fst (createPolicy rtpc r cpolicy sent))"
proof -
  have "snd (fst (createPolicy rtpc r cpolicy sent)) \<noteq> None \<longrightarrow>
      nil_and_error (fst (createPolicy rtpc r cpolicy sent))"
    by (simp add: createPolicy_def helper_defs run_error_def case_prod_beta
        split: sum.splits option.splits run.splits)
  then show "snd (fst (createPolicy rtpc r cpolicy sent)) \<noteq> None \<Longrightarrow>
   nil_and_error (fst (createPolicy rtpc r cpolicy sent))"
    by (rule mp)
qed

lemma createPolicy_answered_error:
  assumes "json_Marshal rtpc cpolicy = Inr body"
    and "NewRequest_error rtpc ''POST'' (policies_url r) = None"
    and "client_Do rtpc sent (json_request ''POST'' (policies_url r) r (Some body)) = Inr resp"
    and "StatusCode resp \<noteq> StatusCreated \<or> snd (ReadAll resp) \<noteq> None \<or>
       isl (json_Unmarshal rtpc (fst (ReadAll resp)))"
  shows "nil_and_error (fst (createPolicy rtpc r cpolicy sent))"
proof -
  from assms(1-3) have "(snd (fst (createPolicy rtpc r cpolicy sent)) \<noteq> None) =
     (StatusCode resp \<noteq> StatusCreated \<or> snd (ReadAll resp) \<noteq> None \<or>
       isl (json_Unmarshal rtpc (fst (ReadAll resp))))"
    by (rule createPolicy_error_iff)
  with assms(4) have "snd (fst (createPolicy rtpc r cpolicy sent)) \<noteq> None" by blast
  then show ?thesis by (rule createPolicy_error_no_data)
qed

lemma getPolicy_calls:
  "at_most_one_call sent (snd (getPolicy rtpc r ident sent))"
  by (simp add: getPolicy_def helper_defs at_most_one_call_def case_prod_beta
      split: sum.splits option.splits run.splits)

lemma getPolicy_request_error:
  "NewRequest_error rtpc ''GET'' (policy_url r ident) = Some e \<Longrightarrow>
   getPolicy rtpc r ident sent =
     ((None, Some (''error creating request: '' @ e)), sent)"
  by (simp add: getPolicy_def helper_defs request_defs case_prod_beta)

lemma getPolicy_transport_error:
  "NewRequest_error rtpc ''GET'' (policy_url r ident) = None \<Longrightarrow>
   client_Do rtpc sent (json_request ''GET'' (policy_url r ident) r None) = Inl e \<Longrightarrow>
   getPolicy rtpc r ident sent =
     ((None, Some (''error making request: '' @ e)),
      sent @ [json_request ''GET'' (policy_url r ident) r None])"
  by (simp add: getPolicy_def helper_defs request_defs case_prod_beta)

lemma getPolicy_sends:
  "NewRequest_error rtpc ''GET'' (policy_url r ident) = None \<Longrightarrow>
   snd (getPolicy rtpc r ident sent) =
     sent @ [json_request ''GET'' (policy_url r ident) r None]"
  by (simp add: getPolicy_def helper_defs request_defs case_prod_beta
      split: sum.splits option.splits run.splits)

lemma getPolicy_no_error_iff:
  "NewRequest_error rtpc ''GET'' (policy_url r ident) = None \<Longrightarrow>
   client_Do rtpc sent (json_request ''GET'' (policy_url r ident) r None) = Inr resp \<Longrightarrow>
   (snd (fst (getPolicy rtpc r ident sent)) = None) =
     (StatusCode resp = StatusOK \<and> \<not> isl (Decode rtpc resp))"
  by (simp add: getPolicy_def helper_defs request_defs case_prod_beta run_error_def
      StatusOK_def StatusNotFound_def split: sum.splits option.splits run.splits)

lemma getPolicy_error_iff:
  "NewRequest_error rtpc ''GET'' (policy_url r ident) = None \<Longrightarrow>
   client_Do rtpc sent (json_request ''GET'' (policy_url r ident) r None) = Inr resp \<Longrightarrow>
   (snd (fst (getPolicy rtpc r ident sent)) \<noteq> None) =
     (StatusCode resp \<noteq> StatusOK \<or> isl (Decode rtpc resp))"
  by (auto simp: getPolicy_no_error_iff)

lemma getPolicy_success:
  "NewRequest_error rtpc ''GET'' (policy_url r ident) = None \<Longrightarrow>
   client_Do rtpc sent (json_request ''GET'' (policy_url r ident) r None) = Inr resp \<Longrightarrow>
   StatusCode resp = StatusOK \<Longrightarrow>
   Decode rtpc resp = Inr policy \<Longrightarrow>
   fst (getPolicy rtpc r ident sent) =
     (Some policy, None)"
  by (simp add: getPolicy_def helper_defs request_defs case_prod_beta
      StatusOK_def StatusNotFound_def split: sum.splits option.splits run.splits)

lemma getPolicy_error_no_data:
  "snd (fst (getPolicy rtpc r ident sent)) \<noteq> None \<Longrightarrow>
   nil_and_error (fst (getPolicy rtpc r ident sent))"
proof -
  have "snd (fst (getPolicy rtpc r ident sent)) \<noteq> None \<longrightarrow>
      nil_and_error (fst (getPolicy rtpc r ident sent))"
    by (simp add: getPolicy_def helper_defs run_error_def case_prod_beta
        split: sum.splits option.splits run.splits)
  then show "snd (fst (getPolicy rtpc r ident sent)) \<noteq> None \<Longrightarrow>
   nil_and_error (fst (getPolicy rtpc r ident sent))"
    by (rule mp)
qed

lemma getPolicy_answered_error:
  assumes "NewRequest_error rtpc ''GET'' (policy_url r ident) = None"
    and "client_Do rtpc sent (json_request ''GET'' (policy_url r ident) r None) = Inr resp"
    and "StatusCode resp \<noteq> StatusOK \<or> isl (Decode rtpc resp)"
  shows "nil_and_error (fst (getPolicy rtpc r ident sent))"
proof -
  from assms(1-2) have "(snd (fst (getPolicy rtpc r ident sent)) \<noteq> None) =
     (StatusCode resp \<noteq> StatusOK \<or> isl (Decode rtpc resp))"
    by (rule getPolicy_error_iff)
  with assms(3) have "snd (fst (getPolicy rtpc r ident sent)) \<noteq> None" by blast
  then show ?thesis by (rule getPolicy_error_no_data)
qed

lemma updatePolicy_calls:
  "at_most_one_call sent (snd (updatePolicy rtpu r ident upolicy sent))"
  by (simp add: updatePolicy_def helper_defs at_most_one_call_def case_prod_beta
      split: sum.splits option.splits run.splits)

lemma updatePolicy_marshal_error:
  "json_Marshal rtpu upolicy = Inl e \<Longrightarrow>
   updatePolicy rtpu r ident upolicy sent =
     ((None, Some (''error marshaling policy: '' @ e)), sent)"
  by (simp add: updatePolicy_def helper_defs request_defs case_prod_beta)

lemma updatePolicy_request_error:
  "json_Marshal rtpu upolicy = Inr body \<Longrightarrow>
   NewRequest_error rtpu ''PUT'' (policy_url r ident) = Some e \<Longrightarrow>
   updatePolicy rtpu r ident upolicy sent =
     ((None, Some (''error creating request: '' @ e)), sent)"
  by (simp add: updatePolicy_def helper_defs request_defs case_prod_beta)

lemma updatePolicy_transport_error:
  "json_Marshal rtpu upolicy = Inr body \<Longrightarrow>
   NewRequest_error rtpu ''PUT'' (policy_url r ident) = None \<Longrightarrow>
   client_Do rtpu sent (json_request ''PUT'' (policy_url r ident) r (Some body)) = Inl e \<Longrightarrow>
   updatePolicy rtpu r ident upolicy sent =
     ((None, Some (''error making request: '' @ e)),
      sent @ [json_request ''PUT'' (policy_url r ident) r (Some body)])"
  by (simp add: updatePolicy_def helper_defs request_defs case_prod_beta)

lemma updatePolicy_sends:
  "json_Marshal rtpu upolicy = Inr body \<Longrightarrow>
   NewRequest_error rtpu ''PUT'' (policy_url r ident) = None \<Longrightarrow>
   snd (updatePolicy rtpu r ident upolicy sent) =
     sent @ [json_request ''PUT'' (policy_url r ident) r (Some body)]"
  by (simp add: updatePolicy_def helper_defs request_defs case_prod_beta
      split: sum.splits option.splits run.splits)

lemma updatePolicy_no_error_iff:
  "json_Marshal rtpu upolicy = Inr body \<Longrightarrow>
   NewRequest_error rtpu ''PUT'' (policy_url r ident) = None \<Longrightarrow>
   client_Do rtpu sent (json_request ''PUT'' (policy_url r ident) r (Some body)) = Inr resp \<Longrightarrow>
   (snd (fst (updatePolicy rtpu r ident upolicy sent)) = None) =
     (StatusCode resp = StatusOK \<and> snd (ReadAll resp) = None \<and>
       \<not> isl (json_Unmarshal rtpu (fst (ReadAll resp))))"
  by (simp add: updatePolicy_def helper_defs request_defs case_prod_beta run_error_def
      StatusOK_def StatusNotFound_def split: sum.splits option.splits run.splits)

lemma updatePolicy_error_iff:
  "json_Marshal rtpu upolicy = Inr body \<Longrightarrow>
   NewRequest_error rtpu ''PUT'' (policy_url r ident) = None \<Longrightarrow>
   client_Do rtpu sent (json_request ''PUT'' (policy_url r ident) r (Some body)) = Inr resp \<Longrightarrow>
   (snd (fst (updatePolicy rtpu r ident upolicy sent)) \<noteq> None) =
     (StatusCode resp \<noteq> StatusOK \<or> snd (ReadAll resp) \<noteq> None \<or>
       isl (json_Unmarshal rtpu (fst (ReadAll resp))))"
  by (auto simp: updatePolicy_no_error_iff)

lemma updatePolicy_success:
  "json_Marshal rtpu upolicy = Inr body \<Longrightarrow>
   NewRequest_error rtpu ''PUT'' (policy_url r ident) = None \<Longrightarrow>
   client_Do rtpu sent (json_request ''PUT'' (policy_url r ident) r (Some body)) = Inr resp \<Longrightarrow>
   StatusCode resp = StatusOK \<Longrightarrow>
   snd (ReadAll resp) = None \<Longrightarrow>
   json_Unmarshal rtpu (fst (ReadAll resp)) = Inr policy \<Longrightarrow>
   fst (updatePolicy rtpu r ident upolicy sent) =
     (Some policy, None)"
  by (simp add: updatePolicy_def helper_defs request_defs case_prod_beta
      StatusOK_def StatusNotFound_def split: sum.splits option.splits run.splits)

lemma updatePolicy_error_no_data:
  "snd (fst (updatePolicy rtpu r ident upolicy sent)) \<noteq> None \<Longrightarrow>
   nil_and_error (fst (updatePolicy rtpu r ident upolicy sent))"
proof -
  have "snd (fst (updatePolicy rtpu r ident upolicy sent)) \<noteq> None \<longrightarrow>
      nil_and_error (fst (updatePolicy rtpu r ident upolicy sent))"
    by (simp add: updatePolicy_def helper_defs run_error_def case_prod_beta
        split: sum.splits option.splits run.splits)
  then show "snd (fst (updatePolicy rtpu r ident upolicy sent)) \<noteq> None \<Longrightarrow>
   nil_and_error (fst (updatePolicy rtpu r ident upolicy sent))"
    by (rule mp)
qed

lemma updatePolicy_answered_error:
  assumes "json_Marshal rtpu upolicy = Inr body"
    and "NewRequest_error rtpu ''PUT'' (policy_url r ident) = None"
    and "client_Do rtpu sent (json_request ''PUT'' (policy_url r ident) r (Some body)) = Inr resp"
    and "StatusCode resp \<noteq> StatusOK \<or> snd (ReadAll resp) \<noteq> None \<or>
       isl (json_Unmarshal rtpu (fst (ReadAll resp)))"
  shows "nil_and_error (fst (updatePolicy rtpu r ident upolicy sent))"
proof -
  from assms(1-3) have "(snd (fst (updatePolicy rtpu r ident upolicy sent)) \<noteq> None) =
     (StatusCode resp \<noteq> StatusOK \<or> snd (ReadAll resp) \<noteq> None \<or>
       isl (json_Unmarshal rtpu (fst (ReadAll resp))))"
    by (rule updatePolicy_error_iff)
  with assms(4) have "snd (fst (updatePolicy rtpu r ident upolicy sent)) \<noteq> None" by blast
  then show ?thesis by (rule updatePolicy_error_no_data)
qed

lemma deletePolicy_calls:
  "at_most_one_call sent (snd (deletePolicy rtpu r ident sent))"
  by (simp add: deletePolicy_def helper_defs at_most_one_call_def case_prod_beta
      split: sum.splits option.splits run.splits)

lemma deletePolicy_request_error:
  "NewRequest_error rtpu ''DELETE'' (policy_url r ident) = Some e \<Longrightarrow>
   deletePolicy rtpu r ident sent =
     (Some (e), sent)"
  by (simp add: deletePolicy_def helper_defs request_defs case_prod_beta)

lemma deletePolicy_transport_error:
  "NewRequest_error rtpu ''DELETE'' (policy_url r ident) = None \<Longrightarrow>
   client_Do rtpu sent (bearer_request ''DELETE'' (policy_url r ident) r) = Inl e \<Longrightarrow>
   deletePolicy rtpu r ident sent =
     (Some (e),
      sent @ [bearer_request ''DELETE'' (policy_url r ident) r])"
  by (simp add: deletePolicy_def helper_defs request_defs case_prod_beta)

lemma deletePolicy_sends:
  "NewRequest_error rtpu ''DELETE'' (policy_url r ident) = None \<Longrightarrow>
   snd (deletePolicy rtpu r ident sent) =
     sent @ [bearer_request ''DELETE'' (policy_url r ident) r]"
  by (simp add: deletePolicy_def helper_defs request_defs case_prod_beta
      split: sum.splits option.splits run.splits)

lemma deletePolicy_no_error_iff:
  "NewRequest_error rtpu ''DELETE'' (policy_url r ident) = None \<Longrightarrow>
   client_Do rtpu sent (bearer_request ''DELETE'' (policy_url r ident) r) = Inr resp \<Longrightarrow>
   (fst (deletePolicy rtpu r ident sent) = None) =
     (StatusCode resp = StatusNoContent)"
  by (simp add: deletePolicy_def helper_defs request_defs case_prod_beta run_error_def
      StatusOK_def StatusNotFound_def split: sum.splits option.splits run.splits)

lemma deletePolicy_error_iff:
  "NewRequest_error rtpu ''DELETE'' (policy_url r ident) = None \<Longrightarrow>
   client_Do rtpu sent (bearer_request ''DELETE'' (policy_url r ident) r) = Inr resp \<Longrightarrow>
   (fst (deletePolicy rtpu r ident sent) \<noteq> None) =
     (StatusCode resp \<noteq> StatusNoContent)"
  by (auto simp: deletePolicy_no_error_iff)

lemma deletePolicy_answered_error:
  assumes "NewRequest_error rtpu ''DELETE'' (policy_url r ident) = None"
    and "client_Do rtpu sent (bearer_request ''DELETE'' (policy_url r ident) r) = Inr resp"
    and "StatusCode resp \<noteq> StatusNoContent"
  shows "fst (deletePolicy rtpu r ident sent) \<noteq> None"
proof -
  from assms(1-2) have "(fst (deletePolicy rtpu r ident sent) \<noteq> None) =
     (StatusCode resp \<noteq> StatusNoContent)"
    by (rule deletePolicy_error_iff)
  with assms(3) have "fst (deletePolicy rtpu r ident sent) \<noteq> None" by blast
  then show ?thesis .
qed

lemma createClusterSettings_calls:
  "at_most_one_call sent (snd (createClusterSettings rtsc r csettings sent))"
  by (simp add: createClusterSettings_def helper_defs at_most_one_call_def case_prod_beta
      split: sum.splits option.splits run.splits)

lemma createClusterSettings_marshal_error:
  "json_Marshal rtsc csettings = Inl e \<Longrightarrow>
   createClusterSettings rtsc r csettings sent =
     ((None, Some (''error marshaling settings: '' @ e)), sent)"
  by (simp add: createClusterSettings_def helper_defs request_defs case_prod_beta)

lemma createClusterSettings_request_error:
  "json_Marshal rtsc csettings = Inr body \<Longrightarrow>
   NewRequest_error rtsc ''POST'' (settings_url r (ccr_ID csettings)) = Some e \<Longrightarrow>
   createClusterSettings rtsc r csettings sent =
     ((None, Some (''error creating request: '' @ e)), sent)"
  by (simp add: createClusterSettings_def helper_defs request_defs case_prod_beta)

lemma createClusterSettings_transport_error:
  "json_Marshal rtsc csettings = Inr body \<Longrightarrow>
   NewRequest_error rtsc ''POST'' (settings_url r (ccr_ID csettings)) = None \<Longrightarrow>
   client_Do rtsc sent (json_request ''POST'' (settings_url r (ccr_ID csettings)) r (Some body)) = Inl e \<Longrightarrow>
   createClusterSettings rtsc r csettings sent =
     ((None, Some (''error making request: '' @ e)),
      sent @ [json_request ''POST'' (settings_url r (ccr_ID csettings)) r (Some body)])"
  by (simp add: createClusterSettings_def helper_defs request_defs case_prod_beta)

lemma createClusterSettings_sends:
  "json_Marshal rtsc csettings = Inr body \<Longrightarrow>
   NewRequest_error rtsc ''POST'' (settings_url r (ccr_ID csettings)) = None \<Longrightarrow>
   snd (createClusterSettings rtsc r csettings sent) =
     sent @ [json_request ''POST'' (settings_url r (ccr_ID csettings)) r (Some body)]"
  by (simp add: createClusterSettings_def helper_defs request_defs case_prod_beta
      split: sum.splits option.splits run.splits)

lemma createClusterSettings_no_error_iff:
  "json_Marshal rtsc csettings = Inr body \<Longrightarrow>
   NewRequest_error rtsc ''POST'' (settings_url r (ccr_ID csettings)) = None \<Longrightarrow>
   client_Do rtsc sent (json_request ''POST'' (settings_url r (ccr_ID csettings)) r (Some body)) = Inr resp \<Longrightarrow>
   (snd (fst (createClusterSettings rtsc r csettings sent)) = None) =
     (StatusCode resp = StatusCreated \<and> \<not> isl (Decode rtsc resp))"
  by (simp add: createClusterSettings_def helper_defs request_defs case_prod_beta run_error_def
      StatusOK_def StatusNotFound_def split: sum.splits option.splits run.splits)

lemma createClusterSettings_error_iff:
  "json_Marshal rtsc csettings = Inr body \<Longrightarrow>
   NewRequest_error rtsc ''POST'' (settings_url r (ccr_ID csettings)) = None \<Longrightarrow>
   client_Do rtsc sent (json_request ''POST'' (settings_url r (ccr_ID csettings)) r (Some body)) = Inr resp \<Longrightarrow>
   (snd (fst (createClusterSettings rtsc r csettings sent)) \<noteq> None) =
     (StatusCode resp \<noteq> StatusCreated \<or> isl (Decode rtsc resp))"
  by (auto simp: createClusterSettings_no_error_iff)

lemma createClusterSettings_success:
  "json_Marshal rtsc csettings = Inr body \<Longrightarrow>
   NewRequest_error rtsc ''POST'' (settings_url r (ccr_ID csettings)) = None \<Longrightarrow>
   client_Do rtsc sent (json_request ''POST'' (settings_url r (ccr_ID csettings)) r (Some body)) = Inr resp \<Longrightarrow>
   StatusCode resp = StatusCreated \<Longrightarrow>
   Decode rtsc resp = Inr settings \<Longrightarrow>
   fst (createClusterSettings rtsc r csettings sent) =
     (Some settings, None)"
  by (simp add: createClusterSettings_def helper_defs request_defs case_prod_beta
      StatusOK_def StatusNotFound_def split: sum.splits option.splits run.splits)

lemma createClusterSettings_error_no_data:
  "snd (fst (createClusterSettings rtsc r csettings sent)) \<noteq> None \<Longrightarrow>
   nil_and_error (fst (createClusterSettings rtsc r csettings sent))"
proof -
  have "snd (fst (createClusterSettings rtsc r csettings sent)) \<noteq> None \<longrightarrow>
      nil_and_error (fst (createClusterSettings rtsc r csettings sent))"
    by (simp add: createClusterSettings_def helper_defs run_error_def case_prod_beta
        split: sum.splits option.splits run.splits)
  then show "snd (fst (createClusterSettings rtsc r csettings sent)) \<noteq> None \<Longrightarrow>
   nil_and_error (fst (createClusterSettings rtsc r csettings sent))"
    by (rule mp)
qed

lemma createClusterSettings_answered_error:
  assumes "json_Marshal rtsc csettings = Inr body"
    and "NewRequest_error rtsc ''POST'' (settings_url r (ccr_ID csettings)) = None"
    and "client_Do rtsc sent (json_request ''POST'' (settings_url r (ccr_ID csettings)) r (Some body)) = Inr resp"
    and "StatusCode resp \<noteq> StatusCreated \<or> isl (Decode rtsc resp)"
  shows "nil_and_error (fst (createClusterSettings rtsc r csettings sent))"
proof -
  from assms(1-3) have "(snd (fst (createClusterSettings rtsc r csettings sent)) \<noteq> None) =
     (StatusCode resp \<noteq> StatusCreated \<or> isl (Decode rtsc resp))"
    by (rule createClusterSettings_error_iff)
  with assms(4) have "snd (fst (createClusterSettings rtsc r csettings sent)) \<noteq> None" by blast
  then show ?thesis by (rule createClusterSettings_error_no_data)
qed

lemma getClusterSettings_calls:
  "at_most_one_call sent (snd (getClusterSettings rtsc r ident sent))"
  by (simp add: getClusterSettings_def helper_defs at_most_one_call_def case_prod_beta
      split: sum.splits option.splits run.splits)

lemma getClusterSettings_request_error:
  "NewRequest_error rtsc ''GET'' (settings_url r ident) = Some e \<Longrightarrow>
   getClusterSettings rtsc r ident sent =
     ((None, Some (''error creating request: '' @ e)), sent)"
  by (simp add: getClusterSettings_def helper_defs request_defs case_prod_beta)

lemma getClusterSettings_transport_error:
  "NewRequest_error rtsc ''GET'' (settings_url r ident) = None \<Longrightarrow>
   client_Do rtsc sent (json_request ''GET'' (settings_url r ident) r None) = Inl e \<Longrightarrow>
   getClusterSettings rtsc r ident sent =
     ((None, Some (''error making request: '' @ e)),
      sent @ [json_request ''GET'' (settings_url r ident) r None])"
  by (simp add: getClusterSettings_def helper_defs request_defs case_prod_beta)

lemma getClusterSettings_sends:
  "NewRequest_error rtsc ''GET'' (settings_url r ident) = None \<Longrightarrow>
   snd (getClusterSettings rtsc r ident sent) =
     sent @ [json_request ''GET'' (settings_url r ident) r None]"
  by (simp add: getClusterSettings_def helper_defs request_defs case_prod_beta
      split: sum.splits option.splits run.splits)

lemma getClusterSettings_no_error_iff:
  "NewRequest_error rtsc ''GET'' (settings_url r ident) = None \<Longrightarrow>
   client_Do rtsc sent (json_request ''GET'' (settings_url r ident) r None) = Inr resp \<Longrightarrow>
   (snd (fst (getClusterSettings rtsc r ident sent)) = None) =
     (StatusCode resp = StatusOK \<and> \<not> isl (Decode rtsc resp))"
  by (simp add: getClusterSettings_def helper_defs request_defs case_prod_beta run_error_def
      StatusOK_def StatusNotFound_def split: sum.splits option.splits run.splits)

lemma getClusterSettings_error_iff:
  "NewRequest_error rtsc ''GET'' (settings_url r ident) = None \<Longrightarrow>
   client_Do rtsc sent (json_request ''GET'' (settings_url r ident) r None) = Inr resp \<Longrightarrow>
   (snd (fst (getClusterSettings rtsc r ident sent)) \<noteq> None) =
     (StatusCode resp \<noteq> StatusOK \<or> isl (Decode rtsc resp))"
  by (auto simp: getClusterSettings_no_error_iff)

lemma getClusterSettings_success:
  "NewRequest_error rtsc ''GET'' (settings_url r ident) = None \<Longrightarrow>
   client_Do rtsc sent (json_request ''GET'' (settings_url r ident) r None) = Inr resp \<Longrightarrow>
   StatusCode resp = StatusOK \<Longrightarrow>
   Decode rtsc resp = Inr settings \<Longrightarrow>
   fst (getClusterSettings rtsc r ident sent) =
     (Some (settings\<lparr>cs_ID := ident\<rparr>), None)"
  by (simp add: getClusterSettings_def helper_defs request_defs case_prod_beta
      StatusOK_def StatusNotFound_def split: sum.splits option.splits run.splits)

lemma getClusterSettings_error_no_data:
  "snd (fst (getClusterSettings rtsc r ident sent)) \<noteq> None \<Longrightarrow>
   nil_and_error (fst (getClusterSettings rtsc r ident sent))"
proof -
  have "snd (fst (getClusterSettings rtsc r ident sent)) \<noteq> None \<longrightarrow>
      nil_and_error (fst (getClusterSettings rtsc r ident sent))"
    by (simp add: getClusterSettings_def helper_defs run_error_def case_prod_beta
        split: sum.splits option.splits run.splits)
  then show "snd (fst (getClusterSettings rtsc r ident sent)) \<noteq> None \<Longrightarrow>
   nil_and_error (fst (getClusterSettings rtsc r ident sent))"
    by (rule mp)
qed

lemma getClusterSettings_answered_error:
  assumes "NewRequest_error rtsc ''GET'' (settings_url r ident) = None"
    and "client_Do rtsc sent (json_request ''GET'' (settings_url r ident) r None) = Inr resp"
    and "StatusCode resp \<noteq> StatusOK \<or> isl (Decode rtsc resp)"
  shows "nil_and_error (fst (getClusterSettings rtsc r ident sent))"
proof -
  from assms(1-2) have "(snd (fst (getClusterSettings rtsc r ident sent)) \<noteq> None) =
     (StatusCode resp \<noteq> StatusOK \<or> isl (Decode rtsc resp))"
    by (rule getClusterSettings_error_iff)
  with assms(3) have "snd (fst (getClusterSettings rtsc r ident sent)) \<noteq> None" by blast
  then show ?thesis by (rule getClusterSettings_error_no_data)
qed

lemma updateClusterSettings_calls:
  "at_most_one_call sent (snd (updateClusterSettings rtsu r ident usettings sent))"
  by (simp add: updateClusterSettings_def helper_defs at_most_one_call_def case_prod_beta
      split: sum.splits option.splits run.splits)

lemma updateClusterSettings_marshal_error:
  "json_Marshal rtsu usettings = Inl e \<Longrightarrow>
   updateClusterSettings rtsu r ident usettings sent =
     ((None, Some (''error marshaling settings: '' @ e)), sent)"
  by (simp add: updateClusterSettings_def helper_defs request_defs case_prod_beta)

lemma updateClusterSettings_request_error:
  "json_Marshal rtsu usettings = Inr body \<Longrightarrow>
   NewRequest_error rtsu ''PUT'' (settings_url r ident) = Some e \<Longrightarrow>
   updateClusterSettings rtsu r ident usettings sent =
     ((None, Some (''error creating request: '' @ e)), sent)"
  by (simp add: updateClusterSettings_def helper_defs request_defs case_prod_beta)

lemma updateClusterSettings_transport_error:
  "json_Marshal rtsu usettings = Inr body \<Longrightarrow>
   NewRequest_error rtsu ''PUT'' (settings_url r ident) = None \<Longrightarrow>
   client_Do rtsu sent (json_request ''PUT'' (settings_url r ident) r (Some body)) = Inl e \<Longrightarrow>
   updateClusterSettings rtsu r ident usettings sent =
     ((None, Some (''error making request: '' @ e)),
      sent @ [json_request ''PUT'' (settings_url r ident) r (Some body)])"
  by (simp add: updateClusterSettings_def helper_defs request_defs case_prod_beta)

lemma updateClusterSettings_sends:
  "json_Marshal rtsu usettings = Inr body \<Longrightarrow>
   NewRequest_error rtsu ''PUT'' (settings_url r ident) = None \<Longrightarrow>
   snd (updateClusterSettings rtsu r ident usettings sent) =
     sent @ [json_request ''PUT'' (settings_url r ident) r (Some body)]"
  by (simp add: updateClusterSettings_def helper_defs request_defs case_prod_beta
      split: sum.splits option.splits run.splits)

lemma updateClusterSettings_no_error_iff:
  "json_Marshal rtsu usettings = Inr body \<Longrightarrow>
   NewRequest_error rtsu ''PUT'' (settings_url r ident) = None \<Longrightarrow>
   client_Do rtsu sent (json_request ''PUT'' (settings_url r ident) r (Some body)) = Inr resp \<Longrightarrow>
   (snd (fst (updateClusterSettings rtsu r ident usettings sent)) = None) =
     (StatusCode resp = StatusOK \<and> \<not> isl (Decode rtsu resp))"
  by (simp add: updateClusterSettings_def helper_defs request_defs case_prod_beta run_error_def
      StatusOK_def StatusNotFound_def split: sum.splits option.splits run.splits)

lemma updateClusterSettings_error_iff:
  "json_Marshal rtsu usettings = Inr body \<Longrightarrow>
   NewRequest_error rtsu ''PUT'' (settings_url r ident) = None \<Longrightarrow>
   client_Do rtsu sent (json_request ''PUT'' (settings_url r ident) r (Some body)) = Inr resp \<Longrightarrow>
   (snd (fst (updateClusterSettings rtsu r ident usettings sent)) \<noteq> None) =
     (StatusCode resp \<noteq> StatusOK \<or> isl (Decode rtsu resp))"
  by (auto simp: updateClusterSettings_no_error_iff)

lemma updateClusterSettings_success:
  "json_Marshal rtsu usettings = Inr body \<Longrightarrow>
   NewRequest_error rtsu ''PUT'' (settings_url r ident) = None \<Longrightarrow>
   client_Do rtsu sent (json_request ''PUT'' (settings_url r ident) r (Some body)) = Inr resp \<Longrightarrow>
   StatusCode resp = StatusOK \<Longrightarrow>
   Decode rtsu resp = Inr settings \<Longrightarrow>
   fst (updateClusterSettings rtsu r ident usettings sent) =
     (Some settings, None)"
  by (simp add: updateClusterSettings_def helper_defs request_defs case_prod_beta
      StatusOK_def StatusNotFound_def split: sum.splits option.splits run.splits)

lemma updateClusterSettings_error_no_data:
  "snd (fst (updateClusterSettings rtsu r ident usettings sent)) \<noteq> None \<Longrightarrow>
   nil_and_error (fst (updateClusterSettings rtsu r ident usettings sent))"
proof -
  have "snd (fst (updateClusterSettings rtsu r ident usettings sent)) \<noteq> None \<longrightarrow>
      nil_and_error (fst (updateClusterSettings rtsu r ident usettings sent))"
    by (simp add: updateClusterSettings_def helper_defs run_error_def case_prod_beta
        split: sum.splits option.splits run.splits)
  then show "snd (fst (updateClusterSettings rtsu r ident usettings sent)) \<noteq> None \<Longrightarrow>
   nil_and_error (fst (updateClusterSettings rtsu r ident usettings sent))"
    by (rule mp)
qed

lemma updateClusterSettings_answered_error:
  assumes "json_Marshal rtsu usettings = Inr body"
    and "NewRequest_error rtsu ''PUT'' (settings_url r ident) = None"
    and "client_Do rtsu sent (json_request ''PUT'' (settings_url r ident) r (Some body)) = Inr resp"
    and "StatusCode resp \<noteq> StatusOK \<or> isl (Decode rtsu resp)"
  shows "nil_and_error (fst (updateClusterSettings rtsu r ident usettings sent))"
proof -
  from assms(1-3) have "(snd (fst (updateClusterSettings rtsu r ident usettings sent)) \<noteq> None) =
     (StatusCode resp \<noteq> StatusOK \<or> isl (Decode rtsu resp))"
    by (rule updateClusterSettings_error_iff)
  with assms(4) have "snd (fst (updateClusterSettings rtsu r ident usettings sent)) \<noteq> None" by blast
  then show ?thesis by (rule updateClusterSettings_error_no_data)
qed

lemma deleteClusterSettings_calls:
  "at_most_one_call sent (snd (deleteClusterSettings rtsu r ident sent))"
  by (simp add: deleteClusterSettings_def helper_defs at_most_one_call_def case_prod_beta
      split: sum.splits option.splits run.splits)

lemma deleteClusterSettings_request_error:
  "NewRequest_error rtsu ''DELETE'' (settings_url r ident) = Some e \<Longrightarrow>
   deleteClusterSettings rtsu r ident sent =
     (Some (''error creating request: '' @ e), sent)"
  by (simp add: deleteClusterSettings_def helper_defs request_defs case_prod_beta)

lemma deleteClusterSettings_transport_error:
  "NewRequest_error rtsu ''DELETE'' (settings_url r ident) = None \<Longrightarrow>
   client_Do rtsu sent (bearer_request ''DELETE'' (settings_url r ident) r) = Inl e \<Longrightarrow>
   deleteClusterSettings rtsu r ident sent =
     (Some (''error making request: '' @ e),
      sent @ [bearer_request ''DELETE'' (settings_url r ident) r])"
  by (simp add: deleteClusterSettings_def helper_defs request_defs case_prod_beta)

lemma deleteClusterSettings_sends:
  "NewRequest_error rtsu ''DELETE'' (settings_url r ident) = None \<Longrightarrow>
   snd (deleteClusterSettings rtsu r ident sent) =
     sent @ [bearer_request ''DELETE'' (settings_url r ident) r]"
  by (simp add: deleteClusterSettings_def helper_defs request_defs case_prod_beta
      split: sum.splits option.splits run.splits)

lemma deleteClusterSettings_no_error_iff:
  "NewRequest_error rtsu ''DELETE'' (settings_url r ident) = None \<Longrightarrow>
   client_Do rtsu sent (bearer_request ''DELETE'' (settings_url r ident) r) = Inr resp \<Longrightarrow>
   (fst (deleteClusterSettings rtsu r ident sent) = None) =
     (StatusCode resp = StatusNoContent)"
  by (simp add: deleteClusterSettings_def helper_defs request_defs case_prod_beta run_error_def
      StatusOK_def StatusNotFound_def split: sum.splits option.splits run.splits)

lemma deleteClusterSettings_error_iff:
  "NewRequest_error rtsu ''DELETE'' (settings_url r ident) = None \<Longrightarrow>
   client_Do rtsu sent (bearer_request ''DELETE'' (settings_url r ident) r) = Inr resp \<Longrightarrow>
   (fst (deleteClusterSettings rtsu r ident sent) \<noteq> None) =
     (StatusCode resp \<noteq> StatusNoContent)"
  by (auto simp: deleteClusterSettings_no_error_iff)

lemma deleteClusterSettings_answered_error:
  assumes "NewRequest_error rtsu ''DELETE'' (settings_url r ident) = None"
    and "client_Do rtsu sent (bearer_request ''DELETE'' (settings_url r ident) r) = Inr resp"
    and "StatusCode resp \<noteq> StatusNoContent"
  shows "fst (deleteClusterSettings rtsu r ident sent) \<noteq> None"
proof -
  from assms(1-2) have "(fst (deleteClusterSettings rtsu r ident sent) \<noteq> None) =
     (StatusCode resp \<noteq> StatusNoContent)"
    by (rule deleteClusterSettings_error_iff)
  with assms(3) have "fst (deleteClusterSettings rtsu r ident sent) \<noteq> None" by blast
  then show ?thesis .
qed

section \<open>Routes: the document of an update\<close>

lemma createRouteRequest_other_key:
  assumes "k \<notin> set route_keys"
  shows "createRouteRequest model k = None"
proof -
  have "(\<forall>c \<in> set route_keys. c \<noteq> k) \<and> (\<forall>c \<in> set route_keys. k \<noteq> c)"
    using assms by blast
  then show ?thesis
    by (simp add: createRouteRequest_def Let_def cond_upd_apply route_keys_def)
qed

lemma example_marshal:
  "marshal_route (createRouteRequest example_route) = Inr example_route_json"
  by code_simp

text \<open>
  C3. For every route model the request map built for an update is the one built for a
  create, and it is the whole document, not a delta: it has the keys of the map literal
  with the values of the model, each of the seven guarded keys exactly when the model's
  field is not null, and no other key. \<^verbatim>\<open>updateRoute\<close> marshals this map and sends the bytes
  as the body of its one PUT request, as \<^verbatim>\<open>createRoute\<close> sends them in its POST request.
\<close>

theorem updateRoute_sends_create_document:
  "updateRouteRequest model = createRouteRequest model \<and>
   (json_Marshal rt (createRouteRequest plan) = Inr body \<and>
    NewRequest_error rt ''PUT'' (route_url r (ValueString (r_ID plan))) = None \<longrightarrow>
      snd (updateRoute rt r plan sent) =
        sent @
        [\<lparr>Method = ''PUT'', URL = route_url r (ValueString (r_ID plan)),
          Header = [(''Authorization'', ''Bearer '' @ token r),
                    (''Content-Type'', ''application/json'')],
          RequestBody = Some body\<rparr>]) \<and>
   (json_Marshal rt (createRouteRequest plan) = Inr body \<and>
    NewRequest_error rt ''POST'' (routes_url r) = None \<longrightarrow>
      snd (createRoute rt r plan sent) =
        sent @
        [\<lparr>Method = ''POST'', URL = routes_url r,
          Header = [(''Authorization'', ''Bearer '' @ token r),
                    (''Content-Type'', ''application/json'')],
          RequestBody = Some body\<rparr>]) \<and>
   createRouteRequest model ''name'' = Some (GoString (ValueString (r_Name model))) \<and>
   createRouteRequest model ''namespaceId'' =
     Some (GoString (ValueString (r_NamespaceID model))) \<and>
   createRouteRequest model ''from'' = Some (GoString (ValueString (r_From model))) \<and>
   createRouteRequest model ''allowSpdy'' = Some (GoBool (ValueBool (r_AllowSpdy model))) \<and>
   createRouteRequest model ''enableGoogleCloudServerlessAuthentication'' =
     Some (GoBool (ValueBool (r_EnableGoogleCloudServerlessAuthentication model))) \<and>
   createRouteRequest model ''showErrorDetails'' =
     Some (GoBool (ValueBool (r_ShowErrorDetails model))) \<and>
   createRouteRequest model ''tlsSkipVerify'' =
     Some (GoBool (ValueBool (r_TLSSkipVerify model))) \<and>
   createRouteRequest model ''tlsUpstreamAllowRenegotiation'' =
     Some (GoBool (ValueBool (r_TLSUpstreamAllowRenegotiation model))) \<and>
   createRouteRequest model ''kubernetesServiceAccountToken'' =
     Some (GoString (ValueString (r_KubernetesServiceAccountToken model))) \<and>
   createRouteRequest model ''to'' =
     (if IsNull (r_To model) then None
      else Some (GoStrings (fst (ElementsAs (r_To model))))) \<and>
   createRouteRequest model ''policyIds'' =
     (if IsNull (r_PolicyIDs model) then None
      else Some (GoStrings (fst (ElementsAs (r_PolicyIDs model))))) \<and>
   createRouteRequest model ''allowWebsockets'' =
     (if IsNull (r_AllowWebsockets model) then None
      else Some (GoBool (ValueBool (r_AllowWebsockets model)))) \<and>
   createRouteRequest model ''passIdentityHeaders'' =
     (if IsNull (r_PassIdentityHeaders model) then None
      else Some (GoBool (ValueBool (r_PassIdentityHeaders model)))) \<and>
   createRouteRequest model ''preserveHostHeader'' =
     (if IsNull (r_PreserveHostHeader model) then None
      else Some (GoBool (ValueBool (r_PreserveHostHeader model)))) \<and>
   createRouteRequest model ''prefix'' =
     (if IsNull (r_Prefix model) then None
      else Some (GoString (ValueString (r_Prefix model)))) \<and>
   createRouteRequest model ''prefixRewrite'' =
     (if IsNull (r_PrefixRewrite model) then None
      else Some (GoString (ValueString (r_PrefixRewrite model)))) \<and>
   (\<forall>k. k \<notin> set route_keys \<longrightarrow> createRouteRequest model k = None)"
proof (intro conjI allI impI)
  show "updateRouteRequest model = createRouteRequest model"
    by (simp add: updateRouteRequest_def)
next
  assume "json_Marshal rt (createRouteRequest plan) = Inr body \<and>
    NewRequest_error rt ''PUT'' (route_url r (ValueString (r_ID plan))) = None"
  then show "snd (updateRoute rt r plan sent) =
        sent @
        [\<lparr>Method = ''PUT'', URL = route_url r (ValueString (r_ID plan)),
          Header = [(''Authorization'', ''Bearer '' @ token r),
                    (''Content-Type'', ''application/json'')],
          RequestBody = Some body\<rparr>]"
    using updateRoute_sends [of rt plan body r sent]
    by (simp add: updateRouteRequest_def json_request_def)
next
  assume "json_Marshal rt (createRouteRequest plan) = Inr body \<and>
    NewRequest_error rt ''POST'' (routes_url r) = None"
  then show "snd (createRoute rt r plan sent) =
        sent @
        [\<lparr>Method = ''POST'', URL = routes_url r,
          Header = [(''Authorization'', ''Bearer '' @ token r),
                    (''Content-Type'', ''application/json'')],
          RequestBody = Some body\<rparr>]"
    using createRoute_sends [of rt plan body r sent]
    by (simp add: json_request_def)
next
  fix k
  assume "k \<notin> set route_keys"
  then show "createRouteRequest model k = None"
    by (rule createRouteRequest_other_key)
qed (simp_all only: createRouteRequest_lookup)

theorem updateRoute_sends_create_document_witness:
  "snd (updateRoute answering_updated example_resource example_route []) =
     [\<lparr>Method = ''PUT'',
       URL = ''https://console.pomerium.app/api/v0/organizations/org/routes/r1'',
       Header = [(''Authorization'', ''Bearer t0''), (''Content-Type'', ''application/json'')],
       RequestBody = Some example_route_json\<rparr>] \<and>
   snd (createRoute answering_created example_resource example_route []) =
     [\<lparr>Method = ''POST'',
       URL = ''https://console.pomerium.app/api/v0/organizations/org/routes'',
       Header = [(''Authorization'', ''Bearer t0''), (''Content-Type'', ''application/json'')],
       RequestBody = Some example_route_json\<rparr>] \<and>
   updateRouteRequest example_route ''name'' = Some (GoString ''verify'') \<and>
   updateRouteRequest example_route ''to'' = Some (GoStrings (Some [''https://verify.pomerium.com''])) \<and>
   updateRouteRequest example_route ''policyIds'' = None \<and>
   updateRouteRequest example_route ''id'' = None"
proof -
  note doc = updateRoute_sends_create_document [where model = example_route
      and plan = example_route and r = example_resource and sent = "[]"
      and body = example_route_json]
  have put: "json_Marshal answering_updated (createRouteRequest example_route) =
               Inr example_route_json \<and>
             NewRequest_error answering_updated ''PUT''
               (route_url example_resource (ValueString (r_ID example_route))) = None"
    by (simp add: answering_updated_def runtime_answering_def example_marshal)
  have post: "json_Marshal answering_created (createRouteRequest example_route) =
                Inr example_route_json \<and>
              NewRequest_error answering_created ''POST'' (routes_url example_resource) = None"
    by (simp add: answering_created_def runtime_answering_def example_marshal)
  have urls: "route_url example_resource (ValueString (r_ID example_route)) =
                ''https://console.pomerium.app/api/v0/organizations/org/routes/r1''"
    "routes_url example_resource =
                ''https://console.pomerium.app/api/v0/organizations/org/routes''"
    "token example_resource = ''t0''"
    by (simp_all add: route_url_def routes_url_def apiBaseURL_def example_resource_def
        example_route_def RouteResourceModel_zero_def)
  have "snd (updateRoute answering_updated example_resource example_route []) =
     [\<lparr>Method = ''PUT'',
       URL = ''https://console.pomerium.app/api/v0/organizations/org/routes/r1'',
       Header = [(''Authorization'', ''Bearer t0''), (''Content-Type'', ''application/json'')],
       RequestBody = Some example_route_json\<rparr>]"
    using put doc [where rt = answering_updated] by (simp add: urls)
  moreover
  have "snd (createRoute answering_created example_resource example_route []) =
     [\<lparr>Method = ''POST'',
       URL = ''https://console.pomerium.app/api/v0/organizations/org/routes'',
       Header = [(''Authorization'', ''Bearer t0''), (''Content-Type'', ''application/json'')],
       RequestBody = Some example_route_json\<rparr>]"
    using post doc [where rt = answering_created] by (simp add: urls)
  moreover
  have "updateRouteRequest example_route ''name'' = Some (GoString ''verify'') \<and>
   updateRouteRequest example_route ''to'' = Some (GoStrings (Some [''https://verify.pomerium.com''])) \<and>
   updateRouteRequest example_route ''policyIds'' = None \<and>
   updateRouteRequest example_route ''id'' = None"
    using doc [where rt = answering_updated]
    by (simp add: route_keys_def example_route_def RouteResourceModel_zero_def IsNull_def)
  ultimately show ?thesis by simp
qed

section \<open>The CRUD helpers: one call of the client, and the first error\<close>

text \<open>
  C7, as the claim states it, fails: a helper does not return on every error it meets.
  For a route whose list of targets has a null element, \<^verbatim>\<open>ElementsAs\<close> reports a conversion
  error inside \<^verbatim>\<open>createRouteRequest\<close>; the diagnostics are dropped, \<^verbatim>\<open>createRoute\<close> sends its
  request with a nil list of targets, and on a good answer it returns no error.
\<close>

theorem createRoute_drops_conversion_error:
  "snd (ElementsAs (r_To route_with_null_target)) =
     [(''Value Conversion Error'',
       ''Received null value, however the target type cannot handle null values.'')] \<and>
   createRouteRequest route_with_null_target ''to'' = Some (GoStrings None) \<and>
   run_error (fst (createRoute answering_created example_resource route_with_null_target [])) =
     None \<and>
   fst (createRoute answering_created example_resource route_with_null_target []) \<noteq> Panics \<and>
   map Method (snd (createRoute answering_created example_resource route_with_null_target [])) =
     [''POST'']"
  by code_simp

text \<open>
  C7, amended. Every call of a CRUD helper of a route, a policy or the cluster settings
  calls \<^verbatim>\<open>client.Do\<close> at most once, and exactly once when its request could be built,
  whatever the client answers: there is no second call and no retry. (What the client
  does on the wire to answer the one call is not the helper's: the provider's client
  follows redirects.) The helper returns at once on the first failure of \<^verbatim>\<open>json.Marshal\<close>
  and of \<^verbatim>\<open>http.NewRequestWithContext\<close>, with that error, no data and no call of
  \<^verbatim>\<open>client.Do\<close>; on a failure of \<^verbatim>\<open>client.Do\<close>, with that error and no data after the one
  call; and on a response with an unexpected status or with a body that cannot be read
  or decoded, with an error and no data. The diagnostics of \<^verbatim>\<open>ElementsAs\<close> are not among
  these errors.
\<close>

theorem crud_helpers_one_call:
  "at_most_one_call sent (snd (createRoute rt r plan sent)) \<and>
   (json_Marshal rt (createRouteRequest plan) = Inl e \<longrightarrow>
      createRoute rt r plan sent =
        (Returns (RouteResourceModel_zero, Some (''error marshaling route: '' @ e)), sent)) \<and>
   (json_Marshal rt (createRouteRequest plan) = Inr body \<and>
    NewRequest_error rt ''POST'' (routes_url r) = Some e \<longrightarrow>
      createRoute rt r plan sent =
        (Returns (RouteResourceModel_zero, Some (''error creating request: '' @ e)), sent)) \<and>
   (json_Marshal rt (createRouteRequest plan) = Inr body \<and>
    NewRequest_error rt ''POST'' (routes_url r) = None \<and>
    client_Do rt sent (json_request ''POST'' (routes_url r) r (Some body)) = Inl e \<longrightarrow>
      createRoute rt r plan sent =
        (Returns (RouteResourceModel_zero, Some (''error making request: '' @ e)),
         sent @ [json_request ''POST'' (routes_url r) r (Some body)])) \<and>
   (json_Marshal rt (createRouteRequest plan) = Inr body \<and>
    NewRequest_error rt ''POST'' (routes_url r) = None \<longrightarrow>
      snd (createRoute rt r plan sent) =
        sent @ [json_request ''POST'' (routes_url r) r (Some body)]) \<and>
   (json_Marshal rt (createRouteRequest plan) = Inr body \<and>
    NewRequest_error rt ''POST'' (routes_url r) = None \<and>
    client_Do rt sent (json_request ''POST'' (routes_url r) r (Some body)) = Inr resp \<and>
    (StatusCode resp \<noteq> StatusCreated \<or> snd (ReadAll resp) \<noteq> None \<or>
       isl (json_Unmarshal rt (fst (ReadAll resp)))) \<longrightarrow>
      zero_model_and_error (fst (createRoute rt r plan sent))) \<and>
   at_most_one_call sent (snd (readRoute rt r ident sent)) \<and>
   (NewRequest_error rt ''GET'' (route_url r ident) = Some e \<longrightarrow>
      readRoute rt r ident sent =
        ((None, Some (''error creating request: '' @ e)), sent)) \<and>
   (NewRequest_error rt ''GET'' (route_url r ident) = None \<and>
    client_Do rt sent (bearer_request ''GET'' (route_url r ident) r) = Inl e \<longrightarrow>
      readRoute rt r ident sent =
        ((None, Some (''error making request: '' @ e)),
         sent @ [bearer_request ''GET'' (route_url r ident) r])) \<and>
   (NewRequest_error rt ''GET'' (route_url r ident) = None \<longrightarrow>
      snd (readRoute rt r ident sent) =
        sent @ [bearer_request ''GET'' (route_url r ident) r]) \<and>
   (NewRequest_error rt ''GET'' (route_url r ident) = None \<and>
    client_Do rt sent (bearer_request ''GET'' (route_url r ident) r) = Inr resp \<and>
    (StatusCode resp \<noteq> StatusOK \<or> isl (Decode rt resp)) \<longrightarrow>
      nil_and_error (fst (readRoute rt r ident sent))) \<and>
   at_most_one_call sent (snd (updateRoute rt r plan sent)) \<and>
   (json_Marshal rt (updateRouteRequest plan) = Inl e \<longrightarrow>
      updateRoute rt r plan sent =
        (Returns (RouteResourceModel_zero, Some (''error marshaling route: '' @ e)), sent)) \<and>
   (json_Marshal rt (updateRouteRequest plan) = Inr body \<and>
    NewRequest_error rt ''PUT'' (route_url r (ValueString (r_ID plan))) = Some e \<longrightarrow>
      updateRoute rt r plan sent =
        (Returns (RouteResourceModel_zero, Some (''error creating request: '' @ e)), sent)) \<and>
   (json_Marshal rt (updateRouteRequest plan) = Inr body \<and>
    NewRequest_error rt ''PUT'' (route_url r (ValueString (r_ID plan))) = None \<and>
    client_Do rt sent (json_request ''PUT'' (route_url r (ValueString (r_ID plan))) r (Some body)) = Inl e \<longrightarrow>
      updateRoute rt r plan sent =
        (Returns (RouteResourceModel_zero, Some (''error making request: '' @ e)),
         sent @ [json_request ''PUT'' (route_url r (ValueString (r_ID plan))) r (Some body)])) \<and>
   (json_Marshal rt (updateRouteRequest plan) = Inr body \<and>
    NewRequest_error rt ''PUT'' (route_url r (ValueString (r_ID plan))) = None \<longrightarrow>
      snd (updateRoute rt r plan sent) =
        sent @ [json_request ''PUT'' (route_url r (ValueString (r_ID plan))) r (Some body)]) \<and>
   (json_Marshal rt (updateRouteRequest plan) = Inr body \<and>
    NewRequest_error rt ''PUT'' (route_url r (ValueString (r_ID plan))) = None \<and>
    client_Do rt sent (json_request ''PUT'' (route_url r (ValueString (r_ID plan))) r (Some body)) = Inr resp \<and>
    (StatusCode resp \<noteq> StatusOK \<or> snd (ReadAll resp) \<noteq> None \<or>
       isl (json_Unmarshal rt (fst (ReadAll resp)))) \<longrightarrow>
      zero_model_and_error (fst (updateRoute rt r plan sent))) \<and>
   at_most_one_call sent (snd (deleteRoute rt r ident sent)) \<and>
   (NewRequest_error rt ''DELETE'' (route_url r ident) = Some e \<longrightarrow>
      deleteRoute rt r ident sent =
        (Some (''error creating request: '' @ e), sent)) \<and>
   (NewRequest_error rt ''DELETE'' (route_url r ident) = None \<and>
    client_Do rt sent (bearer_request ''DELETE'' (route_url r ident) r) = Inl e \<longrightarrow>
      deleteRoute rt r ident sent =
        (Some (''error making request: '' @ e),
         sent @ [bearer_request ''DELETE'' (route_url r ident) r])) \<and>
   (NewRequest_error rt ''DELETE'' (route_url r ident) = None \<longrightarrow>
      snd (deleteRoute rt r ident sent) =
        sent @ [bearer_request ''DELETE'' (route_url r ident) r]) \<and>
   (NewRequest_error rt ''DELETE'' (route_url r ident) = None \<and>
    client_Do rt sent (bearer_request ''DELETE'' (route_url r ident) r) = Inr resp \<and>
    (StatusCode resp \<noteq> StatusNoContent) \<longrightarrow>
      fst (deleteRoute rt r ident sent) \<noteq> None) \<and>
   at_most_one_call sent (snd (createPolicy rtpc r cpolicy sent)) \<and>
   (json_Marshal rtpc cpolicy = Inl e \<longrightarrow>
      createPolicy rtpc r cpolicy sent =
        ((None, Some (''error marshaling policy: '' @ e)), sent)) \<and>
   (json_Marshal rtpc cpolicy = Inr body \<and>
    NewRequest_error rtpc ''POST'' (policies_url r) = Some e \<longrightarrow>
      createPolicy rtpc r cpolicy sent =
        ((None, Some (''error creating request: '' @ e)), sent)) \<and>
   (json_Marshal rtpc cpolicy = Inr body \<and>
    NewRequest_error rtpc ''POST'' (policies_url r) = None \<and>
    client_Do rtpc sent (json_request ''POST'' (policies_url r) r (Some body)) = Inl e \<longrightarrow>
      createPolicy rtpc r cpolicy sent =
        ((None, Some (''error making request: '' @ e)),
         sent @ [json_request ''POST'' (policies_url r) r (Some body)])) \<and>
   (json_Marshal rtpc cpolicy = Inr body \<and>
    NewRequest_error rtpc ''POST'' (policies_url r) = None \<longrightarrow>
      snd (createPolicy rtpc r cpolicy sent) =
        sent @ [json_request ''POST'' (policies_url r) r (Some body)]) \<and>
   (json_Marshal rtpc cpolicy = Inr body \<and>
    NewRequest_error rtpc ''POST'' (policies_url r) = None \<and>
    client_Do rtpc sent (json_request ''POST'' (policies_url r) r (Some body)) = Inr resp \<and>
    (StatusCode resp \<noteq> StatusCreated \<or> snd (ReadAll resp) \<noteq> None \<or>
       isl (json_Unmarshal rtpc (fst (ReadAll resp)))) \<longrightarrow>
      nil_and_error (fst (createPolicy rtpc r cpolicy sent))) \<and>
   at_most_one_call sent (snd (getPolicy rtpc r ident sent)) \<and>
   (NewRequest_error rtpc ''GET'' (policy_url r ident) = Some e \<longrightarrow>
      getPolicy rtpc r ident sent =
        ((None, Some (''error creating request: '' @ e)), sent)) \<and>
   (NewRequest_error rtpc ''GET'' (policy_url r ident) = None \<and>
    client_Do rtpc sent (json_request ''GET'' (policy_url r ident) r None) = Inl e \<longrightarrow>
      getPolicy rtpc r ident sent =
        ((None, Some (''error making request: '' @ e)),
         sent @ [json_request ''GET'' (policy_url r ident) r None])) \<and>
   (NewRequest_error rtpc ''GET'' (policy_url r ident) = None \<longrightarrow>
      snd (getPolicy rtpc r ident sent) =
        sent @ [json_request ''GET'' (policy_url r ident) r None]) \<and>
   (NewRequest_error rtpc ''GET'' (policy_url r ident) = None \<and>
    client_Do rtpc sent (json_request ''GET'' (policy_url r ident) r None) = Inr resp \<and>
    (StatusCode resp \<noteq> StatusOK \<or> isl (Decode rtpc resp)) \<longrightarrow>
      nil_and_error (fst (getPolicy rtpc r ident sent))) \<and>
   at_most_one_call sent (snd (updatePolicy rtpu r ident upolicy sent)) \<and>
   (json_Marshal rtpu upolicy = Inl e \<longrightarrow>
      updatePolicy rtpu r ident upolicy sent =
        ((None, Some (''error marshaling policy: '' @ e)), sent)) \<and>
   (json_Marshal rtpu upolicy = Inr body \<and>
    NewRequest_error rtpu ''PUT'' (policy_url r ident) = Some e \<longrightarrow>
      updatePolicy rtpu r ident upolicy sent =
        ((None, Some (''error creating request: '' @ e)), sent)) \<and>
   (json_Marshal rtpu upolicy = Inr body \<and>
    NewRequest_error rtpu ''PUT'' (policy_url r ident) = None \<and>
    client_Do rtpu sent (json_request ''PUT'' (policy_url r ident) r (Some body)) = Inl e \<longrightarrow>
      updatePolicy rtpu r ident upolicy sent =
        ((None, Some (''error making request: '' @ e)),
         sent @ [json_request ''PUT'' (policy_url r ident) r (Some body)])) \<and>
   (json_Marshal rtpu upolicy = Inr body \<and>
    NewRequest_error rtpu ''PUT'' (policy_url r ident) = None \<longrightarrow>
      snd (updatePolicy rtpu r ident upolicy sent) =
        sent @ [json_request ''PUT'' (policy_url r ident) r (Some body)]) \<and>
   (json_Marshal rtpu upolicy = Inr body \<and>
    NewRequest_error rtpu ''PUT'' (policy_url r ident) = None \<and>
    client_Do rtpu sent (json_request ''PUT'' (policy_url r ident) r (Some body)) = Inr resp \<and>
    (StatusCode resp \<noteq> StatusOK \<or> snd (ReadAll resp) \<noteq> None \<or>
       isl (json_Unmarshal rtpu (fst (ReadAll resp)))) \<longrightarrow>
      nil_and_error (fst (updatePolicy rtpu r ident upolicy sent))) \<and>
   at_most_one_call sent (snd (deletePolicy rtpu r ident sent)) \<and>
   (NewRequest_error rtpu ''DELETE'' (policy_url r ident) = Some e \<longrightarrow>
      deletePolicy rtpu r ident sent =
        (Some (e), sent)) \<and>
   (NewRequest_error rtpu ''DELETE'' (policy_url r ident) = None \<and>
    client_Do rtpu sent (bearer_request ''DELETE'' (policy_url r ident) r) = Inl e \<longrightarrow>
      deletePolicy rtpu r ident sent =
        (Some (e),
         sent @ [bearer_request ''DELETE'' (policy_url r ident) r])) \<and>
   (NewRequest_error rtpu ''DELETE'' (policy_url r ident) = None \<longrightarrow>
      snd (deletePolicy rtpu r ident sent) =
        sent @ [bearer_request ''DELETE'' (policy_url r ident) r]) \<and>
   (NewRequest_error rtpu ''DELETE'' (policy_url r ident) = None \<and>
    client_Do rtpu sent (bearer_request ''DELETE'' (policy_url r ident) r) = Inr resp \<and>
    (StatusCode resp \<noteq> StatusNoContent) \<longrightarrow>
      fst (deletePolicy rtpu r ident sent) \<noteq> None) \<and>
   at_most_one_call sent (snd (createClusterSettings rtsc r csettings sent)) \<and>
   (json_Marshal rtsc csettings = Inl e \<longrightarrow>
      createClusterSettings rtsc r csettings sent =
        ((None, Some (''error marshaling settings: '' @ e)), sent)) \<and>
   (json_Marshal rtsc csettings = Inr body \<and>
    NewRequest_error rtsc ''POST'' (settings_url r (ccr_ID csettings)) = Some e \<longrightarrow>
      createClusterSettings rtsc r csettings sent =
        ((None, Some (''error creating request: '' @ e)), sent)) \<and>
   (json_Marshal rtsc csettings = Inr body \<and>
    NewRequest_error rtsc ''POST'' (settings_url r (ccr_ID csettings)) = None \<and>
    client_Do rtsc sent (json_request ''POST'' (settings_url r (ccr_ID csettings)) r (Some body)) = Inl e \<longrightarrow>
      createClusterSettings rtsc r csettings sent =
        ((None, Some (''error making request: '' @ e)),
         sent @ [json_request ''POST'' (settings_url r (ccr_ID csettings)) r (Some body)])) \<and>
   (json_Marshal rtsc csettings = Inr body \<and>
    NewRequest_error rtsc ''POST'' (settings_url r (ccr_ID csettings)) = None \<longrightarrow>
      snd (createClusterSettings rtsc r csettings sent) =
        sent @ [json_request ''POST'' (settings_url r (ccr_ID csettings)) r (Some body)]) \<and>
   (json_Marshal rtsc csettings = Inr body \<and>
    NewRequest_error rtsc ''POST'' (settings_url r (ccr_ID csettings)) = None \<and>
    client_Do rtsc sent (json_request ''POST'' (settings_url r (ccr_ID csettings)) r (Some body)) = Inr resp \<and>
    (StatusCode resp \<noteq> StatusCreated \<or> isl (Decode rtsc resp)) \<longrightarrow>
      nil_and_error (fst (createClusterSettings rtsc r csettings sent))) \<and>
   at_most_one_call sent (snd (getClusterSettings rtsc r ident sent)) \<and>
   (NewRequest_error rtsc ''GET'' (settings_url r ident) = Some e \<longrightarrow>
      getClusterSettings rtsc r ident sent =
        ((None, Some (''error creating request: '' @ e)), sent)) \<and>
   (NewRequest_error rtsc ''GET'' (settings_url r ident) = None \<and>
    client_Do rtsc sent (json_request ''GET'' (settings_url r ident) r None) = Inl e \<longrightarrow>
      getClusterSettings rtsc r ident sent =
        ((None, Some (''error making request: '' @ e)),
         sent @ [json_request ''GET'' (settings_url r ident) r None])) \<and>
   (NewRequest_error rtsc ''GET'' (settings_url r ident) = None \<longrightarrow>
      snd (getClusterSettings rtsc r ident sent) =
        sent @ [json_request ''GET'' (settings_url r ident) r None]) \<and>
   (NewRequest_error rtsc ''GET'' (settings_url r ident) = None \<and>
    client_Do rtsc sent (json_request ''GET'' (settings_url r ident) r None) = Inr resp \<and>
    (StatusCode resp \<noteq> StatusOK \<or> isl (Decode rtsc resp)) \<longrightarrow>
      nil_and_error (fst (getClusterSettings rtsc r ident sent))) \<and>
   at_most_one_call sent (snd (updateClusterSettings rtsu r ident usettings sent)) \<and>
   (json_Marshal rtsu usettings = Inl e \<longrightarrow>
      updateClusterSettings rtsu r ident usettings sent =
        ((None, Some (''error marshaling settings: '' @ e)), sent)) \<and>
   (json_Marshal rtsu usettings = Inr body \<and>
    NewRequest_error rtsu ''PUT'' (settings_url r ident) = Some e \<longrightarrow>
      updateClusterSettings rtsu r ident usettings sent =
        ((None, Some (''error creating request: '' @ e)), sent)) \<and>
   (json_Marshal rtsu usettings = Inr body \<and>
    NewRequest_error rtsu ''PUT'' (settings_url r ident) = None \<and>
    client_Do rtsu sent (json_request ''PUT'' (settings_url r ident) r (Some body)) = Inl e \<longrightarrow>
      updateClusterSettings rtsu r ident usettings sent =
        ((None, Some (''error making request: '' @ e)),
         sent @ [json_request ''PUT'' (settings_url r ident) r (Some body)])) \<and>
   (json_Marshal rtsu usettings = Inr body \<and>
    NewRequest_error rtsu ''PUT'' (settings_url r ident) = None \<longrightarrow>
      snd (updateClusterSettings rtsu r ident usettings sent) =
        sent @ [json_request ''PUT'' (settings_url r ident) r (Some body)]) \<and>
   (json_Marshal rtsu usettings = Inr body \<and>
    NewRequest_error rtsu ''PUT'' (settings_url r ident) = None \<and>
    client_Do rtsu sent (json_request ''PUT'' (settings_url r ident) r (Some body)) = Inr resp \<and>
    (StatusCode resp \<noteq> StatusOK \<or> isl (Decode rtsu resp)) \<longrightarrow>
      nil_and_error (fst (updateClusterSettings rtsu r ident usettings sent))) \<and>
   at_most_one_call sent (snd (deleteClusterSettings rtsu r ident sent)) \<and>
   (NewRequest_error rtsu ''DELETE'' (settings_url r ident) = Some e \<longrightarrow>
      deleteClusterSettings rtsu r ident sent =
        (Some (''error creating request: '' @ e), sent)) \<and>
   (NewRequest_error rtsu ''DELETE'' (settings_url r ident) = None \<and>
    client_Do rtsu sent (bearer_request ''DELETE'' (settings_url r ident) r) = Inl e \<longrightarrow>
      deleteClusterSettings rtsu r ident sent =
        (Some (''error making request: '' @ e),
         sent @ [bearer_request ''DELETE'' (settings_url r ident) r])) \<and>
   (NewRequest_error rtsu ''DELETE'' (settings_url r ident) = None \<longrightarrow>
      snd (deleteClusterSettings rtsu r ident sent) =
        sent @ [bearer_request ''DELETE'' (settings_url r ident) r]) \<and>
   (NewRequest_error rtsu ''DELETE'' (settings_url r ident) = None \<and>
    client_Do rtsu sent (bearer_request ''DELETE'' (settings_url r ident) r) = Inr resp \<and>
    (StatusCode resp \<noteq> StatusNoContent) \<longrightarrow>
      fst (deleteClusterSettings rtsu r ident sent) \<noteq> None)"
  by (intro conjI impI; (elim conjE)?)
     (simp_all only: simp_thms
       createRoute_calls
       createRoute_marshal_error
       createRoute_request_error
       createRoute_transport_error
       createRoute_sends
       createRoute_answered_error
       readRoute_calls
       readRoute_request_error
       readRoute_transport_error
       readRoute_sends
       readRoute_answered_error
       updateRoute_calls
       updateRoute_marshal_error
       updateRoute_request_error
       updateRoute_transport_error
       updateRoute_sends
       updateRoute_answered_error
       deleteRoute_calls
       deleteRoute_request_error
       deleteRoute_transport_error
       deleteRoute_sends
       deleteRoute_answered_error
       createPolicy_calls
       createPolicy_marshal_error
       createPolicy_request_error
       createPolicy_transport_error
       createPolicy_sends
       createPolicy_answered_error
       getPolicy_calls
       getPolicy_request_error
       getPolicy_transport_error
       getPolicy_sends
       getPolicy_answered_error
       updatePolicy_calls
       updatePolicy_marshal_error
       updatePolicy_request_error
       updatePolicy_transport_error
       updatePolicy_sends
       updatePolicy_answered_error
       deletePolicy_calls
       deletePolicy_request_error
       deletePolicy_transport_error
       deletePolicy_sends
       deletePolicy_answered_error
       createClusterSettings_calls
       createClusterSettings_marshal_error
       createClusterSettings_request_error
       createClusterSettings_transport_error
       createClusterSettings_sends
       createClusterSettings_answered_error
       getClusterSettings_calls
       getClusterSettings_request_error
       getClusterSettings_transport_error
       getClusterSettings_sends
       getClusterSettings_answered_error
       updateClusterSettings_calls
       updateClusterSettings_marshal_error
       updateClusterSettings_request_error
       updateClusterSettings_transport_error
       updateClusterSettings_sends
       updateClusterSettings_answered_error
       deleteClusterSettings_calls
       deleteClusterSettings_request_error
       deleteClusterSettings_transport_error
       deleteClusterSettings_sends
       deleteClusterSettings_answered_error)

theorem crud_helpers_one_call_witness:
  "createRoute marshal_failing example_resource example_route [] =
     (Returns (RouteResourceModel_zero, Some ''error marshaling route: json: unsupported value''),
      []) \<and>
   createRoute request_rejected example_resource example_route [] =
     (Returns (RouteResourceModel_zero,
               Some ''error creating request: net/url: invalid control character in URL''),
      []) \<and>
   createRoute transport_down example_resource example_route [] =
     (Returns (RouteResourceModel_zero, Some ''error making request: dial tcp: i/o timeout''),
      [json_request ''POST'' (routes_url example_resource) example_resource (Some ''{}'')]) \<and>
   deleteRoute request_rejected example_resource ''r1'' [] =
     (Some ''error creating request: net/url: invalid control character in URL'', []) \<and>
   deleteRoute transport_down example_resource ''r1'' [] =
     (Some ''error making request: dial tcp: i/o timeout'',
      [bearer_request ''DELETE'' (route_url example_resource ''r1'') example_resource]) \<and>
   snd (readRoute answering_not_found example_resource ''r1'' []) =
     [bearer_request ''GET'' (route_url example_resource ''r1'') example_resource] \<and>
   nil_and_error (fst (readRoute answering_not_found example_resource ''r1'' [])) \<and>
   at_most_one_call [] (snd (updateRoute answering_not_found example_resource example_route []))"
proof -
  have marshal: "json_Marshal marshal_failing (createRouteRequest example_route) =
                   Inl ''json: unsupported value''"
    by (simp add: marshal_failing_def runtime_answering_def)
  have rejected:
    "json_Marshal request_rejected (createRouteRequest example_route) = Inr ''{}''"
    "NewRequest_error request_rejected ''POST'' (routes_url example_resource) =
       Some ''net/url: invalid control character in URL''"
    "NewRequest_error request_rejected ''DELETE'' (route_url example_resource ''r1'') =
       Some ''net/url: invalid control character in URL''"
    by (simp_all add: request_rejected_def runtime_answering_def)
  have down:
    "json_Marshal transport_down (createRouteRequest example_route) = Inr ''{}''"
    "NewRequest_error transport_down ''POST'' (routes_url example_resource) = None"
    "NewRequest_error transport_down ''DELETE'' (route_url example_resource ''r1'') = None"
    "client_Do transport_down []
       (json_request ''POST'' (routes_url example_resource) example_resource (Some ''{}'')) =
       Inl ''dial tcp: i/o timeout''"
    "client_Do transport_down []
       (bearer_request ''DELETE'' (route_url example_resource ''r1'') example_resource) =
       Inl ''dial tcp: i/o timeout''"
    by (simp_all add: transport_down_def runtime_answering_def)
  have missing:
    "NewRequest_error answering_not_found ''GET'' (route_url example_resource ''r1'') = None"
    "client_Do answering_not_found []
       (bearer_request ''GET'' (route_url example_resource ''r1'') example_resource) =
       Inr not_found_response"
    "StatusCode not_found_response \<noteq> StatusOK"
    by (simp_all add: answering_not_found_def runtime_answering_def not_found_response_def
        StatusOK_def)
  have "createRoute marshal_failing example_resource example_route [] =
     (Returns (RouteResourceModel_zero, Some ''error marshaling route: json: unsupported value''),
      [])"
    using marshal
      crud_helpers_one_call [where rt = marshal_failing and r = example_resource
        and plan = example_route and sent = "[]" and e = "''json: unsupported value''"]
    by simp
  moreover
  have "createRoute request_rejected example_resource example_route [] =
     (Returns (RouteResourceModel_zero,
               Some ''error creating request: net/url: invalid control character in URL''),
      [])"
    and "deleteRoute request_rejected example_resource ''r1'' [] =
     (Some ''error creating request: net/url: invalid control character in URL'', [])"
    using rejected
      crud_helpers_one_call [where rt = request_rejected and r = example_resource
        and plan = example_route and sent = "[]" and ident = "''r1''" and body = "''{}''"
        and e = "''net/url: invalid control character in URL''"]
    by simp_all
  moreover
  have "createRoute transport_down example_resource example_route [] =
     (Returns (RouteResourceModel_zero, Some ''error making request: dial tcp: i/o timeout''),
      [json_request ''POST'' (routes_url example_resource) example_resource (Some ''{}'')])"
    and "deleteRoute transport_down example_resource ''r1'' [] =
     (Some ''error making request: dial tcp: i/o timeout'',
      [bearer_request ''DELETE'' (route_url example_resource ''r1'') example_resource])"
    using down
      crud_helpers_one_call [where rt = transport_down and r = example_resource
        and plan = example_route and sent = "[]" and ident = "''r1''" and body = "''{}''"
        and e = "''dial tcp: i/o timeout''"]
    by simp_all
  moreover
  have "snd (readRoute answering_not_found example_resource ''r1'' []) =
     [bearer_request ''GET'' (route_url example_resource ''r1'') example_resource]"
    and "nil_and_error (fst (readRoute answering_not_found example_resource ''r1'' []))"
    and "at_most_one_call []
           (snd (updateRoute answering_not_found example_resource example_route []))"
    using missing
      crud_helpers_one_call [where rt = answering_not_found and r = example_resource
        and plan = example_route and sent = "[]" and ident = "''r1''"
        and resp = not_found_response]
    by simp_all
  ultimately show ?thesis by simp
qed

section \<open>The CRUD helpers: the status and the body of the response\<close>

text \<open>
  C2, as the claim states it, fails: \<^verbatim>\<open>createRoute\<close> returns an error on a response with
  the expected status 201 Created whose body does not decode.
\<close>

theorem createRoute_error_on_created:
  "StatusCode created_garbled_response = StatusCreated \<and>
   fst (createRoute answering_created_garbled example_resource example_route []) =
     Returns (RouteResourceModel_zero,
              Some ''error unmarshaling response: invalid character in JSON'')"
  by (simp add: createRoute_def helper_defs answering_created_garbled_def
      created_garbled_response_def runtime_answering_def no_decode_def StatusCreated_def)

text \<open>
  C2, amended. Once its request has been created and answered, every CRUD helper returns
  an error exactly when the status of the response differs from the one expected for its
  verb (201 Created for create, 200 OK for read and update, 204 No Content for delete)
  or, for create, read and update, the body of the response cannot be read or decoded;
  without an error these helpers return what the body decodes to. A helper that returns
  an error returns no resource data with it: the zero model, or nil.
\<close>

theorem crud_helpers_error_iff:
  "(json_Marshal rt (createRouteRequest plan) = Inr body \<and>
    NewRequest_error rt ''POST'' (routes_url r) = None \<and>
    client_Do rt sent (json_request ''POST'' (routes_url r) r (Some body)) = Inr resp \<longrightarrow>
      (run_error (fst (createRoute rt r plan sent)) \<noteq> None) =
      (StatusCode resp \<noteq> StatusCreated \<or> snd (ReadAll resp) \<noteq> None \<or>
       isl (json_Unmarshal rt (fst (ReadAll resp))))) \<and>
   (json_Marshal rt (createRouteRequest plan) = Inr body \<and>
    NewRequest_error rt ''POST'' (routes_url r) = None \<and>
    client_Do rt sent (json_request ''POST'' (routes_url r) r (Some body)) = Inr resp \<and>
    StatusCode resp = StatusCreated \<and>
    snd (ReadAll resp) = None \<and>
    json_Unmarshal rt (fst (ReadAll resp)) = Inr apiResponse \<longrightarrow>
      fst (createRoute rt r plan sent) =
        (case mapRouteResponseToModel apiResponse of Panics \<Rightarrow> Panics
      | Returns model \<Rightarrow> Returns (model, None))) \<and>
   (run_error (fst (createRoute rt r plan sent)) \<noteq> None \<longrightarrow>
      zero_model_and_error (fst (createRoute rt r plan sent))) \<and>
   (NewRequest_error rt ''GET'' (route_url r ident) = None \<and>
    client_Do rt sent (bearer_request ''GET'' (route_url r ident) r) = Inr resp \<longrightarrow>
      (snd (fst (readRoute rt r ident sent)) \<noteq> None) =
      (StatusCode resp \<noteq> StatusOK \<or> isl (Decode rt resp))) \<and>
   (NewRequest_error rt ''GET'' (route_url r ident) = None \<and>
    client_Do rt sent (bearer_request ''GET'' (route_url r ident) r) = Inr resp \<and>
    StatusCode resp = StatusOK \<and>
    Decode rt resp = Inr route \<longrightarrow>
      fst (readRoute rt r ident sent) =
        (Some route, None)) \<and>
   (snd (fst (readRoute rt r ident sent)) \<noteq> None \<longrightarrow>
      nil_and_error (fst (readRoute rt r ident sent))) \<and>
   (json_Marshal rt (updateRouteRequest plan) = Inr body \<and>
    NewRequest_error rt ''PUT'' (route_url r (ValueString (r_ID plan))) = None \<and>
    client_Do rt sent (json_request ''PUT'' (route_url r (ValueString (r_ID plan))) r (Some body)) = Inr resp \<longrightarrow>
      (run_error (fst (updateRoute rt r plan sent)) \<noteq> None) =
      (StatusCode resp \<noteq> StatusOK \<or> snd (ReadAll resp) \<noteq> None \<or>
       isl (json_Unmarshal rt (fst (ReadAll resp))))) \<and>
   (json_Marshal rt (updateRouteRequest plan) = Inr body \<and>
    NewRequest_error rt ''PUT'' (route_url r (ValueString (r_ID plan))) = None \<and>
    client_Do rt sent (json_request ''PUT'' (route_url r (ValueString (r_ID plan))) r (Some body)) = Inr resp \<and>
    StatusCode resp = StatusOK \<and>
    snd (ReadAll resp) = None \<and>
    json_Unmarshal rt (fst (ReadAll resp)) = Inr apiResponse \<longrightarrow>
      fst (updateRoute rt r plan sent) =
        (case mapRouteResponseToModel apiResponse of Panics \<Rightarrow> Panics
      | Returns model \<Rightarrow> Returns (model, None))) \<and>
   (run_error (fst (updateRoute rt r plan sent)) \<noteq> None \<longrightarrow>
      zero_model_and_error (fst (updateRoute rt r plan sent))) \<and>
   (NewRequest_error rt ''DELETE'' (route_url r ident) = None \<and>
    client_Do rt sent (bearer_request ''DELETE'' (route_url r ident) r) = Inr resp \<longrightarrow>
      (fst (deleteRoute rt r ident sent) \<noteq> None) =
      (StatusCode resp \<noteq> StatusNoContent)) \<and>
   (json_Marshal rtpc cpolicy = Inr body \<and>
    NewRequest_error rtpc ''POST'' (policies_url r) = None \<and>
    client_Do rtpc sent (json_request ''POST'' (policies_url r) r (Some body)) = Inr resp \<longrightarrow>
      (snd (fst (createPolicy rtpc r cpolicy sent)) \<noteq> None) =
      (StatusCode resp \<noteq> StatusCreated \<or> snd (ReadAll resp) \<noteq> None \<or>
       isl (json_Unmarshal rtpc (fst (ReadAll resp))))) \<and>
   (json_Marshal rtpc cpolicy = Inr body \<and>
    NewRequest_error rtpc ''POST'' (policies_url r) = None \<and>
    client_Do rtpc sent (json_request ''POST'' (policies_url r) r (Some body)) = Inr resp \<and>
    StatusCode resp = StatusCreated \<and>
    snd (ReadAll resp) = None \<and>
    json_Unmarshal rtpc (fst (ReadAll resp)) = Inr policy \<longrightarrow>
      fst (createPolicy rtpc r cpolicy sent) =
        (Some policy, None)) \<and>
   (snd (fst (createPolicy rtpc r cpolicy sent)) \<noteq> None \<longrightarrow>
      nil_and_error (fst (createPolicy rtpc r cpolicy sent))) \<and>
   (NewRequest_error rtpc ''GET'' (policy_url r ident) = None \<and>
    client_Do rtpc sent (json_request ''GET'' (policy_url r ident) r None) = Inr resp \<longrightarrow>
      (snd (fst (getPolicy rtpc r ident sent)) \<noteq> None) =
      (StatusCode resp \<noteq> StatusOK \<or> isl (Decode rtpc resp))) \<and>
   (NewRequest_error rtpc ''GET'' (policy_url r ident) = None \<and>
    client_Do rtpc sent (json_request ''GET'' (policy_url r ident) r None) = Inr resp \<and>
    StatusCode resp = StatusOK \<and>
    Decode rtpc resp = Inr policy \<longrightarrow>
      fst (getPolicy rtpc r ident sent) =
        (Some policy, None)) \<and>
   (snd (fst (getPolicy rtpc r ident sent)) \<noteq> None \<longrightarrow>
      nil_and_error (fst (getPolicy rtpc r ident sent))) \<and>
   (json_Marshal rtpu upolicy = Inr body \<and>
    NewRequest_error rtpu ''PUT'' (policy_url r ident) = None \<and>
    client_Do rtpu sent (json_request ''PUT'' (policy_url r ident) r (Some body)) = Inr resp \<longrightarrow>
      (snd (fst (updatePolicy rtpu r ident upolicy sent)) \<noteq> None) =
      (StatusCode resp \<noteq> StatusOK \<or> snd (ReadAll resp) \<noteq> None \<or>
       isl (json_Unmarshal rtpu (fst (ReadAll resp))))) \<and>
   (json_Marshal rtpu upolicy = Inr body \<and>
    NewRequest_error rtpu ''PUT'' (policy_url r ident) = None \<and>
    client_Do rtpu sent (json_request ''PUT'' (policy_url r ident) r (Some body)) = Inr resp \<and>
    StatusCode resp = StatusOK \<and>
    snd (ReadAll resp) = None \<and>
    json_Unmarshal rtpu (fst (ReadAll resp)) = Inr policy \<longrightarrow>
      fst (updatePolicy rtpu r ident upolicy sent) =
        (Some policy, None)) \<and>
   (snd (fst (updatePolicy rtpu r ident upolicy sent)) \<noteq> None \<longrightarrow>
      nil_and_error (fst (updatePolicy rtpu r ident upolicy sent))) \<and>
   (NewRequest_error rtpu ''DELETE'' (policy_url r ident) = None \<and>
    client_Do rtpu sent (bearer_request ''DELETE'' (policy_url r ident) r) = Inr resp \<longrightarrow>
      (fst (deletePolicy rtpu r ident sent) \<noteq> None) =
      (StatusCode resp \<noteq> StatusNoContent)) \<and>
   (json_Marshal rtsc csettings = Inr body \<and>
    NewRequest_error rtsc ''POST'' (settings_url r (ccr_ID csettings)) = None \<and>
    client_Do rtsc sent (json_request ''POST'' (settings_url r (ccr_ID csettings)) r (Some body)) = Inr resp \<longrightarrow>
      (snd (fst (createClusterSettings rtsc r csettings sent)) \<noteq> None) =
      (StatusCode resp \<noteq> StatusCreated \<or> isl (Decode rtsc resp))) \<and>
   (json_Marshal rtsc csettings = Inr body \<and>
    NewRequest_error rtsc ''POST'' (settings_url r (ccr_ID csettings)) = None \<and>
    client_Do rtsc sent (json_request ''POST'' (settings_url r (ccr_ID csettings)) r (Some body)) = Inr resp \<and>
    StatusCode resp = StatusCreated \<and>
    Decode rtsc resp = Inr settings \<longrightarrow>
      fst (createClusterSettings rtsc r csettings sent) =
        (Some settings, None)) \<and>
   (snd (fst (createClusterSettings rtsc r csettings sent)) \<noteq> None \<longrightarrow>
      nil_and_error (fst (createClusterSettings rtsc r csettings sent))) \<and>
   (NewRequest_error rtsc ''GET'' (settings_url r ident) = None \<and>
    client_Do rtsc sent (json_request ''GET'' (settings_url r ident) r None) = Inr resp \<longrightarrow>
      (snd (fst (getClusterSettings rtsc r ident sent)) \<noteq> None) =
      (StatusCode resp \<noteq> StatusOK \<or> isl (Decode rtsc resp))) \<and>
   (NewRequest_error rtsc ''GET'' (settings_url r ident) = None \<and>
    client_Do rtsc sent (json_request ''GET'' (settings_url r ident) r None) = Inr resp \<and>
    StatusCode resp = StatusOK \<and>
    Decode rtsc resp = Inr settings \<longrightarrow>
      fst (getClusterSettings rtsc r ident sent) =
        (Some (settings\<lparr>cs_ID := ident\<rparr>), None)) \<and>
   (snd (fst (getClusterSettings rtsc r ident sent)) \<noteq> None \<longrightarrow>
      nil_and_error (fst (getClusterSettings rtsc r ident sent))) \<and>
   (json_Marshal rtsu usettings = Inr body \<and>
    NewRequest_error rtsu ''PUT'' (settings_url r ident) = None \<and>
    client_Do rtsu sent (json_request ''PUT'' (settings_url r ident) r (Some body)) = Inr resp \<longrightarrow>
      (snd (fst (updateClusterSettings rtsu r ident usettings sent)) \<noteq> None) =
      (StatusCode resp \<noteq> StatusOK \<or> isl (Decode rtsu resp))) \<and>
   (json_Marshal rtsu usettings = Inr body \<and>
    NewRequest_error rtsu ''PUT'' (settings_url r ident) = None \<and>
    client_Do rtsu sent (json_request ''PUT'' (settings_url r ident) r (Some body)) = Inr resp \<and>
    StatusCode resp = StatusOK \<and>
    Decode rtsu resp = Inr settings \<longrightarrow>
      fst (updateClusterSettings rtsu r ident usettings sent) =
        (Some settings, None)) \<and>
   (snd (fst (updateClusterSettings rtsu r ident usettings sent)) \<noteq> None \<longrightarrow>
      nil_and_error (fst (updateClusterSettings rtsu r ident usettings sent))) \<and>
   (NewRequest_error rtsu ''DELETE'' (settings_url r ident) = None \<and>
    client_Do rtsu sent (bearer_request ''DELETE'' (settings_url r ident) r) = Inr resp \<longrightarrow>
      (fst (deleteClusterSettings rtsu r ident sent) \<noteq> None) =
      (StatusCode resp \<noteq> StatusNoContent))"
  by (intro conjI impI; (elim conjE)?)
     (simp_all only: simp_thms
       createRoute_error_iff
       createRoute_success
       createRoute_error_no_data
       readRoute_error_iff
       readRoute_success
       readRoute_error_no_data
       updateRoute_error_iff
       updateRoute_success
       updateRoute_error_no_data
       deleteRoute_error_iff
       createPolicy_error_iff
       createPolicy_success
       createPolicy_error_no_data
       getPolicy_error_iff
       getPolicy_success
       getPolicy_error_no_data
       updatePolicy_error_iff
       updatePolicy_success
       updatePolicy_error_no_data
       deletePolicy_error_iff
       createClusterSettings_error_iff
       createClusterSettings_success
       createClusterSettings_error_no_data
       getClusterSettings_error_iff
       getClusterSettings_success
       getClusterSettings_error_no_data
       updateClusterSettings_error_iff
       updateClusterSettings_success
       updateClusterSettings_error_no_data
       deleteClusterSettings_error_iff)

theorem crud_helpers_error_iff_witness:
  "run_error (fst (createRoute answering_not_found example_resource example_route [])) \<noteq> None \<and>
   zero_model_and_error (fst (createRoute answering_not_found example_resource example_route [])) \<and>
   run_error (fst (createRoute answering_created_garbled example_resource example_route [])) \<noteq>
     None \<and>
   snd (fst (readRoute answering_not_found example_resource ''r1'' [])) \<noteq> None \<and>
   fst (deleteRoute answering_not_found example_resource ''r1'' []) \<noteq> None \<and>
   fst (deleteRoute answering_no_content example_resource ''r1'' []) = None \<and>
   fst (createRoute answering_created example_resource example_route []) =
     (case mapRouteResponseToModel stored_route of Panics \<Rightarrow> Panics
      | Returns model \<Rightarrow> Returns (model, None)) \<and>
   mapRouteResponseToModel stored_route \<noteq> Panics"
proof -
  have missing:
    "json_Marshal answering_not_found (createRouteRequest example_route) = Inr ''{}''"
    "NewRequest_error answering_not_found ''POST'' (routes_url example_resource) = None"
    "NewRequest_error answering_not_found ''GET'' (route_url example_resource ''r1'') = None"
    "NewRequest_error answering_not_found ''DELETE'' (route_url example_resource ''r1'') = None"
    "client_Do answering_not_found []
       (json_request ''POST'' (routes_url example_resource) example_resource (Some ''{}'')) =
       Inr not_found_response"
    "client_Do answering_not_found []
       (bearer_request ''GET'' (route_url example_resource ''r1'') example_resource) =
       Inr not_found_response"
    "client_Do answering_not_found []
       (bearer_request ''DELETE'' (route_url example_resource ''r1'') example_resource) =
       Inr not_found_response"
    "StatusCode not_found_response \<noteq> StatusCreated"
    "StatusCode not_found_response \<noteq> StatusOK"
    "StatusCode not_found_response \<noteq> StatusNoContent"
    by (simp_all add: answering_not_found_def runtime_answering_def not_found_response_def
        StatusCreated_def StatusOK_def StatusNoContent_def)
  have garbled:
    "json_Marshal answering_created_garbled (createRouteRequest example_route) = Inr ''{}''"
    "NewRequest_error answering_created_garbled ''POST'' (routes_url example_resource) = None"
    "client_Do answering_created_garbled []
       (json_request ''POST'' (routes_url example_resource) example_resource (Some ''{}'')) =
       Inr created_garbled_response"
    "isl (json_Unmarshal answering_created_garbled (fst (ReadAll created_garbled_response)))"
    by (simp_all add: answering_created_garbled_def runtime_answering_def no_decode_def)
  have gone:
    "NewRequest_error answering_no_content ''DELETE'' (route_url example_resource ''r1'') = None"
    "client_Do answering_no_content []
       (bearer_request ''DELETE'' (route_url example_resource ''r1'') example_resource) =
       Inr no_content_response"
    "StatusCode no_content_response = StatusNoContent"
    by (simp_all add: answering_no_content_def runtime_answering_def no_content_response_def
        StatusNoContent_def)
  have created:
    "json_Marshal answering_created (createRouteRequest example_route) = Inr example_route_json"
    "NewRequest_error answering_created ''POST'' (routes_url example_resource) = None"
    "client_Do answering_created []
       (json_request ''POST'' (routes_url example_resource) example_resource
          (Some example_route_json)) = Inr created_response"
    "StatusCode created_response = StatusCreated"
    "snd (ReadAll created_response) = None"
    "json_Unmarshal answering_created (fst (ReadAll created_response)) = Inr stored_route"
    by (simp_all add: answering_created_def runtime_answering_def example_marshal
        created_response_def StatusCreated_def ReadAll_def)
  have "run_error (fst (createRoute answering_not_found example_resource example_route [])) \<noteq>
          None"
    and "zero_model_and_error
           (fst (createRoute answering_not_found example_resource example_route []))"
    and "snd (fst (readRoute answering_not_found example_resource ''r1'' [])) \<noteq> None"
    and "fst (deleteRoute answering_not_found example_resource ''r1'' []) \<noteq> None"
    using missing
      crud_helpers_error_iff [where rt = answering_not_found and r = example_resource
        and plan = example_route and sent = "[]" and ident = "''r1''" and body = "''{}''"
        and resp = not_found_response]
    by simp_all
  moreover
  have "run_error
          (fst (createRoute answering_created_garbled example_resource example_route [])) \<noteq>
        None"
    using garbled
      crud_helpers_error_iff [where rt = answering_created_garbled and r = example_resource
        and plan = example_route and sent = "[]" and body = "''{}''"
        and resp = created_garbled_response]
    by simp
  moreover
  have "fst (deleteRoute answering_no_content example_resource ''r1'' []) = None"
    using gone
      crud_helpers_error_iff [where rt = answering_no_content and r = example_resource
        and sent = "[]" and ident = "''r1''" and resp = no_content_response]
    by simp
  moreover
  have "fst (createRoute answering_created example_resource example_route []) =
     (case mapRouteResponseToModel stored_route of Panics \<Rightarrow> Panics
      | Returns model \<Rightarrow> Returns (model, None))"
    using created
      crud_helpers_error_iff [where rt = answering_created and r = example_resource
        and plan = example_route and sent = "[]" and body = example_route_json
        and resp = created_response and apiResponse = stored_route]
    by simp
  moreover
  have "mapRouteResponseToModel stored_route \<noteq> Panics"
    by (simp add: mapRouteResponseToModel_Panics_iff stored_route_def)
  ultimately show ?thesis by simp
qed

section \<open>The provider: exactly one organization\<close>

lemma singleton_list_iff: "(\<exists>x. xs = [x]) = (length xs = 1)"
  by (cases xs) auto

lemma getOrganizationID_success_iff:
  "(snd (fst (getOrganizationID rt p_token sent)) = None) =
     (NewRequest_error rt ''GET'' organizationsEndpoint = None \<and>
      (\<exists>resp org. client_Do rt sent (organizations_request p_token) = Inr resp \<and>
         StatusCode resp = StatusOK \<and> Decode rt resp = Inr [org]))"
proof (cases "NewRequest_error rt ''GET'' organizationsEndpoint")
  case (Some err)
  then show ?thesis by (simp add: getOrganizationID_def NewRequestWithContext_def)
next
  case None
  show ?thesis
  proof (cases "client_Do rt sent (organizations_request p_token)")
    case (Inl err)
    with None show ?thesis
      by (simp add: getOrganizationID_def NewRequestWithContext_def Do_def Header_Add_def
          organizations_request_def Let_def)
  next
    case (Inr resp)
    with None show ?thesis
      by (cases "Decode rt resp")
         (auto simp: getOrganizationID_def NewRequestWithContext_def Do_def Header_Add_def
            organizations_request_def singleton_list_iff Let_def)
  qed
qed

lemma getOrganizationID_answered:
  assumes "NewRequest_error rt ''GET'' organizationsEndpoint = None"
    and "client_Do rt sent (organizations_request p_token) = Inr resp"
    and "StatusCode resp = StatusOK" and "Decode rt resp = Inr orgs"
  shows "fst (getOrganizationID rt p_token sent) =
           (if length orgs \<noteq> 1 then ([], Some ''unexpected number of organizations returned'')
            else (org_ID (orgs ! 0), None))"
  using assms
  by (simp add: getOrganizationID_def NewRequestWithContext_def Do_def Header_Add_def
      organizations_request_def Let_def)

lemma getOrganizationID_error_no_id:
  "snd (fst (getOrganizationID rt p_token sent)) \<noteq> None \<Longrightarrow>
   fst (fst (getOrganizationID rt p_token sent)) = []"
  by (simp add: getOrganizationID_def NewRequestWithContext_def Do_def Let_def
      split: sum.splits option.splits if_splits)

text \<open>
  C4. \<^verbatim>\<open>getOrganizationID\<close> succeeds exactly when the organizations endpoint answers its
  request with 200 OK and a body that decodes to a list of exactly one organization, and
  then it returns that organization's id. For a decoded list of any other length, zero
  or more than one, it returns the error \<^verbatim>\<open>unexpected number of organizations returned\<close>;
  with every error it returns the empty string, no identifier.
\<close>

theorem getOrganizationID_exactly_one:
  "((snd (fst (getOrganizationID rt p_token sent)) = None) =
      (NewRequest_error rt ''GET'' organizationsEndpoint = None \<and>
       (\<exists>resp org. client_Do rt sent (organizations_request p_token) = Inr resp \<and>
          StatusCode resp = StatusOK \<and> Decode rt resp = Inr [org]))) \<and>
   (\<forall>resp org.
      NewRequest_error rt ''GET'' organizationsEndpoint = None \<and>
      client_Do rt sent (organizations_request p_token) = Inr resp \<and>
      StatusCode resp = StatusOK \<and> Decode rt resp = Inr [org] \<longrightarrow>
      fst (getOrganizationID rt p_token sent) = (org_ID org, None)) \<and>
   (\<forall>resp orgs.
      NewRequest_error rt ''GET'' organizationsEndpoint = None \<and>
      client_Do rt sent (organizations_request p_token) = Inr resp \<and>
      StatusCode resp = StatusOK \<and> Decode rt resp = Inr orgs \<and> length orgs \<noteq> 1 \<longrightarrow>
      fst (getOrganizationID rt p_token sent) =
        ([], Some ''unexpected number of organizations returned'')) \<and>
   (snd (fst (getOrganizationID rt p_token sent)) \<noteq> None \<longrightarrow>
      fst (fst (getOrganizationID rt p_token sent)) = [])"
proof (intro conjI allI impI)
  show "(snd (fst (getOrganizationID rt p_token sent)) = None) =
      (NewRequest_error rt ''GET'' organizationsEndpoint = None \<and>
       (\<exists>resp org. client_Do rt sent (organizations_request p_token) = Inr resp \<and>
          StatusCode resp = StatusOK \<and> Decode rt resp = Inr [org]))"
    by (rule getOrganizationID_success_iff)
next
  fix resp org
  assume "NewRequest_error rt ''GET'' organizationsEndpoint = None \<and>
      client_Do rt sent (organizations_request p_token) = Inr resp \<and>
      StatusCode resp = StatusOK \<and> Decode rt resp = Inr [org]"
  then show "fst (getOrganizationID rt p_token sent) = (org_ID org, None)"
    using getOrganizationID_answered [of rt sent p_token resp "[org]"] by simp
next
  fix resp orgs
  assume "NewRequest_error rt ''GET'' organizationsEndpoint = None \<and>
      client_Do rt sent (organizations_request p_token) = Inr resp \<and>
      StatusCode resp = StatusOK \<and> Decode rt resp = Inr orgs \<and> length orgs \<noteq> 1"
  then show "fst (getOrganizationID rt p_token sent) =
        ([], Some ''unexpected number of organizations returned'')"
    using getOrganizationID_answered [of rt sent p_token resp orgs] by simp
next
  assume "snd (fst (getOrganizationID rt p_token sent)) \<noteq> None"
  then show "fst (fst (getOrganizationID rt p_token sent)) = []"
    by (rule getOrganizationID_error_no_id)
qed

theorem getOrganizationID_exactly_one_witness:
  "fst (getOrganizationID one_organization ''t0'' []) = (''org1'', None) \<and>
   fst (getOrganizationID two_organizations ''t0'' []) =
     ([], Some ''unexpected number of organizations returned'') \<and>
   fst (getOrganizationID no_organization ''t0'' []) =
     ([], Some ''unexpected number of organizations returned'')"
proof -
  have "fst (getOrganizationID one_organization ''t0'' []) = (org_ID \<lparr>org_ID = ''org1''\<rparr>, None)"
    using getOrganizationID_exactly_one [of one_organization "''t0''" "[]"]
    by (simp add: one_organization_def runtime_answering_def organizations_response_def
        Decode_def StatusOK_def)
  moreover
  have "fst (getOrganizationID two_organizations ''t0'' []) =
          ([], Some ''unexpected number of organizations returned'')"
    using getOrganizationID_exactly_one [of two_organizations "''t0''" "[]"]
    by (simp add: two_organizations_def runtime_answering_def organizations_response_def
        Decode_def StatusOK_def)
  moreover
  have "fst (getOrganizationID no_organization ''t0'' []) =
          ([], Some ''unexpected number of organizations returned'')"
    using getOrganizationID_exactly_one [of no_organization "''t0''" "[]"]
    by (simp add: no_organization_def runtime_answering_def organizations_response_def
        Decode_def StatusOK_def)
  ultimately show ?thesis by simp
qed

section \<open>Policies: a failing read\<close>

lemma Contains_Cons_mem: "Contains s (c # sub) \<Longrightarrow> c \<in> set s"
  by (induction s) auto

lemma show_nat_no_p: "CHR ''p'' \<notin> set (show_nat n)"
proof (induction n rule: show_nat.induct)
  case (1 n)
  show ?case
  proof (cases "n < 10")
    case True
    then show ?thesis by (subst show_nat.simps) (simp add: digit_def)
  next
    case False
    with 1 show ?thesis by (subst show_nat.simps) (simp add: digit_def)
  qed
qed

lemma show_int_no_p: "CHR ''p'' \<notin> set (show_int i)"
  by (simp add: show_int_def show_nat_no_p)

lemma show_int_not_found: "\<not> Contains (show_int i) ''policy not found''"
  using Contains_Cons_mem [of "show_int i" "CHR ''p''" "''olicy not found''"] show_int_no_p [of i]
  by auto

lemma wrapped_Contains:
  "Contains (''error creating request: '' @ e) ''policy not found'' =
     Contains e ''policy not found''"
  "Contains (''error making request: '' @ e) ''policy not found'' =
     Contains e ''policy not found''"
  "Contains (''error decoding response: '' @ e) ''policy not found'' =
     Contains e ''policy not found''"
  by simp_all

lemma status_not_Contains:
  "\<not> Contains (''unexpected status code: '' @ show_int i) ''policy not found''"
  using show_int_not_found [of i] by simp

lemma show_int_404: "show_int 404 = ''404''"
  by (simp add: show_int_def show_nat.simps [of 404] show_nat.simps [of 40]
      show_nat.simps [of 4] digit_def)

lemma getPolicy_error_cases:
  assumes "snd (fst (getPolicy rt r policyID sent)) = Some err"
  obtains (creating) e where "err = ''error creating request: '' @ e"
    | (making) e where "err = ''error making request: '' @ e"
    | (status) i where "err = ''unexpected status code: '' @ show_int i"
    | (decoding) e where "err = ''error decoding response: '' @ e"
  using assms
  by (auto simp del: append.simps simp: getPolicy_def helper_defs
      split: sum.splits option.splits if_splits)

lemma getPolicy_error_forms:
  assumes "snd (fst (getPolicy rt r policyID sent)) = Some err"
  shows "(\<exists>e. err = ''error creating request: '' @ e) \<or>
         (\<exists>e. err = ''error making request: '' @ e) \<or>
         (\<exists>i. err = ''unexpected status code: '' @ show_int i) \<or>
         (\<exists>e. err = ''error decoding response: '' @ e)"
  using assms by (rule getPolicy_error_cases) blast+

lemma getPolicy_never_nil_nil:
  "fst (getPolicy rt r policyID sent) \<noteq> (None, None)"
  by (simp add: getPolicy_def helper_defs split: sum.splits option.splits)

lemma PolicyResource_Read_unexpected_status:
  assumes "NewRequest_error rt = (\<lambda>method url. None)"
    and "client_Do rt sent = (\<lambda>req. Inr resp)" and "StatusCode resp \<noteq> StatusOK"
  shows "fst (PolicyResource_Read rt r state sent) =
           Returns \<lparr>State = Some state,
                    Diagnostics = [(''Error reading policy'',
                                    ''unexpected status code: '' @ show_int (StatusCode resp))]\<rparr>"
proof -
  have "fst (getPolicy rt r (ValueString (pm_ID state)) sent) =
          (None, Some (''unexpected status code: '' @ show_int (StatusCode resp)))"
    using assms by (simp add: getPolicy_def helper_defs)
  then show ?thesis
    using status_not_Contains [of "StatusCode resp"]
    by (cases "getPolicy rt r (ValueString (pm_ID state)) sent")
       (simp add: PolicyResource_Read_def)
qed

lemma PolicyResource_Read_removed:
  assumes "fst (PolicyResource_Read rt r state sent) = Returns resp" and "State resp = None"
  shows "\<exists>e. Contains e ''policy not found'' \<and>
           (snd (fst (getPolicy rt r (ValueString (pm_ID state)) sent)) =
              Some (''error creating request: '' @ e) \<or>
            snd (fst (getPolicy rt r (ValueString (pm_ID state)) sent)) =
              Some (''error making request: '' @ e) \<or>
            snd (fst (getPolicy rt r (ValueString (pm_ID state)) sent)) =
              Some (''error decoding response: '' @ e))"
proof -
  obtain policy err sent' where g:
    "getPolicy rt r (ValueString (pm_ID state)) sent = ((policy, err), sent')"
    by (metis surj_pair)
  with assms obtain msg where msg: "err = Some msg" and c: "Contains msg ''policy not found''"
    by (auto simp: PolicyResource_Read_def Let_def split: option.splits if_splits)
  from g msg have s: "snd (fst (getPolicy rt r (ValueString (pm_ID state)) sent)) = Some msg"
    by simp
  from s show ?thesis
  proof (cases rule: getPolicy_error_cases)
    case (creating e)
    with c have "Contains e ''policy not found''" by (simp only: wrapped_Contains)
    with s creating show ?thesis by blast
  next
    case (making e)
    with c have "Contains e ''policy not found''" by (simp only: wrapped_Contains)
    with s making show ?thesis by blast
  next
    case (status i)
    with c status_not_Contains [of i] show ?thesis by (simp only:)
  next
    case (decoding e)
    with c have "Contains e ''policy not found''" by (simp only: wrapped_Contains)
    with s decoding show ?thesis by blast
  qed
qed

text \<open>
  C8, as the claim states it, fails: the text of a wrapped library error is part of the
  error's text. When the transport error ends with \<^verbatim>\<open>policy not found\<close>, as it does when an
  HTTPS proxy refuses the CONNECT with that reason phrase, \<^verbatim>\<open>PolicyResource.Read\<close> takes the
  branch and removes the policy from the state without a diagnostic.
\<close>

theorem PolicyResource_Read_removes_on_wrapped_text:
  "fst (PolicyResource_Read proxy_refusing example_resource example_policy_state []) =
     Returns \<lparr>State = None, Diagnostics = []\<rparr>"
  by (simp add: PolicyResource_Read_def getPolicy_def helper_defs proxy_refusing_def
      runtime_answering_def)

text \<open>
  C8, amended. Every error of \<^verbatim>\<open>getPolicy\<close> is \<^verbatim>\<open>error creating request: E\<close>,
  \<^verbatim>\<open>error making request: E\<close>, \<^verbatim>\<open>unexpected status code: N\<close> or \<^verbatim>\<open>error decoding response: E\<close>,
  with \<open>E\<close> the text of the wrapped library error and \<open>N\<close> a number. The status error never
  contains \<^verbatim>\<open>policy not found\<close>, and a wrapping error contains it only when \<open>E\<close> does. So a
  read answered with a status other than 200, a 404 for a remotely deleted policy
  included, reports an error and keeps the state; the branch that removes the policy is
  taken only on a wrapped library error whose own text contains \<^verbatim>\<open>policy not found\<close>.
\<close>

theorem PolicyResource_Read_keeps_state:
  "(\<forall>err. snd (fst (getPolicy rt r policyID sent)) = Some err \<longrightarrow>
      (\<exists>e. err = ''error creating request: '' @ e) \<or>
      (\<exists>e. err = ''error making request: '' @ e) \<or>
      (\<exists>i. err = ''unexpected status code: '' @ show_int i) \<or>
      (\<exists>e. err = ''error decoding response: '' @ e)) \<and>
   Contains (''error creating request: '' @ e) ''policy not found'' =
     Contains e ''policy not found'' \<and>
   Contains (''error making request: '' @ e) ''policy not found'' =
     Contains e ''policy not found'' \<and>
   Contains (''error decoding response: '' @ e) ''policy not found'' =
     Contains e ''policy not found'' \<and>
   \<not> Contains (''unexpected status code: '' @ show_int i) ''policy not found'' \<and>
   (NewRequest_error rt = (\<lambda>method url. None) \<and> client_Do rt sent = (\<lambda>req. Inr resp) \<and>
    StatusCode resp \<noteq> StatusOK \<longrightarrow>
      fst (PolicyResource_Read rt r state sent) =
        Returns \<lparr>State = Some state,
                 Diagnostics = [(''Error reading policy'',
                                 ''unexpected status code: '' @ show_int (StatusCode resp))]\<rparr>) \<and>
   (\<forall>res. fst (PolicyResource_Read rt r state sent) = Returns res \<and> State res = None \<longrightarrow>
      (\<exists>e. Contains e ''policy not found'' \<and>
         (snd (fst (getPolicy rt r (ValueString (pm_ID state)) sent)) =
            Some (''error creating request: '' @ e) \<or>
          snd (fst (getPolicy rt r (ValueString (pm_ID state)) sent)) =
            Some (''error making request: '' @ e) \<or>
          snd (fst (getPolicy rt r (ValueString (pm_ID state)) sent)) =
            Some (''error decoding response: '' @ e))))"
proof (intro conjI allI impI)
  fix err
  assume "snd (fst (getPolicy rt r policyID sent)) = Some err"
  then show "(\<exists>e. err = ''error creating request: '' @ e) \<or>
      (\<exists>e. err = ''error making request: '' @ e) \<or>
      (\<exists>i. err = ''unexpected status code: '' @ show_int i) \<or>
      (\<exists>e. err = ''error decoding response: '' @ e)"
    by (rule getPolicy_error_forms)
next
  assume "NewRequest_error rt = (\<lambda>method url. None) \<and> client_Do rt sent = (\<lambda>req. Inr resp) \<and>
    StatusCode resp \<noteq> StatusOK"
  then show "fst (PolicyResource_Read rt r state sent) =
        Returns \<lparr>State = Some state,
                 Diagnostics = [(''Error reading policy'',
                                 ''unexpected status code: '' @ show_int (StatusCode resp))]\<rparr>"
    by (simp add: PolicyResource_Read_unexpected_status)
next
  fix res
  assume "fst (PolicyResource_Read rt r state sent) = Returns res \<and> State res = None"
  then show "\<exists>e. Contains e ''policy not found'' \<and>
         (snd (fst (getPolicy rt r (ValueString (pm_ID state)) sent)) =
            Some (''error creating request: '' @ e) \<or>
          snd (fst (getPolicy rt r (ValueString (pm_ID state)) sent)) =
            Some (''error making request: '' @ e) \<or>
          snd (fst (getPolicy rt r (ValueString (pm_ID state)) sent)) =
            Some (''error decoding response: '' @ e))"
    using PolicyResource_Read_removed [of rt r state sent res] by simp
qed (simp_all only: wrapped_Contains status_not_Contains not_False_eq_True)

theorem PolicyResource_Read_keeps_state_witness:
  "fst (PolicyResource_Read policy_not_found example_resource example_policy_state []) =
     Returns \<lparr>State = Some example_policy_state,
              Diagnostics = [(''Error reading policy'', ''unexpected status code: 404'')]\<rparr> \<and>
   \<not> Contains ''unexpected status code: 404'' ''policy not found''"
proof -
  have "NewRequest_error policy_not_found = (\<lambda>method url. None)"
    and "client_Do policy_not_found [] = (\<lambda>req. Inr not_found_response)"
    and "StatusCode not_found_response \<noteq> StatusOK"
    and "StatusCode not_found_response = 404"
    by (simp_all add: policy_not_found_def runtime_answering_def not_found_response_def
        StatusOK_def)
  then show ?thesis
    using PolicyResource_Read_keeps_state [where rt = policy_not_found and sent = "[]"
        and resp = not_found_response and r = example_resource
        and state = example_policy_state and i = 404]
    by (simp add: show_int_404)
qed

section \<open>Cluster settings: the state and its identifier\<close>













section \<open>The identifier in the state\<close>








end
